theory Spec2Isabelle
  imports Complex_Main
begin

text \<open>
  A model of the point-cloud part of the dataset module \<open>datasets/modal_3d/datasets.py\<close>:
  the two normalisation functions, farthest-point sampling, the augmentation functions
  with their distillation variants, and the methods \<open>__getitem__\<close> of the adapters
  ModelNet, ScanObjectNN and ShapeNet.  The definitions come first, the properties
  proved of them follow.
\<close>


section \<open>Point clouds as arrays of reals\<close>

text \<open>
  A numpy array of shape (N, D) is a list of N rows, each a list of D reals.
  Floating-point numbers are modelled by real numbers.  Rounding is not modelled,
  except in the distances that farthest-point sampling compares.
\<close>

type_synonym point = "real list"
type_synonym cloud = "point list"

text \<open>
  Outcomes that are not a real-valued array.  \<open>ValueError\<close>, \<open>IndexError\<close>,
  \<open>KeyError\<close> and \<open>AssertionError\<close> are the Python exceptions; \<open>IOError\<close> is any
  exception raised while a file is read.  \<open>NonFinite\<close> is not an exception: numpy
  divides by zero with a warning and returns an array holding nan or inf entries, which
  no list of reals represents.
\<close>

datatype error = ValueError | IndexError | KeyError | AssertionError | IOError | NonFinite

text \<open>\<open>np.mean(pc, axis=0)\<close> on a non-empty array: the mean of every column.\<close>

definition np_mean0 :: "cloud \<Rightarrow> point" where
  "np_mean0 pc = map (\<lambda>j. (\<Sum>p\<leftarrow>pc. p ! j) / real (length pc)) [0..<length (hd pc)]"

text \<open>\<open>pc - centroid\<close>: the row vector is subtracted from every row.\<close>

definition sub_row :: "cloud \<Rightarrow> point \<Rightarrow> cloud" where
  "sub_row pc c = map (\<lambda>p. map2 (-) p c) pc"

text \<open>\<open>np.sqrt(np.sum(pc**2, axis=1))\<close>, also \<open>np.linalg.norm(pc, axis=1)\<close>.\<close>

definition row_norm :: "point \<Rightarrow> real" where
  "row_norm p = sqrt (\<Sum>x\<leftarrow>p. x\<^sup>2)"

text \<open>\<open>np.max\<close> of a non-empty vector.\<close>

definition np_max :: "real list \<Rightarrow> real" where
  "np_max xs = fold max (tl xs) (hd xs)"

definition div_all :: "cloud \<Rightarrow> real \<Rightarrow> cloud" where
  "div_all pc m = map (map (\<lambda>x. x / m)) pc"

definition zeros_like :: "cloud \<Rightarrow> cloud" where
  "zeros_like pc = map (map (\<lambda>_. 0)) pc"

text \<open>
  \<open>pc_normalize\<close>: \<open>np.max\<close> of an empty vector raises ValueError.  The division
  is unguarded: with \<open>m = 0\<close> every entry of \<open>pc\<close> is 0 and \<open>0 / 0\<close> is nan.
\<close>

definition pc_normalize :: "cloud \<Rightarrow> error + cloud" where
  "pc_normalize pc0 =
     (if pc0 = [] then Inl ValueError
      else let centroid = np_mean0 pc0;
               pc = sub_row pc0 centroid;
               m = np_max (map row_norm pc)
           in if m = 0 \<and> concat pc \<noteq> [] then Inl NonFinite
              else Inr (div_all pc m))"

definition normalize_pc :: "cloud \<Rightarrow> error + cloud" where
  "normalize_pc pc0 =
     (if pc0 = [] then Inl ValueError
      else let pc = sub_row pc0 (np_mean0 pc0)
           in if np_max (map row_norm pc) < 1 / 10 ^ 6 then Inr (zeros_like pc)
              else Inr (div_all pc (np_max (map row_norm pc))))"


section \<open>Farthest-point sampling\<close>

text \<open>\<open>point[:, :3]\<close>: the first three columns (fewer when the array is narrower).\<close>

definition xyz_of :: "cloud \<Rightarrow> cloud" where
  "xyz_of point = map (take 3) point"

text \<open>
  The sampler compares the distances that floating-point arithmetic gives, so the model
  takes the three operations of the distance as they round: the subtraction, the square
  and the sum over the last axis (a result that overflows is any value above \<open>1e10\<close>).
  Nothing is assumed of them; \<open>exact_arith\<close> is arithmetic without rounding.  The arrays
  hold finite numbers, and comparisons of floats are exact.
\<close>

record float_arith =
  fsub :: "real \<Rightarrow> real \<Rightarrow> real"
  fsquare :: "real \<Rightarrow> real"
  fsum :: "real list \<Rightarrow> real"

definition exact_arith :: float_arith where
  "exact_arith = \<lparr>fsub = (-), fsquare = (\<lambda>x. x\<^sup>2), fsum = sum_list\<rparr>"

text \<open>One entry of \<open>np.sum((xyz - centroid) ** 2, -1)\<close>.\<close>

definition sq_dist :: "float_arith \<Rightarrow> point \<Rightarrow> point \<Rightarrow> real" where
  "sq_dist fa p c = fsum fa (map (fsquare fa) (map2 (fsub fa) p c))"

text \<open>\<open>np.argmax\<close> of a non-empty vector: the index of the first occurrence of the maximum.\<close>

definition np_argmax :: "real list \<Rightarrow> nat" where
  "np_argmax xs = length (takeWhile (\<lambda>x. x \<noteq> np_max xs) xs)"

text \<open>\<open>mask = dist < distance; distance[mask] = dist[mask]\<close>.\<close>

definition update_distance :: "float_arith \<Rightarrow> cloud \<Rightarrow> real list \<Rightarrow> nat \<Rightarrow> real list" where
  "update_distance fa xyz distance farthest =
     (let centroid = xyz ! farthest;
          dist = map (\<lambda>p. sq_dist fa p centroid) xyz
      in map2 (\<lambda>d old. if d < old then d else old) dist distance)"

text \<open>
  The loop \<open>for i in range(npoint)\<close>: the result is the vector \<open>centroids\<close>, the loop
  state is \<open>distance\<close> and \<open>farthest\<close>.
\<close>

fun fps_loop :: "float_arith \<Rightarrow> cloud \<Rightarrow> nat \<Rightarrow> real list \<Rightarrow> nat \<Rightarrow> nat list" where
  "fps_loop fa xyz 0 distance farthest = []"
| "fps_loop fa xyz (Suc n) distance farthest =
     (let distance' = update_distance fa xyz distance farthest
      in farthest # fps_loop fa xyz n distance' (np_argmax distance'))"

text \<open>
  \<open>farthest_point_sample\<close> after the draw \<open>farthest = np.random.randint(0, N)\<close>, which
  raises ValueError when \<open>N = 0\<close> and otherwise returns some index below \<open>N\<close>: the
  drawn index is the argument \<open>start\<close>.
\<close>

definition fps_centroids :: "float_arith \<Rightarrow> cloud \<Rightarrow> nat \<Rightarrow> nat \<Rightarrow> nat list" where
  "fps_centroids fa point npoint start =
     fps_loop fa (xyz_of point) npoint (replicate (length point) (10 ^ 10)) start"

definition farthest_point_sample :: "float_arith \<Rightarrow> cloud \<Rightarrow> nat \<Rightarrow> nat \<Rightarrow> error + cloud" where
  "farthest_point_sample fa point npoint start =
     (if point = [] then Inl ValueError
      else Inr (map (\<lambda>i. point ! i) (fps_centroids fa point npoint start)))"

section \<open>Farthest-point sampling on a heap of arrays\<close>

text \<open>
  To follow which arrays \<open>farthest_point_sample\<close> writes, arrays live in a heap: an
  address is a position in the list, and a new array is appended.  The slice
  \<open>xyz = point[:, :3]\<close> is a view: reading it reads the array at \<open>point\<close>.
\<close>

datatype ndarray = Vec "real list" | Mat "real list list"

type_synonym heap = "ndarray list"

fun vec_of :: "ndarray \<Rightarrow> real list" where
  "vec_of (Vec v) = v"
| "vec_of (Mat m) = []"

fun mat_of :: "ndarray \<Rightarrow> real list list" where
  "mat_of (Mat m) = m"
| "mat_of (Vec v) = []"

definition alloc :: "heap \<Rightarrow> ndarray \<Rightarrow> heap \<times> nat" where
  "alloc h a = (h @ [a], length h)"

text \<open>
  The loop with its two in-place writes, \<open>centroids[i] = farthest\<close> and
  \<open>distance[mask] = dist[mask]\<close>; \<open>point\<close>, \<open>centroids\<close> and \<open>distance\<close> are addresses.
\<close>

fun fps_loop_heap ::
  "float_arith \<Rightarrow> heap \<Rightarrow> nat \<Rightarrow> nat \<Rightarrow> nat \<Rightarrow> nat \<Rightarrow> nat \<Rightarrow> nat \<Rightarrow> heap" where
  "fps_loop_heap fa h point centroids distance 0 i farthest = h"
| "fps_loop_heap fa h point centroids distance (Suc n) i farthest =
     (let h1 = h[centroids := Vec ((vec_of (h ! centroids))[i := real farthest])];
          xyz = xyz_of (mat_of (h1 ! point));
          h2 = h1[distance := Vec (update_distance fa xyz (vec_of (h1 ! distance)) farthest)];
          farthest' = np_argmax (vec_of (h2 ! distance))
      in fps_loop_heap fa h2 point centroids distance n (i + 1) farthest')"

text \<open>
  \<open>centroids\<close> and \<open>distance\<close> are new arrays; the result
  \<open>point[centroids.astype(np.int32)]\<close> is a new array too (indexing by an integer array
  copies), bound to the local name \<open>point\<close>.  The function returns the heap it leaves and
  either the exception or the address of the result.  An input that is not a
  two-dimensional array with at least one row raises ValueError (when unpacking the
  shape, or in the draw of the first index); what is allocated before that is local to
  the call and is gone with it.
\<close>

definition farthest_point_sample_heap ::
  "float_arith \<Rightarrow> heap \<Rightarrow> nat \<Rightarrow> nat \<Rightarrow> nat \<Rightarrow> heap \<times> (error + nat)" where
  "farthest_point_sample_heap fa h point npoint start =
     (if mat_of (h ! point) = [] then (h, Inl ValueError)
      else let N = length (mat_of (h ! point));
               (h1, centroids) = alloc h (Vec (replicate npoint 0));
               (h2, distance) = alloc h1 (Vec (replicate N (10 ^ 10)));
               h3 = fps_loop_heap fa h2 point centroids distance npoint 0 start;
               idx = map (\<lambda>c. nat \<lfloor>c\<rfloor>) (vec_of (h3 ! centroids));
               (h4, result) = alloc h3 (Mat (map (\<lambda>i. mat_of (h3 ! point) ! i) idx))
           in (h4, Inr result))"

section \<open>Random-number sources\<close>

text \<open>
  A numpy \<open>RandomState\<close> is modelled by the values it is going to return: \<open>floats\<close> are
  the successive floating-point draws (a uniform draw from \<open>[0, 1)\<close> for
  \<open>random\<close>, \<open>rand\<close> and \<open>uniform\<close>, a standard normal draw for \<open>randn\<close>), \<open>ints\<close> the
  successive integer draws.  Drawing returns the next values and the state after them.
\<close>

record random_state =
  floats :: "nat \<Rightarrow> real"
  ints :: "nat \<Rightarrow> nat"

definition draw_floats :: "nat \<Rightarrow> random_state \<Rightarrow> real list \<times> random_state" where
  "draw_floats n g = (map (floats g) [0..<n], g\<lparr>floats := \<lambda>k. floats g (k + n)\<rparr>)"

text \<open>\<open>np.random.random()\<close> and \<open>np.random.random(n)\<close>.\<close>

definition np_random_random :: "random_state \<Rightarrow> real \<times> random_state" where
  "np_random_random g = (let (us, g') = draw_floats 1 g in (us ! 0, g'))"

definition np_random_random_n :: "nat \<Rightarrow> random_state \<Rightarrow> real list \<times> random_state" where
  "np_random_random_n n g = draw_floats n g"

text \<open>\<open>rand()\<close> and \<open>rand(n)\<close>: numpy defines \<open>rand\<close> through \<open>random_sample\<close>.\<close>

definition np_rand :: "random_state \<Rightarrow> real \<times> random_state" where
  "np_rand g = (let (us, g') = draw_floats 1 g in (us ! 0, g'))"

definition np_rand_n :: "nat \<Rightarrow> random_state \<Rightarrow> real list \<times> random_state" where
  "np_rand_n n g = draw_floats n g"

text \<open>\<open>uniform(low, high, n)\<close>: numpy computes \<open>low + (high - low) * u\<close> for a draw \<open>u\<close>.\<close>

definition np_uniform :: "real \<Rightarrow> real \<Rightarrow> nat \<Rightarrow> random_state \<Rightarrow> real list \<times> random_state" where
  "np_uniform low high n g =
     (let (us, g') = draw_floats n g in (map (\<lambda>u. low + (high - low) * u) us, g'))"

text \<open>\<open>randn(n)\<close>.\<close>

definition np_randn :: "nat \<Rightarrow> random_state \<Rightarrow> real list \<times> random_state" where
  "np_randn n g = draw_floats n g"

text \<open>
  The sources of the augmentation functions: numpy's global state \<open>np.random\<close> and
  the object \<open>np_random\<close> imported from \<open>datasets.aug_random\<close>.

  Modelled from the spec: \<open>datasets.aug_random\<close> is not among the sources; the spec
  describes \<open>np_random\<close> as a second, dedicated random-number source (the distillation
  stream), and the calls made on it (\<open>rand\<close>, \<open>uniform\<close>, \<open>randn\<close>, \<open>shuffle\<close>) are those
  of a \<open>RandomState\<close>.
\<close>

record rng =
  np_global :: random_state
  np_distill :: random_state
  py_random :: random_state

text \<open>
  An integer draw below \<open>bound\<close> (for \<open>bound > 0\<close>); the third source, \<open>py_random\<close>, is
  Python's module \<open>random\<close>.
\<close>

definition draw_int :: "nat \<Rightarrow> random_state \<Rightarrow> nat \<times> random_state" where
  "draw_int bound g = (ints g 0 mod bound, g\<lparr>ints := \<lambda>k. ints g (Suc k)\<rparr>)"

text \<open>\<open>random.choice(seq)\<close> raises IndexError on an empty sequence.\<close>

definition random_choice :: "'a list \<Rightarrow> random_state \<Rightarrow> error + 'a \<times> random_state" where
  "random_choice xs g =
     (if xs = [] then Inl IndexError
      else let (k, g') = draw_int (length xs) g in Inr (xs ! k, g'))"

text \<open>\<open>random.randint(a, b)\<close> raises ValueError when \<open>b < a\<close>.\<close>

definition random_randint :: "int \<Rightarrow> int \<Rightarrow> random_state \<Rightarrow> error + int \<times> random_state" where
  "random_randint a b g =
     (if b < a then Inl ValueError
      else let (k, g') = draw_int (nat (b - a + 1)) g in Inr (a + int k, g'))"

text \<open>
  \<open>shuffle(x)\<close> of a \<open>RandomState\<close>: for \<open>i\<close> from \<open>len(x) - 1\<close> down to 1, an index
  \<open>j \<le> i\<close> is drawn and \<open>x[i]\<close>, \<open>x[j]\<close> are exchanged.
\<close>

fun shuffle_from :: "nat \<Rightarrow> nat list \<Rightarrow> random_state \<Rightarrow> nat list \<times> random_state" where
  "shuffle_from 0 x g = (x, g)"
| "shuffle_from (Suc i) x g =
     (let (j, g1) = draw_int (Suc i + 1) g
      in shuffle_from i (x[Suc i := x ! j, j := x ! Suc i]) g1)"

definition np_shuffle :: "nat list \<Rightarrow> random_state \<Rightarrow> nat list \<times> random_state" where
  "np_shuffle x g = shuffle_from (length x - 1) x g"

section \<open>Batches\<close>

text \<open>
  An array of shape (B, N, C): the shape is kept beside the contents, since it is
  defined also when \<open>B\<close> or \<open>N\<close> is 0.
\<close>

record ndarray3 =
  dims :: "nat \<times> nat \<times> nat"
  clouds :: "cloud list"

section \<open>Augmentation\<close>

text \<open>\<open>batch_pc[b, drop_idx, :] = batch_pc[b, 0, :]\<close>: the rows \<open>drop_idx\<close> receive row 0.\<close>

definition set_rows :: "cloud \<Rightarrow> nat list \<Rightarrow> point \<Rightarrow> cloud" where
  "set_rows pc drop_idx row = fold (\<lambda>i acc. acc[i := row]) drop_idx pc"

text \<open>\<open>np.where(r <= dropout_ratio)[0]\<close>.\<close>

definition np_where_le :: "real list \<Rightarrow> real \<Rightarrow> nat list" where
  "np_where_le r dropout_ratio = filter (\<lambda>i. r ! i \<le> dropout_ratio) [0..<length r]"

text \<open>The loop of \<open>random_point_dropout\<close> over the clouds of the batch.\<close>

fun random_point_dropout_loop :: "random_state \<Rightarrow> real \<Rightarrow> nat \<Rightarrow> cloud list \<Rightarrow> cloud list \<times> random_state" where
  "random_point_dropout_loop g max_dropout_ratio N [] = ([], g)"
| "random_point_dropout_loop g max_dropout_ratio N (pc # rest) =
     (let (u, g1) = np_random_random g;
          dropout_ratio = u * max_dropout_ratio;
          (r, g2) = np_random_random_n N g1;
          drop_idx = np_where_le r dropout_ratio;
          pc' = (if length drop_idx > 0 then set_rows pc drop_idx (pc ! 0) else pc);
          (rest', g3) = random_point_dropout_loop g2 max_dropout_ratio N rest
      in (pc' # rest', g3))"

definition random_point_dropout :: "rng \<Rightarrow> ndarray3 \<Rightarrow> real \<Rightarrow> ndarray3 \<times> rng" where
  "random_point_dropout st batch_pc max_dropout_ratio =
     (let (B, N, C) = dims batch_pc;
          (out, g) = random_point_dropout_loop (np_global st) max_dropout_ratio N (clouds batch_pc)
      in (batch_pc\<lparr>clouds := out\<rparr>, st\<lparr>np_global := g\<rparr>))"

fun random_point_dropout_distill_loop :: "random_state \<Rightarrow> real \<Rightarrow> nat \<Rightarrow> cloud list \<Rightarrow> cloud list \<times> random_state" where
  "random_point_dropout_distill_loop g max_dropout_ratio N [] = ([], g)"
| "random_point_dropout_distill_loop g max_dropout_ratio N (pc # rest) =
     (let (u, g1) = np_rand g;
          dropout_ratio = u * max_dropout_ratio;
          (r, g2) = np_rand_n N g1;
          drop_idx = np_where_le r dropout_ratio;
          pc' = (if length drop_idx > 0 then set_rows pc drop_idx (pc ! 0) else pc);
          (rest', g3) = random_point_dropout_distill_loop g2 max_dropout_ratio N rest
      in (pc' # rest', g3))"

definition random_point_dropout_distill :: "rng \<Rightarrow> ndarray3 \<Rightarrow> real \<Rightarrow> ndarray3 \<times> rng" where
  "random_point_dropout_distill st batch_pc max_dropout_ratio =
     (let (B, N, C) = dims batch_pc;
          (out, g) = random_point_dropout_distill_loop (np_distill st) max_dropout_ratio N (clouds batch_pc)
      in (batch_pc\<lparr>clouds := out\<rparr>, st\<lparr>np_distill := g\<rparr>))"

text \<open>\<open>batch_data[batch_index, :, :] *= scales[batch_index]\<close> for every index of the batch.\<close>

definition random_scale_point_cloud :: "rng \<Rightarrow> ndarray3 \<Rightarrow> real \<Rightarrow> real \<Rightarrow> ndarray3 \<times> rng" where
  "random_scale_point_cloud st batch_data scale_low scale_high =
     (let (B, N, C) = dims batch_data;
          (scales, g) = np_uniform scale_low scale_high B (np_global st)
      in (batch_data\<lparr>clouds :=
            map (\<lambda>batch_index. map (map (\<lambda>x. x * scales ! batch_index)) (clouds batch_data ! batch_index))
              [0..<B]\<rparr>,
          st\<lparr>np_global := g\<rparr>))"

definition random_scale_point_cloud_distill :: "rng \<Rightarrow> ndarray3 \<Rightarrow> real \<Rightarrow> real \<Rightarrow> ndarray3 \<times> rng" where
  "random_scale_point_cloud_distill st batch_data scale_low scale_high =
     (let (B, N, C) = dims batch_data;
          (scales, g) = np_uniform scale_low scale_high B (np_distill st)
      in (batch_data\<lparr>clouds :=
            map (\<lambda>batch_index. map (map (\<lambda>x. x * scales ! batch_index)) (clouds batch_data ! batch_index))
              [0..<B]\<rparr>,
          st\<lparr>np_distill := g\<rparr>))"

text \<open>
  \<open>batch_data[batch_index, :, :] += shifts[batch_index, :]\<close>: the row of 3 shifts is
  broadcast over the (N, C) slice, which numpy accepts only when \<open>C = 3\<close>; otherwise the
  first pass of the loop raises ValueError.  \<open>shifts\<close> has shape (B, 3), drawn row by row.
\<close>

definition iadd_row :: "nat \<Rightarrow> cloud \<Rightarrow> point \<Rightarrow> error + cloud" where
  "iadd_row C pc row =
     (if length row = C then Inr (map (\<lambda>p. map2 (+) p row) pc) else Inl ValueError)"

fun shift_loop :: "nat \<Rightarrow> real list \<Rightarrow> nat \<Rightarrow> cloud list \<Rightarrow> error + cloud list" where
  "shift_loop C shifts batch_index [] = Inr []"
| "shift_loop C shifts batch_index (pc # rest) =
     (case iadd_row C pc (take 3 (drop (3 * batch_index) shifts)) of
        Inl e \<Rightarrow> Inl e
      | Inr pc' \<Rightarrow>
          (case shift_loop C shifts (batch_index + 1) rest of
             Inl e \<Rightarrow> Inl e
           | Inr rest' \<Rightarrow> Inr (pc' # rest')))"

definition shift_point_cloud :: "rng \<Rightarrow> ndarray3 \<Rightarrow> real \<Rightarrow> error + ndarray3 \<times> rng" where
  "shift_point_cloud st batch_data shift_range =
     (let (B, N, C) = dims batch_data;
          (shifts, g) = np_uniform (- shift_range) shift_range (B * 3) (np_global st)
      in case shift_loop C shifts 0 (clouds batch_data) of
           Inl e \<Rightarrow> Inl e
         | Inr out \<Rightarrow> Inr (batch_data\<lparr>clouds := out\<rparr>, st\<lparr>np_global := g\<rparr>))"

definition shift_point_cloud_distill :: "rng \<Rightarrow> ndarray3 \<Rightarrow> real \<Rightarrow> error + ndarray3 \<times> rng" where
  "shift_point_cloud_distill st batch_data shift_range =
     (let (B, N, C) = dims batch_data;
          (shifts, g) = np_uniform (- shift_range) shift_range (B * 3) (np_distill st)
      in case shift_loop C shifts 0 (clouds batch_data) of
           Inl e \<Rightarrow> Inl e
         | Inr out \<Rightarrow> Inr (batch_data\<lparr>clouds := out\<rparr>, st\<lparr>np_distill := g\<rparr>))"

text \<open>\<open>np.clip(x, lo, hi)\<close>.\<close>

definition np_clip :: "real \<Rightarrow> real \<Rightarrow> real \<Rightarrow> real" where
  "np_clip x lo hi = min (max x lo) hi"

text \<open>
  \<open>jitter_point_cloud\<close>: \<open>np.random.randn(B, N, C)\<close> is drawn in row-major order; the
  noise array, once clipped, receives \<open>batch_data\<close> and is returned.
\<close>

definition jitter_point_cloud :: "rng \<Rightarrow> ndarray3 \<Rightarrow> real \<Rightarrow> real \<Rightarrow> error + ndarray3 \<times> rng" where
  "jitter_point_cloud st batch_data sigma clip =
     (let (B, N, C) = dims batch_data
      in if \<not> clip > 0 then Inl AssertionError
         else let (noise, g) = np_randn (B * N * C) (np_global st);
                  jittered_data =
                    map (\<lambda>b. map (\<lambda>n. map (\<lambda>c.
                           np_clip (sigma * noise ! ((b * N + n) * C + c)) (- 1 * clip) clip
                           + clouds batch_data ! b ! n ! c) [0..<C]) [0..<N]) [0..<B]
              in Inr (\<lparr>dims = (B, N, C), clouds = jittered_data\<rparr>, st\<lparr>np_global := g\<rparr>))"

text \<open>
  \<open>shape_pc.reshape((-1, 3))\<close>: the entries in row-major order, three to a row;
  ValueError when their number is not a multiple of 3.
\<close>

fun rows_of_3 :: "real list \<Rightarrow> cloud" where
  "rows_of_3 (a # b # c # rest) = [a, b, c] # rows_of_3 rest"
| "rows_of_3 _ = []"

definition reshape_3 :: "cloud \<Rightarrow> error + cloud" where
  "reshape_3 shape_pc =
     (if length (concat shape_pc) mod 3 \<noteq> 0 then Inl ValueError
      else Inr (rows_of_3 (concat shape_pc)))"

text \<open>\<open>np.dot\<close> of two matrices.\<close>

definition np_dot :: "cloud \<Rightarrow> cloud \<Rightarrow> cloud" where
  "np_dot a b =
     map (\<lambda>row. map (\<lambda>j. \<Sum>i\<leftarrow>[0..<length row]. row ! i * b ! i ! j) [0..<length (hd b)]) a"

text \<open>
  \<open>rotated_data[k, ...] = value\<close>: the (M, 3) value is broadcast into the (N, C) slice,
  which numpy accepts only when \<open>C = 3\<close> and \<open>M\<close> is \<open>N\<close> or 1.
\<close>

definition assign_slice :: "nat \<Rightarrow> nat \<Rightarrow> cloud \<Rightarrow> error + cloud" where
  "assign_slice N C v =
     (if C = 3 \<and> length v = N then Inr v
      else if C = 3 \<and> length v = 1 then Inr (replicate N (hd v))
      else Inl ValueError)"

fun rotate_point_cloud_loop :: "random_state \<Rightarrow> nat \<Rightarrow> nat \<Rightarrow> cloud list \<Rightarrow> error + cloud list \<times> random_state" where
  "rotate_point_cloud_loop g N C [] = Inr ([], g)"
| "rotate_point_cloud_loop g N C (shape_pc # rest) =
     (let (u, g1) = np_uniform 0 1 1 g;
          rotation_angle = u ! 0 * 2 * pi;
          cosval = cos rotation_angle;
          sinval = sin rotation_angle;
          rotation_matrix = [[cosval, 0, sinval], [0, 1, 0], [- sinval, 0, cosval]]
      in case reshape_3 shape_pc of
           Inl e \<Rightarrow> Inl e
         | Inr flat \<Rightarrow>
             (case assign_slice N C (np_dot flat rotation_matrix) of
                Inl e \<Rightarrow> Inl e
              | Inr rotated \<Rightarrow>
                  (case rotate_point_cloud_loop g1 N C rest of
                     Inl e \<Rightarrow> Inl e
                   | Inr (rest', g2) \<Rightarrow> Inr (rotated # rest', g2))))"

definition rotate_point_cloud :: "rng \<Rightarrow> ndarray3 \<Rightarrow> error + ndarray3 \<times> rng" where
  "rotate_point_cloud st batch_data =
     (let (B, N, C) = dims batch_data
      in case rotate_point_cloud_loop (np_global st) N C (clouds batch_data) of
           Inl e \<Rightarrow> Inl e
         | Inr (rotated_data, g) \<Rightarrow>
             Inr (\<lparr>dims = (B, N, C), clouds = rotated_data\<rparr>, st\<lparr>np_global := g\<rparr>))"

text \<open>The matrix \<open>R = Rz . (Ry . Rx)\<close> of \<open>rotate_perturbation_point_cloud\<close>.\<close>

definition perturbation_matrix :: "real list \<Rightarrow> cloud" where
  "perturbation_matrix angles =
     (let Rx = [[1, 0, 0],
                [0, cos (angles ! 0), - sin (angles ! 0)],
                [0, sin (angles ! 0), cos (angles ! 0)]];
          Ry = [[cos (angles ! 1), 0, sin (angles ! 1)],
                [0, 1, 0],
                [- sin (angles ! 1), 0, cos (angles ! 1)]];
          Rz = [[cos (angles ! 2), - sin (angles ! 2), 0],
                [sin (angles ! 2), cos (angles ! 2), 0],
                [0, 0, 1]]
      in np_dot Rz (np_dot Ry Rx))"

fun rotate_perturbation_point_cloud_loop ::
  "random_state \<Rightarrow> real \<Rightarrow> real \<Rightarrow> nat \<Rightarrow> nat \<Rightarrow> cloud list \<Rightarrow> error + cloud list \<times> random_state" where
  "rotate_perturbation_point_cloud_loop g angle_sigma angle_clip N C [] = Inr ([], g)"
| "rotate_perturbation_point_cloud_loop g angle_sigma angle_clip N C (shape_pc # rest) =
     (let (z, g1) = np_randn 3 g;
          angles = map (\<lambda>x. np_clip (angle_sigma * x) (- angle_clip) angle_clip) z;
          R = perturbation_matrix angles
      in case reshape_3 shape_pc of
           Inl e \<Rightarrow> Inl e
         | Inr flat \<Rightarrow>
             (case assign_slice N C (np_dot flat R) of
                Inl e \<Rightarrow> Inl e
              | Inr rotated \<Rightarrow>
                  (case rotate_perturbation_point_cloud_loop g1 angle_sigma angle_clip N C rest of
                     Inl e \<Rightarrow> Inl e
                   | Inr (rest', g2) \<Rightarrow> Inr (rotated # rest', g2))))"

definition rotate_perturbation_point_cloud ::
  "rng \<Rightarrow> ndarray3 \<Rightarrow> real \<Rightarrow> real \<Rightarrow> error + ndarray3 \<times> rng" where
  "rotate_perturbation_point_cloud st batch_data angle_sigma angle_clip =
     (let (B, N, C) = dims batch_data
      in case rotate_perturbation_point_cloud_loop (np_global st) angle_sigma angle_clip N C
                (clouds batch_data) of
           Inl e \<Rightarrow> Inl e
         | Inr (rotated_data, g) \<Rightarrow>
             Inr (\<lparr>dims = (B, N, C), clouds = rotated_data\<rparr>, st\<lparr>np_global := g\<rparr>))"

fun rotate_perturbation_point_cloud_distill_loop ::
  "random_state \<Rightarrow> real \<Rightarrow> real \<Rightarrow> nat \<Rightarrow> nat \<Rightarrow> cloud list \<Rightarrow> error + cloud list \<times> random_state" where
  "rotate_perturbation_point_cloud_distill_loop g angle_sigma angle_clip N C [] = Inr ([], g)"
| "rotate_perturbation_point_cloud_distill_loop g angle_sigma angle_clip N C (shape_pc # rest) =
     (let (z, g1) = np_randn 3 g;
          angles = map (\<lambda>x. np_clip (angle_sigma * x) (- angle_clip) angle_clip) z;
          R = perturbation_matrix angles
      in case reshape_3 shape_pc of
           Inl e \<Rightarrow> Inl e
         | Inr flat \<Rightarrow>
             (case assign_slice N C (np_dot flat R) of
                Inl e \<Rightarrow> Inl e
              | Inr rotated \<Rightarrow>
                  (case rotate_perturbation_point_cloud_distill_loop g1 angle_sigma angle_clip N C rest of
                     Inl e \<Rightarrow> Inl e
                   | Inr (rest', g2) \<Rightarrow> Inr (rotated # rest', g2))))"

definition rotate_perturbation_point_cloud_distill ::
  "rng \<Rightarrow> ndarray3 \<Rightarrow> real \<Rightarrow> real \<Rightarrow> error + ndarray3 \<times> rng" where
  "rotate_perturbation_point_cloud_distill st batch_data angle_sigma angle_clip =
     (let (B, N, C) = dims batch_data
      in case rotate_perturbation_point_cloud_distill_loop (np_distill st) angle_sigma angle_clip N C
                (clouds batch_data) of
           Inl e \<Rightarrow> Inl e
         | Inr (rotated_data, g) \<Rightarrow>
             Inr (\<lparr>dims = (B, N, C), clouds = rotated_data\<rparr>, st\<lparr>np_distill := g\<rparr>))"

section \<open>Samples\<close>

text \<open>
  The values a sample holds.  Tokenised text is a list of token numbers, an image is a
  number naming it: their contents play no part here.  \<open>NanTensor2 n c\<close> and
  \<open>NanTensor1 c\<close> are tensors of shape (n, c) and (c) that hold nan entries: the model
  keeps their shape and does not follow their entries.
\<close>

datatype pyval =
    Tensor2 cloud
  | Tensor1 point
  | NanTensor2 nat nat
  | NanTensor1 nat
  | IntV nat
  | StrV string
  | Tokens "nat list"
  | ImageV nat
  | Feature "real list"
  | NoneV

text \<open>
  Modelled from the spec: the class \<open>Sample\<close> of \<open>datasets.Sample\<close> is not among the
  sources; the spec describes a sample as a mapping from string keys to values, so
  \<open>Sample(d)\<close> is the mapping \<open>d\<close> itself.
\<close>

type_synonym sample = "string \<rightharpoonup> pyval"

definition Sample :: "sample \<Rightarrow> sample" where
  "Sample d = d"

section \<open>Steps shared by the dataset adapters\<close>

text \<open>
  \<open>farthest_point_sample\<close> with its draw \<open>np.random.randint(0, N)\<close>, which raises
  ValueError when \<open>N = 0\<close>.
\<close>

definition farthest_point_sample_random ::
  "float_arith \<Rightarrow> rng \<Rightarrow> cloud \<Rightarrow> nat \<Rightarrow> error + cloud \<times> rng" where
  "farthest_point_sample_random fa st point npoint =
     (if point = [] then Inl ValueError
      else let (farthest, g) = draw_int (length point) (np_global st)
           in case farthest_point_sample fa point npoint farthest of
                Inl e \<Rightarrow> Inl e
              | Inr out \<Rightarrow> Inr (out, st\<lparr>np_global := g\<rparr>))"

text \<open>
  The height feature: \<open>data[:, 1:2] - data[:, 1:2].min()\<close> is appended as a column.  The
  minimum of an empty slice (no rows, or rows narrower than 2) raises ValueError.
\<close>

definition add_height :: "cloud \<Rightarrow> error + cloud" where
  "add_height data =
     (if data = [] \<or> length (hd data) < 2 then Inl ValueError
      else let col = map (\<lambda>p. p ! 1) data;
               lowest = fold min (tl col) (hd col)
           in Inr (map (\<lambda>p. p @ [p ! 1 - lowest]) data))"

text \<open>\<open>np.concatenate([data, np.ones(data.shape) * 0.4], axis=-1)\<close> on a 2-D or 1-D array.\<close>

definition add_color :: "cloud \<Rightarrow> cloud" where
  "add_color data = map (\<lambda>p. p @ replicate (length p) (4 / 10)) data"

text \<open>
  A division by a zero norm raises nothing: numpy warns and the cloud holds nan
  entries from then on.  No later step of an adapter looks at an entry to decide what
  to do: the draws it makes and the exceptions it raises depend on the shape of the
  cloud alone, and an entry computed from nan is nan.  The model therefore goes on with
  the all-zero cloud of the same shape, marked as standing for nan entries, and gives
  the tensor of nan entries of the resulting shape.
\<close>

definition nan_like :: "pyval \<Rightarrow> pyval" where
  "nan_like v =
     (case v of
        Tensor2 pc \<Rightarrow> NanTensor2 (length pc) (length (hd pc))
      | Tensor1 p \<Rightarrow> NanTensor1 (length p)
      | other \<Rightarrow> other)"

definition mark_nan :: "bool \<Rightarrow> pyval \<Rightarrow> pyval" where
  "mark_nan nan v = (if nan then nan_like v else v)"

text \<open>\<open>points.shape[0]\<close> and \<open>points[pt_idxs]\<close> of a 2-D tensor.\<close>

definition rows_of :: "pyval \<Rightarrow> nat" where
  "rows_of v =
     (case v of
        Tensor2 pc \<Rightarrow> length pc
      | NanTensor2 n c \<Rightarrow> n
      | other \<Rightarrow> 0)"

definition take_rows :: "pyval \<Rightarrow> nat list \<Rightarrow> pyval" where
  "take_rows v idxs =
     (case v of
        Tensor2 pc \<Rightarrow> Tensor2 (map (\<lambda>i. pc ! i) idxs)
      | NanTensor2 n c \<Rightarrow> NanTensor2 (length idxs) c
      | other \<Rightarrow> other)"

section \<open>The adapter ScanObjectNN\<close>

record scanobjectnn =
  son_data :: "cloud list"
  son_label :: "nat list"
  son_tokenizer :: "string \<Rightarrow> nat list"

definition semantic_classes :: "string list" where
  "semantic_classes =
     [''bag'', ''bin'', ''box'', ''cabinet'', ''chair'', ''desk'', ''display'', ''door'',
      ''shelf'', ''table'', ''bed'', ''pillow'', ''sink'', ''sofa'', ''toilet'']"

definition ScanObjectNN_getitem :: "scanobjectnn \<Rightarrow> nat \<Rightarrow> error + sample" where
  "ScanObjectNN_getitem ds item =
     (if item \<ge> length (son_data ds) then Inl IndexError
      else if item \<ge> length (son_label ds) then Inl IndexError
      else let pc = son_data ds ! item;
               label = son_label ds ! item
           in if label \<ge> length semantic_classes then Inl IndexError
              else Inr (Sample [''pc'' \<mapsto> Tensor2 pc,
                                ''caption'' \<mapsto> Tokens (son_tokenizer ds (semantic_classes ! label)),
                                ''label'' \<mapsto> IntV label]))"

section \<open>The adapter ModelNet\<close>

text \<open>
  The fields that \<open>__getitem__\<close> reads.  \<open>__init__\<close> sets \<open>process_data\<close> to True, so
  \<open>_get_item\<close> always takes the item from \<open>list_of_points\<close> and \<open>list_of_labels\<close>; a label
  is an array of one class number.  \<open>pc_text_features\<close> is indexed by label and template.
  When no sampling copy is made, \<open>point_set[:, 0:3] = pc_normalize(...)\<close> writes into the
  stored array; the model follows one call and leaves the adapter as it is.
\<close>

record modelnet =
  mn_npoints :: nat
  mn_use_normals :: bool
  mn_use_height :: bool
  mn_use_10k_pc :: bool
  mn_use_colored_pc :: bool
  mn_subset :: string
  list_of_points :: "cloud list"
  list_of_labels :: "nat list list"
  shape_names :: "string list"
  modelnet_10k_rgb_data :: "cloud list"
  cat_name :: "string list"
  pc_text_features :: "real list list list"

text \<open>\<open>shape_names.index(name)\<close> raises ValueError when the name is absent.\<close>

definition list_index :: "string list \<Rightarrow> string \<Rightarrow> error + nat" where
  "list_index xs x =
     (if x \<in> set xs then Inr (length (takeWhile (\<lambda>y. y \<noteq> x) xs)) else Inl ValueError)"

text \<open>
  \<open>point_set[:, 0:3] = pc_normalize(point_set[:, 0:3])\<close>: the first three columns are
  replaced, by nan entries when \<open>pc_normalize\<close> divides by zero (the mark is True).
\<close>

definition normalize_xyz :: "cloud \<Rightarrow> error + bool \<times> cloud" where
  "normalize_xyz point_set =
     (case pc_normalize (map (take 3) point_set) of
        Inl e \<Rightarrow>
          if e = NonFinite
          then Inr (True, map2 (\<lambda>n p. n @ drop 3 p) (zeros_like (map (take 3) point_set)) point_set)
          else Inl e
      | Inr xyz \<Rightarrow> Inr (False, map2 (\<lambda>n p. n @ drop 3 p) xyz point_set))"

text \<open>
  The steps of \<open>_get_item\<close> on the stored cloud: sampling down to \<open>npoints\<close>,
  normalisation, the columns kept, and the height.
\<close>

definition ModelNet_points ::
  "float_arith \<Rightarrow> modelnet \<Rightarrow> rng \<Rightarrow> cloud \<Rightarrow> error + (bool \<times> cloud) \<times> rng" where
  "ModelNet_points fa ds st point_set0 =
     (case (if mn_npoints ds < length point_set0
            then farthest_point_sample_random fa st point_set0 (mn_npoints ds)
            else Inr (point_set0, st)) of
        Inl e \<Rightarrow> Inl e
      | Inr (point_set1, st1) \<Rightarrow>
          (case normalize_xyz point_set1 of
             Inl e \<Rightarrow> Inl e
           | Inr (nan, point_set2) \<Rightarrow>
               (let point_set3 = (if \<not> mn_use_normals ds then map (take 3) point_set2
                                  else point_set2)
                in case (if mn_use_height ds then add_height point_set3 else Inr point_set3) of
                     Inl e \<Rightarrow> Inl e
                   | Inr point_set4 \<Rightarrow> Inr ((nan, point_set4), st1))))"

text \<open>
  \<open>_get_item\<close>.  With \<open>use_10k_pc\<close> and \<open>use_colored_pc\<close> the cloud and the label are
  replaced by those of the coloured 10k data; otherwise the label is the stored one.
\<close>

definition ModelNet_get_item ::
  "float_arith \<Rightarrow> modelnet \<Rightarrow> rng \<Rightarrow> nat \<Rightarrow> error + (pyval \<times> nat) \<times> rng" where
  "ModelNet_get_item fa ds st index =
     (if index \<ge> length (list_of_points ds) \<or> index \<ge> length (list_of_labels ds)
      then Inl IndexError
      else case ModelNet_points fa ds st (list_of_points ds ! index) of
             Inl e \<Rightarrow> Inl e
           | Inr ((nan, point_set), st1) \<Rightarrow>
               (if mn_use_10k_pc ds \<and> mn_use_colored_pc ds
                then if index \<ge> length (modelnet_10k_rgb_data ds)
                       \<or> index \<ge> length (cat_name ds) then Inl IndexError
                     else (case list_index (shape_names ds) (cat_name ds ! index) of
                             Inl e \<Rightarrow> Inl e
                           | Inr l \<Rightarrow>
                               Inr ((Tensor2 (add_color (modelnet_10k_rgb_data ds ! index)), l),
                                    st1))
                else if list_of_labels ds ! index = [] then Inl IndexError
                else if mn_use_colored_pc ds
                then Inr ((mark_nan nan (Tensor2 (add_color point_set)),
                           list_of_labels ds ! index ! 0), st1)
                else Inr ((mark_nan nan (Tensor2 point_set), list_of_labels ds ! index ! 0), st1)))"

text \<open>The order of the points: shuffled by \<open>np.random.shuffle\<close> in the training subset.\<close>

definition ModelNet_order :: "modelnet \<Rightarrow> rng \<Rightarrow> nat \<Rightarrow> nat list \<times> rng" where
  "ModelNet_order ds st n =
     (if mn_subset ds = ''train''
      then let (x, g) = np_shuffle [0..<n] (np_global st) in (x, st\<lparr>np_global := g\<rparr>)
      else ([0..<n], st))"

definition ModelNet_getitem ::
  "float_arith \<Rightarrow> modelnet \<Rightarrow> rng \<Rightarrow> nat \<Rightarrow> error + sample \<times> rng" where
  "ModelNet_getitem fa ds st index =
     (case ModelNet_get_item fa ds st index of
        Inl e \<Rightarrow> Inl e
      | Inr ((points, label), st1) \<Rightarrow>
          (let (pt_idxs, st2) = ModelNet_order ds st1 (rows_of points);
               current_points = take_rows points pt_idxs
           in if label \<ge> length (shape_names ds) then Inl IndexError
              else let label_name = shape_names ds ! label;
                       rtn = [''pc'' \<mapsto> current_points,
                              ''label'' \<mapsto> IntV label,
                              ''class_name'' \<mapsto> StrV label_name]
                   in if mn_subset ds = ''train''
                      then (case random_randint 0 59 (py_random st2) of
                              Inl e \<Rightarrow> Inl e
                            | Inr (template_idx, g) \<Rightarrow>
                                if label \<ge> length (pc_text_features ds)
                                   \<or> nat template_idx \<ge> length (pc_text_features ds ! label)
                                then Inl IndexError
                                else Inr (Sample (rtn(''text_feature'' \<mapsto>
                                            Feature (pc_text_features ds ! label ! nat template_idx))),
                                          st2\<lparr>py_random := g\<rparr>))
                      else Inr (Sample rtn, st2)))"

section \<open>The adapter ShapeNet\<close>

record file_entry =
  taxonomy_id :: string
  model_id :: string
  file_path :: string

text \<open>
  The fields that \<open>__getitem__\<close> reads.  \<open>__init__\<close> sets \<open>uniform\<close> and \<open>augment\<close> to True,
  which the model takes as such.  \<open>index_list\<close> and \<open>synset_name\<close> are the dictionaries
  from a taxonomy id to its position and to the entry \<open>name\<close> of its \<open>synset_id_map\<close> record.
  The names and the templates are Python strings, lists of code points.
\<close>

type_synonym ustring = "nat list"

record shapenet =
  sn_data_root :: string
  sn_pc_path :: string
  sn_subset :: string
  sample_points_num :: nat
  file_list :: "file_entry list"
  index_list :: "string \<rightharpoonup> nat"
  synset_name :: "string \<rightharpoonup> ustring"
  templates :: "ustring list"
  rendered_image_addr :: string
  picked_rotation_degrees :: "string list"
  picked_image_type :: "string list"
  pc_text_features_path :: string
  text_embed_dim :: nat
  sn_distill :: bool
  sn_with_color :: bool
  sn_use_height :: bool

text \<open>
  What \<open>__getitem__\<close> uses from outside the sources: \<open>IO.get\<close> and \<open>np.load\<close> read a file
  or raise, \<open>pil_loader\<close> and the image transform return an image or raise (\<open>None\<close>),
  \<open>str.format\<close> returns a string or raises, the tokenizer is a function on strings, and
  \<open>arith\<close> is the floating-point arithmetic of the sampler.
\<close>

record env =
  IO_get :: "string \<Rightarrow> error + cloud"
  np_load :: "string \<Rightarrow> error + cloud"
  pil_loader :: "string \<Rightarrow> nat option"
  train_transform :: "nat \<Rightarrow> nat option"
  tokenizer :: "ustring \<Rightarrow> nat list"
  str_format :: "ustring \<Rightarrow> ustring \<Rightarrow> error + ustring"
  arith :: float_arith

text \<open>
  The state that a call changes: the random-number sources and the array
  \<open>self.permutation\<close>, which \<open>random_sample\<close> shuffles in place.
\<close>

record pstate =
  rng_of :: rng
  permutation :: "nat list"

definition path_join :: "string \<Rightarrow> string \<Rightarrow> string" where
  "path_join a b = a @ ''/'' @ b"

text \<open>The method \<open>pc_norm\<close>, whose body is that of \<open>pc_normalize\<close>.\<close>

definition pc_norm :: "cloud \<Rightarrow> error + cloud" where
  "pc_norm pc0 =
     (if pc0 = [] then Inl ValueError
      else let centroid = np_mean0 pc0;
               pc = sub_row pc0 centroid;
               m = np_max (map row_norm pc)
           in if m = 0 \<and> concat pc \<noteq> [] then Inl NonFinite
              else Inr (div_all pc m))"

text \<open>
  \<open>data = self.pc_norm(data)\<close>: the normalised cloud, or nan entries when \<open>pc_norm\<close>
  divides by zero (the mark is True).
\<close>

definition pc_norm_marked :: "cloud \<Rightarrow> error + bool \<times> cloud" where
  "pc_norm_marked data =
     (case pc_norm data of
        Inl e \<Rightarrow> if e = NonFinite then Inr (True, zeros_like data) else Inl e
      | Inr normalized \<Rightarrow> Inr (False, normalized))"

text \<open>
  \<open>random_sample\<close>: the permutation is shuffled by the source that \<open>distill\<close> selects, and
  \<open>pc[self.permutation[:num]]\<close> raises IndexError when an index is not a row of \<open>pc\<close>.
\<close>

definition random_sample :: "shapenet \<Rightarrow> pstate \<Rightarrow> cloud \<Rightarrow> nat \<Rightarrow> error + cloud \<times> pstate" where
  "random_sample ds st pc num =
     (let st1 = (if sn_distill ds
                 then let (x, g) = np_shuffle (permutation st) (np_distill (rng_of st))
                      in st\<lparr>rng_of := (rng_of st)\<lparr>np_distill := g\<rparr>, permutation := x\<rparr>
                 else let (x, g) = np_shuffle (permutation st) (np_global (rng_of st))
                      in st\<lparr>rng_of := (rng_of st)\<lparr>np_global := g\<rparr>, permutation := x\<rparr>);
          idx = take num (permutation st1)
      in if \<exists>i\<in>set idx. i \<ge> length pc then Inl IndexError
         else Inr (map (\<lambda>i. pc ! i) idx, st1))"

text \<open>
  The augmentation of one cloud: \<open>data[None, ...]\<close> is a batch of shape (1, N, C), the five
  functions run with their default parameters, and \<open>squeeze\<close> removes the axes of length
  1: the batch axis and, for a single point, the point axis too.
\<close>

definition augment_default :: "rng \<Rightarrow> cloud \<Rightarrow> error + pyval \<times> rng" where
  "augment_default st data =
     (let b0 = \<lparr>dims = (1, length data, length (hd data)), clouds = [data]\<rparr>;
          (b1, st1) = random_point_dropout st b0 (875 / 1000);
          (b2, st2) = random_scale_point_cloud st1 b1 (8 / 10) (125 / 100)
      in case shift_point_cloud st2 b2 (1 / 10) of
           Inl e \<Rightarrow> Inl e
         | Inr (b3, st3) \<Rightarrow>
             (case rotate_perturbation_point_cloud st3 b3 (6 / 100) (18 / 100) of
                Inl e \<Rightarrow> Inl e
              | Inr (b4, st4) \<Rightarrow>
                  (case rotate_point_cloud st4 b4 of
                     Inl e \<Rightarrow> Inl e
                   | Inr (b5, st5) \<Rightarrow>
                       Inr (if length (hd (clouds b5)) = 1 then Tensor1 (hd (hd (clouds b5)))
                            else Tensor2 (hd (clouds b5)), st5))))"

definition augment_distill :: "rng \<Rightarrow> cloud \<Rightarrow> error + pyval \<times> rng" where
  "augment_distill st data =
     (let b0 = \<lparr>dims = (1, length data, length (hd data)), clouds = [data]\<rparr>;
          (b1, st1) = random_point_dropout_distill st b0 (875 / 1000);
          (b2, st2) = random_scale_point_cloud_distill st1 b1 (8 / 10) (125 / 100)
      in case shift_point_cloud_distill st2 b2 (1 / 10) of
           Inl e \<Rightarrow> Inl e
         | Inr (b3, st3) \<Rightarrow>
             (case rotate_perturbation_point_cloud_distill st3 b3 (6 / 100) (18 / 100) of
                Inl e \<Rightarrow> Inl e
              | Inr (b4, st4) \<Rightarrow>
                  (case rotate_point_cloud st4 b4 of
                     Inl e \<Rightarrow> Inl e
                   | Inr (b5, st5) \<Rightarrow>
                       Inr (if length (hd (clouds b5)) = 1 then Tensor1 (hd (hd (clouds b5)))
                            else Tensor2 (hd (clouds b5)), st5))))"

text \<open>
  Colour and height on the squeezed array.  On a 1-D array the colour entries are
  appended to the point, and the slice \<open>data[:, 1:2]\<close> of the height raises IndexError.
\<close>

definition color_and_height :: "shapenet \<Rightarrow> pyval \<Rightarrow> error + pyval" where
  "color_and_height ds data =
     (let data1 = (if sn_with_color ds
                   then (case data of
                           Tensor2 pc \<Rightarrow> Tensor2 (add_color pc)
                         | Tensor1 p \<Rightarrow> Tensor1 (p @ replicate (length p) (4 / 10))
                         | other \<Rightarrow> other)
                   else data)
      in if sn_use_height ds
         then (case data1 of
                 Tensor2 pc \<Rightarrow> map_sum id Tensor2 (add_height pc)
               | other \<Rightarrow> Inl IndexError)
         else Inr data1)"

text \<open>
  The point-cloud part of one pass of the loop of \<open>__getitem__\<close>: from the file of
  the item \<open>idx\<close> to the tensor \<open>data\<close>.
\<close>

definition ShapeNet_points :: "shapenet \<Rightarrow> env \<Rightarrow> pstate \<Rightarrow> nat \<Rightarrow> error + pyval \<times> pstate" where
  "ShapeNet_points ds ev st idx =
     (if idx \<ge> length (file_list ds) then Inl IndexError
      else let sample = file_list ds ! idx
           in case IO_get ev (path_join (path_join (sn_data_root ds) (sn_pc_path ds))
                                (file_path sample)) of
                Inl e \<Rightarrow> Inl e
              | Inr data0 \<Rightarrow>
                  (case (if sample_points_num ds < length data0
                         then (case farthest_point_sample_random (arith ev) (rng_of st) data0
                                      (sample_points_num ds) of
                                 Inl e \<Rightarrow> Inl e
                               | Inr (d, r) \<Rightarrow> Inr (d, st\<lparr>rng_of := r\<rparr>))
                         else random_sample ds st data0 (sample_points_num ds)) of
                     Inl e \<Rightarrow> Inl e
                   | Inr (data1, st1) \<Rightarrow>
                       (case pc_norm_marked data1 of
                          Inl e \<Rightarrow> Inl e
                        | Inr (nan, data2) \<Rightarrow>
                            (case (if sn_distill ds then augment_distill (rng_of st1) data2
                                   else augment_default (rng_of st1) data2) of
                               Inl e \<Rightarrow> Inl e
                             | Inr (data3, r) \<Rightarrow>
                                 (case color_and_height ds data3 of
                                    Inl e \<Rightarrow> Inl e
                                  | Inr data4 \<Rightarrow>
                                      Inr (mark_nan nan data4, st1\<lparr>rng_of := r\<rparr>))))))"

text \<open>
  \<open>str.split(sep)\<close> for a one-character separator, and \<open>str.strip()\<close>, which removes
  the characters that Python counts as whitespace from both ends.
\<close>

fun split_on :: "'a \<Rightarrow> 'a list \<Rightarrow> 'a list list" where
  "split_on c [] = [[]]"
| "split_on c (x # xs) =
     (if x = c then [] # split_on c xs
      else (case split_on c xs of
              w # ws \<Rightarrow> (x # w) # ws
            | [] \<Rightarrow> [[x]]))"

definition is_space :: "nat \<Rightarrow> bool" where
  "is_space c =
     ((9 \<le> c \<and> c \<le> 13) \<or> (28 \<le> c \<and> c \<le> 32) \<or> c = 133 \<or> c = 160 \<or> c = 5760
      \<or> (8192 \<le> c \<and> c \<le> 8202) \<or> c = 8232 \<or> c = 8233 \<or> c = 8239 \<or> c = 8287
      \<or> c = 12288)"

definition strip :: "ustring \<Rightarrow> ustring" where
  "strip s = rev (dropWhile is_space (rev (dropWhile is_space s)))"

text \<open>What one pass of the loop computes beside the point cloud.\<close>

record side =
  side_label :: nat
  side_caption :: "nat list"
  side_image_addr :: string
  side_text_feature :: pyval

definition ShapeNet_side :: "shapenet \<Rightarrow> env \<Rightarrow> rng \<Rightarrow> nat \<Rightarrow> error + side \<times> rng" where
  "ShapeNet_side ds ev st idx =
     (let sample = file_list ds ! idx
      in case index_list ds (taxonomy_id sample) of
           None \<Rightarrow> Inl KeyError
         | Some index \<Rightarrow>
             (case synset_name ds (taxonomy_id sample) of
                None \<Rightarrow> Inl KeyError
              | Some names \<Rightarrow>
                  (let captions = filter (\<lambda>c. c \<noteq> []) (map strip (split_on 44 names))
                   in case random_choice captions (py_random st) of
                        Inl e \<Rightarrow> Inl e
                      | Inr (caption, g1) \<Rightarrow>
                          (case random_choice (templates ds) g1 of
                             Inl e \<Rightarrow> Inl e
                           | Inr (template, g2) \<Rightarrow>
                               (case str_format ev template caption of
                                  Inl e \<Rightarrow> Inl e
                                | Inr formatted \<Rightarrow>
                               (let tokenized_caption = tokenizer ev formatted
                                in case random_choice (picked_rotation_degrees ds) g2 of
                                     Inl e \<Rightarrow> Inl e
                                   | Inr (degree, g3) \<Rightarrow>
                                       (case random_choice (picked_image_type ds) g3 of
                                          Inl e \<Rightarrow> Inl e
                                        | Inr (image_type, g4) \<Rightarrow>
                                            (let picked_image_addr =
                                                   rendered_image_addr ds @ ''/'' @ taxonomy_id sample
                                                   @ ''-'' @ model_id sample @ ''_r_'' @ degree
                                                   @ image_type @ ''.png''
                                             in if sn_subset ds = ''train'' \<and> text_embed_dim ds = 1536
                                                then (case np_load ev (pc_text_features_path ds @ ''/''
                                                               @ taxonomy_id sample @ ''.npy'') of
                                                        Inl e \<Rightarrow> Inl e
                                                      | Inr npy_text_features \<Rightarrow>
                                                          (case random_randint 0
                                                                  (int (length npy_text_features) - 1) g4 of
                                                             Inl e \<Rightarrow> Inl e
                                                           | Inr (template_idx, g5) \<Rightarrow>
                                                               Inr (\<lparr>side_label = index,
                                                                     side_caption = tokenized_caption,
                                                                     side_image_addr = picked_image_addr,
                                                                     side_text_feature =
                                                                       Feature (npy_text_features ! nat template_idx)\<rparr>,
                                                                    st\<lparr>py_random := g5\<rparr>)))
                                                else Inr (\<lparr>side_label = index,
                                                           side_caption = tokenized_caption,
                                                           side_image_addr = picked_image_addr,
                                                           side_text_feature = NoneV\<rparr>,
                                                          st\<lparr>py_random := g4\<rparr>)))))))))"

text \<open>
  The body of \<open>try\<close>: the image is loaded and transformed and the sample is built;
  \<open>None\<close> when either call raises.
\<close>

definition ShapeNet_try :: "shapenet \<Rightarrow> env \<Rightarrow> nat \<Rightarrow> pyval \<Rightarrow> side \<Rightarrow> sample option" where
  "ShapeNet_try ds ev idx data sd =
     (case pil_loader ev (side_image_addr sd) of
        None \<Rightarrow> None
      | Some image0 \<Rightarrow>
          (case train_transform ev image0 of
             None \<Rightarrow> None
           | Some img \<Rightarrow>
               Some (Sample [''taxonomy_id'' \<mapsto> StrV (taxonomy_id (file_list ds ! idx)),
                             ''model_id'' \<mapsto> StrV (model_id (file_list ds ! idx)),
                             ''caption'' \<mapsto> Tokens (side_caption sd),
                             ''pc'' \<mapsto> data,
                             ''image'' \<mapsto> ImageV img,
                             ''target'' \<mapsto> IntV (side_label sd),
                             ''text_feature'' \<mapsto> side_text_feature sd])))"

text \<open>
  One pass of the loop \<open>while rtn is None\<close>: an exception outside \<open>try\<close> leaves the
  function (\<open>Raised\<close>), a sample ends the loop (\<open>Returned\<close>), and an exception inside
  \<open>try\<close> draws \<open>idx = random.randint(0, len(self.file_list) - 1)\<close> for the next pass
  (\<open>Retry\<close>).
\<close>

datatype pass = Raised error | Returned sample pstate | Retry nat pstate

definition ShapeNet_pass :: "shapenet \<Rightarrow> env \<Rightarrow> pstate \<Rightarrow> nat \<Rightarrow> pass" where
  "ShapeNet_pass ds ev st idx =
     (case ShapeNet_points ds ev st idx of
        Inl e \<Rightarrow> Raised e
      | Inr (data, st1) \<Rightarrow>
          (case ShapeNet_side ds ev (rng_of st1) idx of
             Inl e \<Rightarrow> Raised e
           | Inr (sd, r2) \<Rightarrow>
               (case ShapeNet_try ds ev idx data sd of
                  Some rtn \<Rightarrow> Returned rtn (st1\<lparr>rng_of := r2\<rparr>)
                | None \<Rightarrow>
                    (case random_randint 0 (int (length (file_list ds)) - 1) (py_random r2) of
                       Inl e \<Rightarrow> Raised e
                     | Inr (idx', g) \<Rightarrow>
                         Retry (nat idx') (st1\<lparr>rng_of := r2\<lparr>py_random := g\<rparr>\<rparr>)))))"

text \<open>
  \<open>__getitem__\<close>: the loop has no bound on the number of passes, so the result is
  \<open>None\<close> when it never ends.
\<close>

partial_function (option) ShapeNet_getitem ::
  "shapenet \<Rightarrow> env \<Rightarrow> pstate \<Rightarrow> nat \<Rightarrow> (error + sample \<times> pstate) option" where
  "ShapeNet_getitem ds ev st idx =
     (case ShapeNet_pass ds ev st idx of
        Raised e \<Rightarrow> Some (Inl e)
      | Returned rtn st' \<Rightarrow> Some (Inr (rtn, st'))
      | Retry idx' st' \<Rightarrow> ShapeNet_getitem ds ev st' idx')"

section \<open>Vocabulary of the properties\<close>

text \<open>An array of shape (N, D): every row has width D.\<close>

definition rect :: "nat \<Rightarrow> cloud \<Rightarrow> bool" where
  "rect D pc = (\<forall>p\<in>set pc. length p = D)"

text \<open>A degenerate cloud: all points coincide (an empty cloud too).\<close>

definition coincident :: "cloud \<Rightarrow> bool" where
  "coincident pc = (\<forall>p\<in>set pc. \<forall>q\<in>set pc. p = q)"

definition centered :: "cloud \<Rightarrow> cloud" where
  "centered pc = sub_row pc (np_mean0 pc)"

text \<open>The maximum Euclidean point norm of a non-empty cloud.\<close>

definition max_norm :: "cloud \<Rightarrow> real" where
  "max_norm pc = np_max (map row_norm pc)"

text \<open>
  The minimum squared distance, as the sampler computes it, from point \<open>i\<close> to the
  selected points \<open>sel\<close>, and the same capped at the initial value \<open>1e10\<close> of the running
  array.
\<close>

definition min_dist :: "float_arith \<Rightarrow> cloud \<Rightarrow> nat list \<Rightarrow> nat \<Rightarrow> real" where
  "min_dist fa xyz sel i = Min ((\<lambda>s. sq_dist fa (xyz ! i) (xyz ! s)) ` set sel)"

definition capped_min_dist :: "float_arith \<Rightarrow> cloud \<Rightarrow> nat list \<Rightarrow> nat \<Rightarrow> real" where
  "capped_min_dist fa xyz sel i =
     Min (insert (10 ^ 10) ((\<lambda>s. sq_dist fa (xyz ! i) (xyz ! s)) ` set sel))"

text \<open>A well-formed array of shape (B, N, C).\<close>

definition wf3 :: "ndarray3 \<Rightarrow> bool" where
  "wf3 a = (case dims a of (B, N, C) \<Rightarrow>
     length (clouds a) = B \<and> (\<forall>pc\<in>set (clouds a). length pc = N \<and> rect C pc))"

text \<open>The result has the shape of the argument.\<close>

definition same_shape :: "ndarray3 \<Rightarrow> ndarray3 \<Rightarrow> bool" where
  "same_shape batch out = (dims out = dims batch \<and> wf3 out)"

text \<open>
  The draws of \<open>random_point_dropout\<close> for cloud \<open>b\<close> of a batch of \<open>N\<close>-point clouds:
  each cloud takes one draw for its ratio and then \<open>N\<close> draws, one for each point.  Point
  \<open>i\<close> is dropped when its draw is at most the ratio.
\<close>

definition dropout_ratio_of :: "rng \<Rightarrow> real \<Rightarrow> nat \<Rightarrow> nat \<Rightarrow> real" where
  "dropout_ratio_of st max_dropout_ratio N b =
     floats (np_global st) (b * (N + 1)) * max_dropout_ratio"

definition point_draw :: "rng \<Rightarrow> nat \<Rightarrow> nat \<Rightarrow> nat \<Rightarrow> real" where
  "point_draw st N b i = floats (np_global st) (Suc i + b * (N + 1))"

definition dropped :: "rng \<Rightarrow> real \<Rightarrow> nat \<Rightarrow> nat \<Rightarrow> nat \<Rightarrow> bool" where
  "dropped st max_dropout_ratio N b i =
     (point_draw st N b i \<le> dropout_ratio_of st max_dropout_ratio N b)"

text \<open>One cloud after the dropout, from the draws \<open>f\<close> that the cloud takes.\<close>

definition dropout_cloud :: "(nat \<Rightarrow> real) \<Rightarrow> real \<Rightarrow> cloud \<Rightarrow> cloud" where
  "dropout_cloud f mx pc =
     map (\<lambda>i. if f (Suc i) \<le> f 0 * mx then pc ! 0 else pc ! i) [0..<length pc]"

text \<open>
  The state and the index of \<open>ShapeNet.__getitem__\<close> after \<open>n\<close> passes that all ended in
  a retry; \<open>None\<close> when one of them ended otherwise.
\<close>

fun after_retries :: "shapenet \<Rightarrow> env \<Rightarrow> nat \<Rightarrow> pstate \<Rightarrow> nat \<Rightarrow> (pstate \<times> nat) option" where
  "after_retries ds ev 0 st idx = Some (st, idx)"
| "after_retries ds ev (Suc n) st idx =
     (case ShapeNet_pass ds ev st idx of
        Retry idx' st' \<Rightarrow> after_retries ds ev n st' idx'
      | Raised e \<Rightarrow> None
      | Returned rtn st' \<Rightarrow> None)"

text \<open>Whether a call returned a sample, and the sample it returned.\<close>

definition returns_sample :: "(error + sample \<times> pstate) option \<Rightarrow> bool" where
  "returns_sample r = (case r of Some (Inr x) \<Rightarrow> True | Some (Inl e) \<Rightarrow> False | None \<Rightarrow> False)"

definition sample_of :: "(error + sample \<times> pstate) option \<Rightarrow> sample" where
  "sample_of r = (case r of Some (Inr x) \<Rightarrow> fst x | Some (Inl e) \<Rightarrow> Map.empty | None \<Rightarrow> Map.empty)"

text \<open>
  A valid index of \<open>ModelNet\<close>: the item has a non-empty cloud of shape (N, D) with
  \<open>D \<ge> 3\<close> and a label; the number of points to keep is positive; the class named by the
  label (by the category, for the coloured 10k data) is one of \<open>shape_names\<close>; and in the
  training subset every class has its 60 text features.
\<close>

definition ModelNet_valid :: "modelnet \<Rightarrow> nat \<Rightarrow> bool" where
  "ModelNet_valid ds index =
     (index < length (list_of_points ds) \<and> index < length (list_of_labels ds)
      \<and> list_of_points ds ! index \<noteq> []
      \<and> rect (length (hd (list_of_points ds ! index))) (list_of_points ds ! index)
      \<and> 3 \<le> length (hd (list_of_points ds ! index))
      \<and> 0 < mn_npoints ds
      \<and> (if mn_use_10k_pc ds \<and> mn_use_colored_pc ds
         then index < length (modelnet_10k_rgb_data ds) \<and> index < length (cat_name ds)
              \<and> cat_name ds ! index \<in> set (shape_names ds)
         else list_of_labels ds ! index \<noteq> []
              \<and> list_of_labels ds ! index ! 0 < length (shape_names ds))
      \<and> (mn_subset ds = ''train'' \<longrightarrow>
           (\<forall>l<length (shape_names ds).
              l < length (pc_text_features ds) \<and> 60 \<le> length (pc_text_features ds ! l))))"

section \<open>Instances\<close>

text \<open>A state of the random-number sources whose float draws are all \<open>c\<close>.\<close>

definition const_rng :: "real \<Rightarrow> rng" where
  "const_rng c =
     \<lparr>np_global = \<lparr>floats = \<lambda>_. c, ints = \<lambda>_. 0\<rparr>,
      np_distill = \<lparr>floats = \<lambda>_. c, ints = \<lambda>_. 0\<rparr>,
      py_random = \<lparr>floats = \<lambda>_. c, ints = \<lambda>_. 0\<rparr>\<rparr>"

text \<open>
  A small instance of the adapter ShapeNet: two items whose files hold three points, two
  of which are sampled; the names of the class are \<open>a, b\<close> (code points 97, 44, 32, 98)
  and the template is \<open>x {}\<close>, which \<open>format\<close> fills by appending the caption to
  \<open>x \<close> (code points 120, 32); the tokens of a string are its code points; an
  environment in which the image of the second item loads, or in which no image loads;
  arithmetic without rounding (the coordinates are small integers, on which floating-point
  arithmetic does not round either); and a state whose float draws are all 0 and whose
  integer draws are 0 for numpy and 1 for the module \<open>random\<close>.
\<close>

definition example_shapenet :: shapenet where
  "example_shapenet =
     \<lparr>sn_data_root = ''data'', sn_pc_path = ''pc'', sn_subset = ''train'',
      sample_points_num = 2,
      file_list = [\<lparr>taxonomy_id = ''t1'', model_id = ''m1'', file_path = ''t1-m1.npy''\<rparr>,
                   \<lparr>taxonomy_id = ''t1'', model_id = ''m2'', file_path = ''t1-m2.npy''\<rparr>],
      index_list = [''t1'' \<mapsto> 0],
      synset_name = [''t1'' \<mapsto> [97, 44, 32, 98]],
      templates = [[120, 32]],
      rendered_image_addr = ''img'',
      picked_rotation_degrees = [''000''],
      picked_image_type = ['''', ''_depth0001''],
      pc_text_features_path = ''feat'',
      text_embed_dim = 512,
      sn_distill = False, sn_with_color = False, sn_use_height = False\<rparr>"

definition example_env :: "bool \<Rightarrow> env" where
  "example_env images_load =
     \<lparr>IO_get = (\<lambda>_. Inr [[0, 0, 0], [1, 0, 0], [2, 0, 0]]),
      np_load = (\<lambda>_. Inl IOError),
      pil_loader = (\<lambda>addr. if images_load \<and> addr = ''img/t1-m2_r_000_depth0001.png''
                             then Some 7 else None),
      train_transform = Some,
      tokenizer = (\<lambda>s. s),
      str_format = (\<lambda>template caption. Inr (template @ caption)),
      arith = exact_arith\<rparr>"

definition example_rng :: rng where
  "example_rng = (const_rng 0)\<lparr>py_random := \<lparr>floats = \<lambda>_. 0, ints = \<lambda>_. 1\<rparr>\<rparr>"

definition example_state :: pstate where
  "example_state = \<lparr>rng_of = example_rng, permutation = [0, 1]\<rparr>"

text \<open>The sample that the second item of the instance gives.\<close>

definition example_sample :: sample where
  "example_sample =
     [''taxonomy_id'' \<mapsto> StrV ''t1'',
      ''model_id'' \<mapsto> StrV ''m2'',
      ''caption'' \<mapsto> Tokens [120, 32, 98],
      ''pc'' \<mapsto> Tensor2 [[- (9 / 10), - (1 / 10), - (1 / 10)], [- (9 / 10), - (1 / 10), - (1 / 10)]],
      ''image'' \<mapsto> ImageV 7,
      ''target'' \<mapsto> IntV 0,
      ''text_feature'' \<mapsto> NoneV]"

text \<open>
  Small instances of the adapters ModelNet (the training subset, one item of two points
  and one class with its 60 text features) and ScanObjectNN (one item).
\<close>

definition example_modelnet :: modelnet where
  "example_modelnet =
     \<lparr>mn_npoints = 2, mn_use_normals = False, mn_use_height = False, mn_use_10k_pc = False,
      mn_use_colored_pc = False, mn_subset = ''train'',
      list_of_points = [[[0, 0, 0], [2, 0, 0]]],
      list_of_labels = [[0]],
      shape_names = [''airplane''],
      modelnet_10k_rgb_data = [], cat_name = [], pc_text_features = [replicate 60 [1]]\<rparr>"

text \<open>The sample that the item gives when all draws are 0: the shuffle exchanges the two points.\<close>

definition example_modelnet_sample :: sample where
  "example_modelnet_sample =
     [''pc'' \<mapsto> Tensor2 [[1, 0, 0], [- 1, 0, 0]],
      ''label'' \<mapsto> IntV 0,
      ''class_name'' \<mapsto> StrV ''airplane'',
      ''text_feature'' \<mapsto> Feature [1]]"

definition example_scanobjectnn :: scanobjectnn where
  "example_scanobjectnn =
     \<lparr>son_data = [[[0, 0, 0], [2, 0, 0]]], son_label = [4], son_tokenizer = map of_char\<rparr>"

section \<open>Verification\<close>

subsection \<open>Maximum, norms and centring\<close>

lemma fold_max_eq: "fold max xs (a::real) = Max (insert a (set xs))"
proof (induction xs arbitrary: a)
  case Nil
  show ?case by simp
next
  case (Cons x xs)
  have "Max (insert (max x a) (set xs)) = Max (insert a (insert x (set xs)))"
  proof (cases "set xs = {}")
    case True
    then show ?thesis by (simp add: max.commute)
  next
    case False
    then show ?thesis by (simp add: max.assoc max.commute)
  qed
  with Cons show ?case by simp
qed

lemma np_max_Max: "xs \<noteq> [] \<Longrightarrow> np_max xs = Max (set xs)"
  by (cases xs) (simp_all add: np_max_def fold_max_eq)

lemma np_max_ge: "xs \<noteq> [] \<Longrightarrow> x \<in> set xs \<Longrightarrow> x \<le> np_max xs"
  by (simp add: np_max_Max)

lemma np_max_mem: "xs \<noteq> [] \<Longrightarrow> np_max xs \<in> set xs"
  using Max_in [of "set xs"] by (simp add: np_max_Max)

lemma sumsq_nonneg: "0 \<le> (\<Sum>x\<leftarrow>p. (x::real)\<^sup>2)"
  by (induction p) simp_all

lemma row_norm_nonneg: "0 \<le> row_norm p"
  by (simp add: row_norm_def sumsq_nonneg)

lemma sumsq_zero_iff: "(\<Sum>x\<leftarrow>p. (x::real)\<^sup>2) = 0 \<longleftrightarrow> (\<forall>x\<in>set p. x = 0)"
proof (induction p)
  case Nil
  show ?case by simp
next
  case (Cons a p)
  have "a\<^sup>2 + (\<Sum>x\<leftarrow>p. x\<^sup>2) = 0 \<longleftrightarrow> a\<^sup>2 = 0 \<and> (\<Sum>x\<leftarrow>p. x\<^sup>2) = 0"
    by (rule add_nonneg_eq_0_iff) (simp_all add: sumsq_nonneg)
  with Cons show ?case by simp
qed

lemma row_norm_zero_iff: "row_norm p = 0 \<longleftrightarrow> (\<forall>x\<in>set p. x = 0)"
  by (simp add: row_norm_def sumsq_zero_iff)

lemma row_norm_scale: "0 < m \<Longrightarrow> row_norm (map (\<lambda>x. x / m) p) = row_norm p / m"
proof -
  assume m: "0 < m"
  have "(\<Sum>x\<leftarrow>p. (x / m)\<^sup>2) = (\<Sum>x\<leftarrow>p. x\<^sup>2) / m\<^sup>2"
    by (induction p) (simp_all add: power_divide add_divide_distrib)
  then show ?thesis using m
    by (simp add: row_norm_def comp_def real_sqrt_divide)
qed

lemma sq_le_sumsq: "x \<in> set p \<Longrightarrow> x\<^sup>2 \<le> (\<Sum>y\<leftarrow>p. (y::real)\<^sup>2)"
proof (induction p)
  case Nil
  then show ?case by simp
next
  case (Cons a p)
  show ?case
  proof (cases "x = a")
    case True
    then show ?thesis by (simp add: sumsq_nonneg)
  next
    case False
    with Cons have "x\<^sup>2 \<le> (\<Sum>y\<leftarrow>p. y\<^sup>2)" by simp
    moreover have "0 \<le> a\<^sup>2" by simp
    ultimately show ?thesis by (simp add: add_increasing)
  qed
qed

lemma abs_le_row_norm: "x \<in> set p \<Longrightarrow> \<bar>x\<bar> \<le> row_norm p"
proof -
  assume "x \<in> set p"
  then have "sqrt (x\<^sup>2) \<le> sqrt (\<Sum>y\<leftarrow>p. y\<^sup>2)"
    by (simp only: real_sqrt_le_iff sq_le_sumsq)
  then show ?thesis by (simp add: row_norm_def)
qed

lemma rect_sub_row: "rect D pc \<Longrightarrow> length c = D \<Longrightarrow> rect D (sub_row pc c)"
  by (simp add: rect_def sub_row_def)

lemma length_np_mean0: "pc \<noteq> [] \<Longrightarrow> rect D pc \<Longrightarrow> length (np_mean0 pc) = D"
  by (cases pc) (simp_all add: np_mean0_def rect_def)

lemma col_sum_sub_row:
  assumes "rect D pc" "length c = D" "j < D"
  shows "(\<Sum>p\<leftarrow>sub_row pc c. p ! j) = (\<Sum>p\<leftarrow>pc. p ! j) - real (length pc) * c ! j"
  using assms(1)
proof (induction pc)
  case Nil
  show ?case by (simp add: sub_row_def)
next
  case (Cons p pc)
  then have "rect D pc" and "length p = D" by (simp_all add: rect_def)
  with Cons.IH assms(2,3) show ?case
    by (simp add: sub_row_def algebra_simps)
qed

lemma np_mean0_centered:
  assumes "pc \<noteq> []" "rect D pc"
  shows "np_mean0 (sub_row pc (np_mean0 pc)) = replicate D 0"
proof -
  let ?c = "np_mean0 pc"
  have lc: "length ?c = D" using assms by (rule length_np_mean0)
  have hd_len: "length (hd (sub_row pc ?c)) = D"
    using assms lc by (cases pc) (simp_all add: sub_row_def rect_def)
  have n: "real (length pc) \<noteq> 0" using assms(1) by simp
  have "\<And>j. j < D \<Longrightarrow> (\<Sum>p\<leftarrow>sub_row pc ?c. p ! j) / real (length (sub_row pc ?c)) = 0"
  proof -
    fix j assume j: "j < D"
    have cj: "?c ! j = (\<Sum>p\<leftarrow>pc. p ! j) / real (length pc)"
      using j assms by (cases pc) (simp_all add: np_mean0_def rect_def)
    have "(\<Sum>p\<leftarrow>sub_row pc ?c. p ! j) = (\<Sum>p\<leftarrow>pc. p ! j) - real (length pc) * ?c ! j"
      using assms(2) lc j by (rule col_sum_sub_row)
    also have "\<dots> = 0" using n by (simp add: cj)
    finally show "(\<Sum>p\<leftarrow>sub_row pc ?c. p ! j) / real (length (sub_row pc ?c)) = 0" by simp
  qed
  then show ?thesis
    unfolding np_mean0_def [of "sub_row pc ?c"] hd_len
    by (intro nth_equalityI) simp_all
qed

lemma sub_row_zero: "rect D pc \<Longrightarrow> sub_row pc (replicate D 0) = pc"
proof -
  assume r: "rect D pc"
  have "\<And>p. length p = D \<Longrightarrow> map2 (-) p (replicate D (0::real)) = p"
    by (intro nth_equalityI) simp_all
  with r show ?thesis
    by (simp add: sub_row_def rect_def map_idI)
qed

lemma div_all_one: "div_all pc 1 = pc"
  by (simp add: div_all_def)

lemma rect_div_all: "rect D pc \<Longrightarrow> rect D (div_all pc m)"
  by (simp add: rect_def div_all_def)

lemma np_mean0_div_all:
  assumes "pc \<noteq> []" "rect D pc"
  shows "np_mean0 (div_all pc m) = map (\<lambda>x. x / m) (np_mean0 pc)"
proof -
  have hd_len: "length (hd (div_all pc m)) = length (hd pc)"
    using assms by (cases pc) (simp_all add: div_all_def)
  have "\<And>j. j < length (hd pc) \<Longrightarrow> (\<Sum>p\<leftarrow>div_all pc m. p ! j) = (\<Sum>p\<leftarrow>pc. p ! j) / m"
  proof -
    fix j assume "j < length (hd pc)"
    then have "j < D" using assms by (cases pc) (simp_all add: rect_def)
    then show "(\<Sum>p\<leftarrow>div_all pc m. p ! j) = (\<Sum>p\<leftarrow>pc. p ! j) / m"
      using assms(2)
      by (induction pc) (simp_all add: div_all_def rect_def add_divide_distrib)
  qed
  then show ?thesis
    unfolding np_mean0_def hd_len
    by (intro nth_equalityI) (simp_all add: div_all_def)
qed

lemma max_norm_div_all:
  assumes "pc \<noteq> []" "0 < m"
  shows "np_max (map row_norm (div_all pc m)) = np_max (map row_norm pc) / m"
proof -
  have eq: "map row_norm (div_all pc m) = map (\<lambda>x. x / m) (map row_norm pc)"
    using assms(2) by (simp add: div_all_def row_norm_scale)
  have mono: "mono (\<lambda>x::real. x / m)"
    using assms(2) by (simp add: mono_def divide_right_mono)
  have "Max ((\<lambda>x. x / m) ` set (map row_norm pc)) = Max (set (map row_norm pc)) / m"
    using assms(1) by (intro mono_Max_commute [OF mono, symmetric]) simp_all
  then show ?thesis
    using assms(1) by (simp add: np_max_Max eq del: set_map) (simp add: image_image)
qed

lemma max_norm_nonneg: "pc \<noteq> [] \<Longrightarrow> 0 \<le> max_norm pc"
proof -
  assume "pc \<noteq> []"
  then have "row_norm (hd pc) \<le> max_norm pc"
    unfolding max_norm_def by (intro np_max_ge) simp_all
  with row_norm_nonneg [of "hd pc"] show ?thesis by linarith
qed

lemma max_norm_zero_coincident:
  assumes "pc \<noteq> []" "rect D pc" "max_norm (centered pc) = 0"
  shows "coincident pc"
proof -
  let ?c = "np_mean0 pc"
  have lc: "length ?c = D" using assms(1,2) by (rule length_np_mean0)
  have "p = ?c" if p: "p \<in> set pc" for p
  proof -
    have lp: "length p = D" using assms(2) p by (simp add: rect_def)
    have "row_norm (map2 (-) p ?c) \<le> max_norm (centered pc)"
      unfolding max_norm_def centered_def using p assms(1)
      by (intro np_max_ge) (auto simp: sub_row_def)
    with assms(3) row_norm_nonneg [of "map2 (-) p ?c"] have "row_norm (map2 (-) p ?c) = 0"
      by linarith
    then have z: "\<forall>x\<in>set (map2 (-) p ?c). x = 0" by (simp only: row_norm_zero_iff)
    show "p = ?c"
    proof (rule nth_equalityI)
      show "length p = length ?c" using lp lc by simp
    next
      fix i assume i: "i < length p"
      then have "map2 (-) p ?c ! i \<in> set (map2 (-) p ?c)"
        using lp lc by (intro nth_mem) simp
      with z have "map2 (-) p ?c ! i = 0" by blast
      then show "p ! i = ?c ! i" using i lp lc by simp
    qed
  qed
  then show ?thesis unfolding coincident_def by metis
qed

lemma max_norm_pos:
  assumes "rect D pc" "\<not> coincident pc"
  shows "0 < max_norm (centered pc)"
proof -
  have ne: "pc \<noteq> []" using assms(2) by (auto simp: coincident_def)
  then have "centered pc \<noteq> []" by (simp add: centered_def sub_row_def)
  then have "0 \<le> max_norm (centered pc)" by (rule max_norm_nonneg)
  moreover have "max_norm (centered pc) \<noteq> 0"
    using max_norm_zero_coincident [OF ne assms(1)] assms(2) by blast
  ultimately show ?thesis by linarith
qed

lemma pc_normalize_nondegenerate:
  assumes "rect D pc" "\<not> coincident pc"
  shows "pc_normalize pc = Inr (div_all (centered pc) (max_norm (centered pc)))"
proof -
  have ne: "pc \<noteq> []" using assms(2) by (auto simp: coincident_def)
  have "max_norm (centered pc) \<noteq> 0" using max_norm_pos [OF assms] by simp
  then show ?thesis
    using ne by (simp add: pc_normalize_def Let_def centered_def max_norm_def)
qed

lemma normalized_shape:
  assumes "pc \<noteq> []" "rect D pc"
  shows "div_all (centered pc) m \<noteq> []" "rect D (div_all (centered pc) m)"
    "length (div_all (centered pc) m) = length pc"
proof -
  have lc: "length (np_mean0 pc) = D" using assms by (rule length_np_mean0)
  show "div_all (centered pc) m \<noteq> []"
    using assms(1) by (simp add: div_all_def centered_def sub_row_def)
  show "rect D (div_all (centered pc) m)"
    unfolding centered_def using assms(2) lc by (intro rect_div_all rect_sub_row)
  show "length (div_all (centered pc) m) = length pc"
    by (simp add: div_all_def centered_def sub_row_def)
qed

lemma normalized_mean:
  assumes "pc \<noteq> []" "rect D pc"
  shows "np_mean0 (div_all (centered pc) m) = replicate D 0"
proof -
  have lc: "length (np_mean0 pc) = D" using assms by (rule length_np_mean0)
  have ne: "centered pc \<noteq> []" using assms(1) by (simp add: centered_def sub_row_def)
  have r: "rect D (centered pc)"
    unfolding centered_def using assms(2) lc by (rule rect_sub_row)
  have "np_mean0 (div_all (centered pc) m) = map (\<lambda>x. x / m) (np_mean0 (centered pc))"
    using ne r by (rule np_mean0_div_all)
  also have "np_mean0 (centered pc) = replicate D 0"
    unfolding centered_def using assms by (rule np_mean0_centered)
  finally show ?thesis by simp
qed

lemma normalized_max_norm:
  assumes "pc \<noteq> []" "0 < max_norm (centered pc)"
  shows "max_norm (div_all (centered pc) (max_norm (centered pc))) = 1"
proof -
  have ne: "centered pc \<noteq> []" using assms(1) by (simp add: centered_def sub_row_def)
  show ?thesis
    unfolding max_norm_def
    using max_norm_div_all [OF ne assms(2) [unfolded max_norm_def]] assms(2)
    by (simp add: max_norm_def)
qed

lemma pc_normalize_fixed:
  assumes "y \<noteq> []" "rect D y" "np_mean0 y = replicate D 0" "max_norm y = 1"
  shows "pc_normalize y = Inr y"
  using assms
  by (simp add: pc_normalize_def Let_def sub_row_zero div_all_one max_norm_def)

lemma normalize_pc_fixed:
  assumes "y \<noteq> []" "rect D y" "np_mean0 y = replicate D 0" "max_norm y = 1"
  shows "normalize_pc y = Inr y"
  using assms
  by (simp add: normalize_pc_def Let_def sub_row_zero div_all_one max_norm_def)


subsection \<open>The sampling loop\<close>

lemma np_argmax_less: "xs \<noteq> [] \<Longrightarrow> np_argmax xs < length xs"
proof -
  assume ne: "xs \<noteq> []"
  have "np_max xs \<in> set xs" using ne by (rule np_max_mem)
  then have "takeWhile (\<lambda>x. x \<noteq> np_max xs) xs \<noteq> xs" by auto
  moreover have "length (takeWhile (\<lambda>x. x \<noteq> np_max xs) xs) \<le> length xs"
    by (rule length_takeWhile_le)
  ultimately show ?thesis
    unfolding np_argmax_def
    by (metis takeWhile_eq_take le_neq_implies_less take_all order_refl)
qed

lemma np_argmax_nth: "xs \<noteq> [] \<Longrightarrow> xs ! np_argmax xs = np_max xs"
proof -
  assume ne: "xs \<noteq> []"
  have "np_argmax xs < length xs" using ne by (rule np_argmax_less)
  then have "\<not> (xs ! np_argmax xs \<noteq> np_max xs)"
    unfolding np_argmax_def by (rule nth_length_takeWhile)
  then show ?thesis by simp
qed

lemma np_argmax_first: "i < np_argmax xs \<Longrightarrow> xs ! i \<noteq> np_max xs"
proof -
  assume i: "i < np_argmax xs"
  then have "takeWhile (\<lambda>x. x \<noteq> np_max xs) xs ! i \<in> set (takeWhile (\<lambda>x. x \<noteq> np_max xs) xs)"
    unfolding np_argmax_def by (rule nth_mem)
  then have "takeWhile (\<lambda>x. x \<noteq> np_max xs) xs ! i \<noteq> np_max xs"
    by (rule set_takeWhileD [THEN conjunct2])
  then show ?thesis using i unfolding np_argmax_def by (simp add: takeWhile_nth)
qed

lemma np_argmax_greatest:
  assumes "xs \<noteq> []" "i < length xs"
  shows "xs ! i \<le> xs ! np_argmax xs"
  using assms by (simp add: np_argmax_nth np_max_ge)

lemma np_argmax_strict:
  assumes "xs \<noteq> []" "i < np_argmax xs"
  shows "xs ! i < xs ! np_argmax xs"
proof -
  have il: "i < length xs" using assms np_argmax_less [OF assms(1)] by linarith
  have "xs ! i \<le> xs ! np_argmax xs" using assms(1) il by (rule np_argmax_greatest)
  moreover have "xs ! i \<noteq> xs ! np_argmax xs"
    using np_argmax_first [OF assms(2)] assms(1) by (simp add: np_argmax_nth)
  ultimately show ?thesis by linarith
qed

lemma length_update_distance:
  "length distance = length xyz \<Longrightarrow> length (update_distance fa xyz distance f) = length xyz"
  by (simp add: update_distance_def Let_def)

lemma nth_update_distance:
  "length distance = length xyz \<Longrightarrow> i < length xyz \<Longrightarrow>
   update_distance fa xyz distance f ! i = min (sq_dist fa (xyz ! i) (xyz ! f)) (distance ! i)"
  by (simp add: update_distance_def Let_def min_def)

lemma length_fps_loop: "length (fps_loop fa xyz n distance f) = n"
  by (induction n arbitrary: distance f) (simp_all add: Let_def)

lemma fps_loop_first: "0 < n \<Longrightarrow> fps_loop fa xyz n distance f ! 0 = f"
  by (cases n) (simp_all add: Let_def)

lemma fps_loop_bound:
  assumes "xyz \<noteq> []" "length distance = length xyz" "f < length xyz"
  shows "\<forall>i\<in>set (fps_loop fa xyz n distance f). i < length xyz"
  using assms(2,3)
proof (induction n arbitrary: distance f)
  case 0
  show ?case by simp
next
  case (Suc n)
  let ?d = "update_distance fa xyz distance f"
  have l: "length ?d = length xyz" using Suc.prems(1) by (rule length_update_distance)
  then have "?d \<noteq> []" using assms(1) by auto
  then have "np_argmax ?d < length xyz" using np_argmax_less [of ?d] l by simp
  with Suc.IH [OF l] Suc.prems(2) show ?case by (simp add: Let_def)
qed

text \<open>The running array after the selections \<open>sel\<close>, made one after the other.\<close>

lemma fps_loop_step:
  assumes "j + 1 < n"
  shows "fps_loop fa xyz n distance f ! (j + 1) =
         np_argmax (fold (\<lambda>s d. update_distance fa xyz d s) (take (j + 1) (fps_loop fa xyz n distance f)) distance)"
  using assms
proof (induction n arbitrary: distance f j)
  case 0
  then show ?case by simp
next
  case (Suc n)
  let ?d = "update_distance fa xyz distance f"
  let ?rest = "fps_loop fa xyz n ?d (np_argmax ?d)"
  show ?case
  proof (cases j)
    case 0
    have "0 < n" using Suc.prems 0 by simp
    then have "?rest ! 0 = np_argmax ?d" by (rule fps_loop_first)
    then show ?thesis using 0 by (simp add: Let_def)
  next
    case (Suc j')
    then have "j' + 1 < n" using Suc.prems by simp
    from Suc.IH [OF this]
    have "?rest ! (j' + 1) =
          np_argmax (fold (\<lambda>s d. update_distance fa xyz d s) (take (j' + 1) ?rest) ?d)" .
    then show ?thesis using Suc by (simp add: Let_def)
  qed
qed

lemma length_running:
  "length distance = length xyz \<Longrightarrow>
   length (fold (\<lambda>s d. update_distance fa xyz d s) sel distance) = length xyz"
  by (induction sel arbitrary: distance) (simp_all add: length_update_distance)

lemma running_distance:
  assumes "length distance = length xyz" "i < length xyz"
  shows "fold (\<lambda>s d. update_distance fa xyz d s) sel distance ! i =
         Min (insert (distance ! i) ((\<lambda>s. sq_dist fa (xyz ! i) (xyz ! s)) ` set sel))"
  using assms(1)
proof (induction sel arbitrary: distance)
  case Nil
  then show ?case by simp
next
  case (Cons s sel)
  let ?d = "update_distance fa xyz distance s"
  let ?S = "(\<lambda>s. sq_dist fa (xyz ! i) (xyz ! s)) ` set sel"
  have l: "length ?d = length xyz" using Cons.prems by (rule length_update_distance)
  have di: "?d ! i = min (sq_dist fa (xyz ! i) (xyz ! s)) (distance ! i)"
    using Cons.prems assms(2) by (rule nth_update_distance)
  have "Min (insert (?d ! i) ?S) = Min (insert (distance ! i) (insert (sq_dist fa (xyz ! i) (xyz ! s)) ?S))"
  proof (cases "?S = {}")
    case True
    then show ?thesis by (simp add: di min.commute)
  next
    case False
    then show ?thesis by (simp add: di min.assoc min.commute min.left_commute)
  qed
  with Cons.IH [OF l] show ?case by simp
qed

lemma capped_min_dist_bounded:
  assumes "sel \<noteq> []" "\<forall>s\<in>set sel. sq_dist fa (xyz ! i) (xyz ! s) < 10 ^ 10"
  shows "capped_min_dist fa xyz sel i = min_dist fa xyz sel i"
proof -
  let ?S = "(\<lambda>s. sq_dist fa (xyz ! i) (xyz ! s)) ` set sel"
  have ne: "?S \<noteq> {}" using assms(1) by simp
  have "Min ?S \<in> ?S" using ne by (intro Min_in) simp_all
  with assms(2) have less: "Min ?S < 10 ^ 10" by auto
  have "Min (insert (10 ^ 10) ?S) = min (10 ^ 10) (Min ?S)"
    using ne by (intro Min_insert) simp_all
  also have "\<dots> = Min ?S" using less by (intro min_absorb2) linarith
  finally show ?thesis by (simp only: capped_min_dist_def min_dist_def)
qed

lemma fps_next_is_argmax:
  assumes "point \<noteq> []" "j + 1 < K" "i < length point"
  shows "capped_min_dist fa (xyz_of point) (take (j + 1) (fps_centroids fa point K start)) i =
         fold (\<lambda>s d. update_distance fa (xyz_of point) d s) (take (j + 1) (fps_centroids fa point K start))
           (replicate (length point) (10 ^ 10)) ! i"
proof -
  have l: "length (replicate (length point) (10 ^ 10 :: real)) = length (xyz_of point)"
    by (simp add: xyz_of_def)
  have i: "i < length (xyz_of point)" using assms(3) by (simp add: xyz_of_def)
  show ?thesis
    using running_distance [where sel = "take (j + 1) (fps_centroids fa point K start)" and fa = fa, OF l i] assms(3)
    by (simp add: capped_min_dist_def)
qed

text \<open>
  C3 (amended).  With \<open>N \<ge> K \<ge> 1\<close> and a starting index below \<open>N\<close>,
  \<open>farthest_point_sample\<close> returns the \<open>K\<close> rows of the input, at full width, that the
  selected indices name; the first selected index is the starting index; and every later
  selected index is the first index that maximises, over all points, the minimum squared
  distance (first three coordinates) to the points selected before it, capped at the
  initial value \<open>1e10\<close> of the running array.  The distances are those that the
  sampler computes, in whatever floating-point arithmetic \<open>fa\<close> it runs; in arithmetic
  without rounding they are the squared Euclidean distances.
\<close>

theorem farthest_point_sample_greedy:
  assumes "1 \<le> K" "K \<le> length point" "start < length point"
  shows "farthest_point_sample fa point K start =
           Inr (map (\<lambda>i. point ! i) (fps_centroids fa point K start))
       \<and> length (fps_centroids fa point K start) = K
       \<and> (\<forall>i\<in>set (fps_centroids fa point K start). i < length point)
       \<and> fps_centroids fa point K start ! 0 = start
       \<and> (\<forall>j. j + 1 < K \<longrightarrow>
            (\<forall>i<length point.
               capped_min_dist fa (xyz_of point) (take (j + 1) (fps_centroids fa point K start)) i
               \<le> capped_min_dist fa (xyz_of point) (take (j + 1) (fps_centroids fa point K start))
                    (fps_centroids fa point K start ! (j + 1)))
          \<and> (\<forall>i<fps_centroids fa point K start ! (j + 1).
               capped_min_dist fa (xyz_of point) (take (j + 1) (fps_centroids fa point K start)) i
               < capped_min_dist fa (xyz_of point) (take (j + 1) (fps_centroids fa point K start))
                    (fps_centroids fa point K start ! (j + 1))))
       \<and> (\<forall>p c. sq_dist exact_arith p c = (\<Sum>(x, y)\<leftarrow>zip p c. (x - y)\<^sup>2))"
proof -
  let ?xyz = "xyz_of point"
  let ?idx = "fps_centroids fa point K start"
  let ?init = "replicate (length point) (10 ^ 10 :: real)"
  have ne: "point \<noteq> []" using assms(1,2) by auto
  have lx: "length ?xyz = length point" by (simp add: xyz_of_def)
  have xne: "?xyz \<noteq> []" using ne by (simp add: xyz_of_def)
  have li: "length ?init = length ?xyz" by (simp add: lx)
  have c1: "farthest_point_sample fa point K start = Inr (map (\<lambda>i. point ! i) ?idx)"
    using ne by (simp add: farthest_point_sample_def)
  have c2: "length ?idx = K" by (simp add: fps_centroids_def length_fps_loop)
  have c3: "\<forall>i\<in>set ?idx. i < length point"
    using fps_loop_bound [where f = start and n = K and fa = fa, OF xne li] assms(3) by (simp add: fps_centroids_def lx)
  have c4: "?idx ! 0 = start"
    using assms(1) by (simp add: fps_centroids_def fps_loop_first)
  have c5: "(\<forall>i<length point. capped_min_dist fa ?xyz (take (j + 1) ?idx) i
                \<le> capped_min_dist fa ?xyz (take (j + 1) ?idx) (?idx ! (j + 1)))
          \<and> (\<forall>i<?idx ! (j + 1). capped_min_dist fa ?xyz (take (j + 1) ?idx) i
                < capped_min_dist fa ?xyz (take (j + 1) ?idx) (?idx ! (j + 1)))"
    if j: "j + 1 < K" for j
  proof -
    let ?run = "fold (\<lambda>s d. update_distance fa ?xyz d s) (take (j + 1) ?idx) ?init"
    have nxt: "?idx ! (j + 1) = np_argmax ?run"
      unfolding fps_centroids_def using j by (rule fps_loop_step)
    have lr: "length ?run = length point"
      using length_running [where sel = "take (j + 1) ?idx" and fa = fa, OF li] by (simp add: lx)
    have rne: "?run \<noteq> []" using lr ne by auto
    have score: "capped_min_dist fa ?xyz (take (j + 1) ?idx) i = ?run ! i" if "i < length point" for i
      using ne j that by (rule fps_next_is_argmax)
    have nl: "np_argmax ?run < length point" using np_argmax_less [OF rne] lr by simp
    have "capped_min_dist fa ?xyz (take (j + 1) ?idx) i
          \<le> capped_min_dist fa ?xyz (take (j + 1) ?idx) (?idx ! (j + 1))" if i: "i < length point" for i
    proof -
      have "capped_min_dist fa ?xyz (take (j + 1) ?idx) i = ?run ! i" using i by (rule score)
      also have "\<dots> \<le> ?run ! np_argmax ?run"
        using rne by (rule np_argmax_greatest) (simp only: lr i)
      also have "\<dots> = capped_min_dist fa ?xyz (take (j + 1) ?idx) (np_argmax ?run)"
        using nl by (rule score [symmetric])
      finally show ?thesis unfolding nxt .
    qed
    moreover have "capped_min_dist fa ?xyz (take (j + 1) ?idx) i
          < capped_min_dist fa ?xyz (take (j + 1) ?idx) (?idx ! (j + 1))" if i: "i < ?idx ! (j + 1)" for i
    proof -
      have i': "i < np_argmax ?run" using i unfolding nxt .
      then have il: "i < length point" using nl by linarith
      have "capped_min_dist fa ?xyz (take (j + 1) ?idx) i = ?run ! i" using il by (rule score)
      also have "\<dots> < ?run ! np_argmax ?run" using rne i' by (rule np_argmax_strict)
      also have "\<dots> = capped_min_dist fa ?xyz (take (j + 1) ?idx) (np_argmax ?run)"
        using nl by (rule score [symmetric])
      finally show ?thesis unfolding nxt .
    qed
    ultimately show ?thesis by blast
  qed
  have c6: "sq_dist exact_arith p c = (\<Sum>(x, y)\<leftarrow>zip p c. (x - y)\<^sup>2)" for p c
    by (simp add: sq_dist_def exact_arith_def split_def comp_def)
  from c1 c2 c3 c4 c5 c6 show ?thesis by blast
qed

theorem farthest_point_sample_greedy_witness:
  "(1::nat) \<le> 2 \<and> 2 \<le> length [[0, 0, 0, 5], [1, 0, 0, 6], [3, 0, 0, 7 :: real]]
   \<and> 0 < length [[0, 0, 0, 5], [1, 0, 0, 6], [3, 0, 0, 7 :: real]]
   \<and> farthest_point_sample exact_arith [[0, 0, 0, 5], [1, 0, 0, 6], [3, 0, 0, 7]] 2 0
       = Inr [[0, 0, 0, 5], [3, 0, 0, 7]]
   \<and> fps_centroids exact_arith [[0, 0, 0, 5], [1, 0, 0, 6], [3, 0, 0, 7]] 2 0 = [0, 2]"
  using farthest_point_sample_greedy
    [where K = 2 and point = "[[0, 0, 0, 5], [1, 0, 0, 6], [3, 0, 0, 7]]" and start = 0
       and fa = exact_arith]
  by (simp add: fps_centroids_def xyz_of_def update_distance_def sq_dist_def exact_arith_def
      np_argmax_def np_max_def numeral_2_eq_2)

text \<open>
  C3 as stated fails where squared distances reach \<open>1e10\<close>: from the start index 0 the
  sampler selects index 1, though index 2 is farther from the selected point.  The
  coordinates and the squares are integers below \<open>2^53\<close>, which float64 arithmetic
  computes without rounding.
\<close>

theorem farthest_point_sample_uncapped_counterexample:
  "fps_centroids exact_arith [[0, 0, 0], [100001, 0, 0], [200000, 0, 0]] 2 0 ! 1 = 1
   \<and> min_dist exact_arith (xyz_of [[0, 0, 0], [100001, 0, 0], [200000, 0, 0]])
         (take 1 (fps_centroids exact_arith [[0, 0, 0], [100001, 0, 0], [200000, 0, 0]] 2 0)) 1
     < min_dist exact_arith (xyz_of [[0, 0, 0], [100001, 0, 0], [200000, 0, 0]])
         (take 1 (fps_centroids exact_arith [[0, 0, 0], [100001, 0, 0], [200000, 0, 0]] 2 0)) 2"
  by (simp add: fps_centroids_def xyz_of_def update_distance_def sq_dist_def exact_arith_def
      np_argmax_def np_max_def min_dist_def numeral_2_eq_2)

subsection \<open>Normalisation\<close>

lemma normalize_pc_degenerate:
  assumes "pc \<noteq> []" "max_norm (centered pc) < 1 / 10 ^ 6"
  shows "normalize_pc pc = Inr (zeros_like (centered pc))"
  using assms by (simp add: normalize_pc_def Let_def centered_def max_norm_def)

lemma normalize_pc_nondegenerate:
  assumes "pc \<noteq> []" "\<not> max_norm (centered pc) < 1 / 10 ^ 6"
  shows "normalize_pc pc = Inr (div_all (centered pc) (max_norm (centered pc)))"
  using assms by (simp add: normalize_pc_def Let_def centered_def max_norm_def)

lemma normalize_pc_zeros:
  assumes "pc \<noteq> []" "rect D pc"
  shows "normalize_pc (zeros_like (centered pc)) = Inr (zeros_like (centered pc))"
proof -
  let ?z = "zeros_like (centered pc)"
  have lc: "length (np_mean0 pc) = D" using assms by (rule length_np_mean0)
  have zne: "?z \<noteq> []" using assms(1) by (simp add: zeros_like_def centered_def sub_row_def)
  have zrows: "?z = replicate (length pc) (replicate D 0)"
    using assms(2) lc
    by (intro nth_equalityI)
      (simp_all add: zeros_like_def centered_def sub_row_def rect_def map_replicate_const)
  have zr: "rect D ?z" by (simp add: zrows rect_def)
  have hd_len: "length (hd ?z) = D" unfolding zrows using assms(1) by (cases pc) simp_all
  have mean: "np_mean0 ?z = replicate D 0"
    unfolding np_mean0_def hd_len by (intro nth_equalityI) (simp_all add: zrows sum_list_replicate)
  have cz: "sub_row ?z (np_mean0 ?z) = ?z" unfolding mean using zr by (rule sub_row_zero)
  have "row_norm (replicate D 0) = 0" by (simp add: row_norm_zero_iff)
  then have norms: "map row_norm ?z = replicate (length pc) 0" by (simp add: zrows)
  have "np_max (map row_norm ?z) = 0"
    using assms(1) unfolding norms by (simp add: np_max_Max)
  then have small: "np_max (map row_norm ?z) < 1 / 10 ^ 6" by simp
  have "zeros_like ?z = ?z" by (simp add: zeros_like_def)
  then show ?thesis
    using zne small unfolding normalize_pc_def Let_def cz by simp
qed

text \<open>
  C10.  For a cloud whose points do not all coincide, \<open>pc_normalize\<close> returns a cloud
  of the same shape whose centroid is zero and whose maximum Euclidean point norm is 1,
  so that every coordinate lies in \<open>[-1, 1]\<close> (in real arithmetic).
\<close>

theorem pc_normalize_unit_ball:
  assumes "rect D pc" "\<not> coincident pc"
  shows "\<exists>out. pc_normalize pc = Inr out
           \<and> length out = length pc \<and> rect D out
           \<and> np_mean0 out = replicate D 0
           \<and> max_norm out = 1
           \<and> (\<forall>p\<in>set out. \<forall>x\<in>set p. - 1 \<le> x \<and> x \<le> 1)"
proof -
  let ?m = "max_norm (centered pc)"
  let ?out = "div_all (centered pc) ?m"
  have ne: "pc \<noteq> []" using assms(2) by (auto simp: coincident_def)
  have pos: "0 < ?m" using assms by (rule max_norm_pos)
  have one: "max_norm ?out = 1" using ne pos by (rule normalized_max_norm)
  have box: "- 1 \<le> x \<and> x \<le> 1" if p: "p \<in> set ?out" and x: "x \<in> set p" for p x
  proof -
    have "\<bar>x\<bar> \<le> row_norm p" using x by (rule abs_le_row_norm)
    also have "\<dots> \<le> np_max (map row_norm ?out)"
      using p by (intro np_max_ge) auto
    also have "\<dots> = max_norm ?out" by (simp only: max_norm_def)
    finally show ?thesis using one by (simp add: abs_le_iff)
  qed
  show ?thesis
    using pc_normalize_nondegenerate [OF assms] normalized_shape(2,3) [OF ne assms(1)]
      normalized_mean [OF ne assms(1)] one box
    by blast
qed

theorem pc_normalize_unit_ball_witness:
  "rect 3 [[0, 0, 0], [2, 0, 0]] \<and> \<not> coincident [[0, 0, 0], [2, 0, 0 :: real]]
   \<and> pc_normalize [[0, 0, 0], [2, 0, 0]] = Inr [[- 1, 0, 0], [1, 0, 0]]
   \<and> (\<exists>out. pc_normalize [[0, 0, 0], [2, 0, 0]] = Inr out \<and> max_norm out = 1
          \<and> np_mean0 out = replicate 3 0)"
proof -
  have h1: "rect 3 [[0, 0, 0], [2, 0, 0 :: real]]" by (simp add: rect_def)
  have h2: "\<not> coincident [[0, 0, 0], [2, 0, 0 :: real]]" by (simp add: coincident_def)
  have ev: "pc_normalize [[0, 0, 0], [2, 0, 0]] = Inr [[- 1, 0, 0], [1, 0, 0]]"
    by (simp add: pc_normalize_def np_mean0_def sub_row_def row_norm_def np_max_def
        div_all_def Let_def)
  from pc_normalize_unit_ball [OF h1 h2] h1 h2 ev show ?thesis by auto
qed

text \<open>
  C4.  Normalisation is idempotent in real arithmetic: for a cloud whose points do not
  all coincide, \<open>pc_normalize\<close> and \<open>normalize_pc\<close> each return a cloud that the same
  function maps to itself.
\<close>

theorem normalize_idempotent:
  assumes "rect D pc" "\<not> coincident pc"
  shows "(\<exists>y. pc_normalize pc = Inr y \<and> pc_normalize y = Inr y)
       \<and> (\<exists>y. normalize_pc pc = Inr y \<and> normalize_pc y = Inr y)"
proof -
  let ?m = "max_norm (centered pc)"
  let ?y = "div_all (centered pc) ?m"
  have ne: "pc \<noteq> []" using assms(2) by (auto simp: coincident_def)
  have pos: "0 < ?m" using assms by (rule max_norm_pos)
  have yne: "?y \<noteq> []" and yr: "rect D ?y"
    using normalized_shape [OF ne assms(1)] by blast+
  have ym: "np_mean0 ?y = replicate D 0" using ne assms(1) by (rule normalized_mean)
  have y1: "max_norm ?y = 1" using ne pos by (rule normalized_max_norm)
  have a: "pc_normalize pc = Inr ?y" using assms by (rule pc_normalize_nondegenerate)
  have b: "pc_normalize ?y = Inr ?y" using yne yr ym y1 by (rule pc_normalize_fixed)
  have c: "\<exists>y. normalize_pc pc = Inr y \<and> normalize_pc y = Inr y"
  proof (cases "?m < 1 / 10 ^ 6")
    case True
    with ne have "normalize_pc pc = Inr (zeros_like (centered pc))"
      by (rule normalize_pc_degenerate)
    moreover have "normalize_pc (zeros_like (centered pc)) = Inr (zeros_like (centered pc))"
      using ne assms(1) by (rule normalize_pc_zeros)
    ultimately show ?thesis by blast
  next
    case False
    with ne have "normalize_pc pc = Inr ?y" by (rule normalize_pc_nondegenerate)
    moreover have "normalize_pc ?y = Inr ?y" using yne yr ym y1 by (rule normalize_pc_fixed)
    ultimately show ?thesis by blast
  qed
  from a b c show ?thesis by blast
qed

theorem normalize_idempotent_witness:
  "rect 3 [[0, 0, 0], [2, 0, 0]] \<and> \<not> coincident [[0, 0, 0], [2, 0, 0 :: real]]
   \<and> (\<exists>y. pc_normalize [[0, 0, 0], [2, 0, 0]] = Inr y \<and> pc_normalize y = Inr y)
   \<and> (\<exists>y. normalize_pc [[0, 0, 0], [2, 0, 0]] = Inr y \<and> normalize_pc y = Inr y)"
proof -
  have h1: "rect 3 [[0, 0, 0], [2, 0, 0 :: real]]" by (simp add: rect_def)
  have h2: "\<not> coincident [[0, 0, 0], [2, 0, 0 :: real]]" by (simp add: coincident_def)
  from normalize_idempotent [OF h1 h2] h1 h2 show ?thesis by blast
qed

text \<open>
  C1 at a cloud of two points \<open>2e-7\<close> apart, whose maximum norm after centring is
  \<open>1e-7\<close>: \<open>normalize_pc\<close> returns the all-zero cloud, \<open>pc_normalize\<close> divides by the
  norm and returns points of norm 1.  At a single point \<open>pc_normalize\<close> divides zero by
  zero.
\<close>

theorem pc_normalize_divides_near_zero:
  "max_norm (centered [[0, 0, 0], [2 / 10 ^ 7, 0, 0]]) < 1 / 10 ^ 6
   \<and> normalize_pc [[0, 0, 0], [2 / 10 ^ 7, 0, 0]] = Inr [[0, 0, 0], [0, 0, 0]]
   \<and> pc_normalize [[0, 0, 0], [2 / 10 ^ 7, 0, 0]] = Inr [[- 1, 0, 0], [1, 0, 0]]
   \<and> pc_normalize [[1, 2, 3]] = Inl NonFinite"
  by (simp add: max_norm_def centered_def pc_normalize_def normalize_pc_def np_mean0_def
      sub_row_def row_norm_def np_max_def div_all_def zeros_like_def Let_def)

subsection \<open>The sampler leaves its input alone\<close>

lemma update_twice:
  assumes "c \<noteq> d"
  shows "h[c := a, d := b, c := a', d := b'] = h[c := a', d := b']"
proof -
  have "h[c := a, d := b, c := a'] = h[c := a, c := a', d := b]"
    using assms by (simp add: list_update_swap [of d c])
  then show ?thesis by simp
qed

lemma fps_loop_heap_frame:
  assumes "point \<noteq> c" "point \<noteq> d" "c \<noteq> d" "c < length h" "d < length h" "point < length h"
    "h ! c = Vec cs" "h ! d = Vec ds" "i + n \<le> length cs"
  shows "fps_loop_heap fa h point c d n i f =
         h[c := Vec (take i cs @ map real (fps_loop fa (xyz_of (mat_of (h ! point))) n ds f) @ drop (i + n) cs),
           d := Vec (fold (\<lambda>s dd. update_distance fa (xyz_of (mat_of (h ! point))) dd s)
                      (fps_loop fa (xyz_of (mat_of (h ! point))) n ds f) ds)]"
  using assms(4-)
proof (induction n arbitrary: h cs ds i f)
  case 0
  then have "h[c := Vec cs] = h" and "h[d := Vec ds] = h"
    by (simp_all add: list_update_same_conv)
  then show ?case by simp
next
  case (Suc n)
  let ?xyz = "xyz_of (mat_of (h ! point))"
  let ?cs = "cs[i := real f]"
  let ?h1 = "h[c := Vec ?cs]"
  let ?ds = "update_distance fa ?xyz ds f"
  let ?h2 = "?h1[d := Vec ?ds]"
  have p1: "?h1 ! point = h ! point" using assms(1) by simp
  have p2: "?h2 ! point = h ! point" using assms(1,2) by simp
  have d1: "?h1 ! d = Vec ds" using assms(3) Suc.prems by simp
  have c2: "?h2 ! c = Vec ?cs" using assms(3) Suc.prems by simp
  have d2: "?h2 ! d = Vec ?ds" using Suc.prems by simp
  have step: "fps_loop_heap fa h point c d (Suc n) i f =
              fps_loop_heap fa ?h2 point c d n (i + 1) (np_argmax ?ds)"
    using Suc.prems by (simp add: Let_def p1 d1 d2)
  have len: "i + 1 + n \<le> length ?cs" using Suc.prems by simp
  have IH: "fps_loop_heap fa ?h2 point c d n (i + 1) (np_argmax ?ds) =
        ?h2[c := Vec (take (i + 1) ?cs @ map real (fps_loop fa ?xyz n ?ds (np_argmax ?ds)) @ drop (i + 1 + n) ?cs),
            d := Vec (fold (\<lambda>s dd. update_distance fa ?xyz dd s) (fps_loop fa ?xyz n ?ds (np_argmax ?ds)) ?ds)]"
    using Suc.IH [of ?h2 ?cs ?ds "i + 1" "np_argmax ?ds"] Suc.prems c2 d2 len
    by (simp add: p2)
  have il: "i < length cs" using Suc.prems by simp
  have tk: "take (i + 1) ?cs = take i cs @ [real f]"
    using il by (simp add: take_Suc_conv_app_nth)
  have dr: "drop (i + 1 + n) ?cs = drop (i + Suc n) cs" by simp
  show ?case
    unfolding step IH tk dr
    using assms(3) by (simp add: update_twice Let_def)
qed

lemma nat_floor_real: "map (\<lambda>c. nat \<lfloor>c\<rfloor>) (map real xs) = xs"
  by (induction xs) simp_all

text \<open>
  C8.  \<open>farthest_point_sample\<close> never writes to its input: whatever the array at the
  address \<open>point\<close>, the target count and the floating-point arithmetic, every array that was in the heap before the
  call, the input among them, has the same contents after it, and a returned sample is
  a new array, holding the rows that the sampler selects.
\<close>

theorem farthest_point_sample_no_mutation:
  assumes "point < length h"
  shows "take (length h) (fst (farthest_point_sample_heap fa h point K start)) = h
       \<and> fst (farthest_point_sample_heap fa h point K start) ! point = h ! point
       \<and> (mat_of (h ! point) = [] \<longrightarrow>
            farthest_point_sample_heap fa h point K start = (h, Inl ValueError))
       \<and> (mat_of (h ! point) \<noteq> [] \<longrightarrow>
            (\<exists>r. snd (farthest_point_sample_heap fa h point K start) = Inr r
               \<and> length h \<le> r
               \<and> r < length (fst (farthest_point_sample_heap fa h point K start))
               \<and> fst (farthest_point_sample_heap fa h point K start) ! r =
                   Mat (map (\<lambda>i. mat_of (h ! point) ! i)
                          (fps_centroids fa (mat_of (h ! point)) K start))))"
proof (cases "mat_of (h ! point) = []")
  case True
  then show ?thesis using assms by (simp add: farthest_point_sample_heap_def)
next
  case False
  let ?pts = "mat_of (h ! point)"
  let ?c = "length h"
  let ?d = "Suc (length h)"
  let ?cs = "replicate K (0::real)"
  let ?ds = "replicate (length ?pts) (10000000000 :: real)"
  let ?h2 = "h @ [Vec ?cs, Vec ?ds]"
  let ?idx = "fps_loop fa (xyz_of ?pts) K ?ds start"
  let ?h3 = "fps_loop_heap fa ?h2 point ?c ?d K 0 start"
  have pt: "?h2 ! point = h ! point" using assms by (simp add: nth_append)
  have loop: "?h3 = ?h2[?c := Vec (take 0 ?cs @ map real ?idx @ drop (0 + K) ?cs),
                        ?d := Vec (fold (\<lambda>s dd. update_distance fa (xyz_of ?pts) dd s) ?idx ?ds)]"
    using fps_loop_heap_frame [where point = point and c = ?c and d = ?d and h = ?h2 and cs = ?cs and ds = ?ds
        and i = 0 and n = K and f = start and fa = fa] assms
    by (simp add: pt nth_append)
  have l3: "length ?h3 = length h + 2" unfolding loop by simp
  have tk: "take (length h) ?h3 = h" unfolding loop by simp
  have p3: "?h3 ! point = h ! point" unfolding loop using assms by (simp add: nth_append)
  have c3: "vec_of (?h3 ! ?c) = map real ?idx" unfolding loop by (simp add: nth_append)
  have run: "farthest_point_sample_heap fa h point K start =
             (?h3 @ [Mat (map (\<lambda>i. ?pts ! i) ?idx)], Inr (length ?h3))"
    using False
    by (simp add: farthest_point_sample_heap_def alloc_def Let_def c3 p3 nat_floor_real
        del: fps_loop_heap.simps)
  show ?thesis
    unfolding run using False assms tk p3 l3
    by (simp add: nth_append fps_centroids_def)
qed

theorem farthest_point_sample_no_mutation_witness:
  "(0::nat) < length [Mat [[0, 0, 0, 5], [1, 0, 0, 6], [3, 0, 0, 7]]]
   \<and> farthest_point_sample_heap exact_arith [Mat [[0, 0, 0, 5], [1, 0, 0, 6], [3, 0, 0, 7]]] 0 2 0 =
       ([Mat [[0, 0, 0, 5], [1, 0, 0, 6], [3, 0, 0, 7]], Vec [0, 2], Vec [0, 1, 0],
         Mat [[0, 0, 0, 5], [3, 0, 0, 7]]], Inr 3)
   \<and> take (length [Mat [[0, 0, 0, 5], [1, 0, 0, 6], [3, 0, 0, 7]]])
        (fst (farthest_point_sample_heap exact_arith [Mat [[0, 0, 0, 5], [1, 0, 0, 6], [3, 0, 0, 7]]] 0 2 0))
       = [Mat [[0, 0, 0, 5], [1, 0, 0, 6], [3, 0, 0, 7]]]"
proof -
  have h: "(0::nat) < length [Mat [[0, 0, 0, 5], [1, 0, 0, 6], [3, 0, 0, 7]]]" by simp
  have ev: "farthest_point_sample_heap exact_arith [Mat [[0, 0, 0, 5], [1, 0, 0, 6], [3, 0, 0, 7]]] 0 2 0 =
       ([Mat [[0, 0, 0, 5], [1, 0, 0, 6], [3, 0, 0, 7]], Vec [0, 2], Vec [0, 1, 0],
         Mat [[0, 0, 0, 5], [3, 0, 0, 7]]], Inr 3)"
    by (simp add: farthest_point_sample_heap_def alloc_def xyz_of_def
      update_distance_def sq_dist_def exact_arith_def np_argmax_def np_max_def numeral_2_eq_2 Let_def)
  from farthest_point_sample_no_mutation [where fa = exact_arith and K = 2 and start = 0, OF h] h ev show ?thesis by blast
qed

subsection \<open>Augmentation: dropout\<close>

lemma length_set_rows: "length (set_rows pc idx row) = length pc"
  unfolding set_rows_def by (induction idx arbitrary: pc) simp_all

lemma nth_set_rows:
  "i < length pc \<Longrightarrow> set_rows pc idx row ! i = (if i \<in> set idx then row else pc ! i)"
  unfolding set_rows_def
proof (induction idx arbitrary: pc)
  case Nil
  show ?case by simp
next
  case (Cons j idx)
  then show ?case by (simp add: nth_list_update)
qed

lemma set_np_where_le: "set (np_where_le r t) = {i. i < length r \<and> r ! i \<le> t}"
  by (auto simp: np_where_le_def)

lemma draw_floats_length: "length (fst (draw_floats n g)) = n"
  by (simp add: draw_floats_def)

lemma draw_floats_nth: "i < n \<Longrightarrow> fst (draw_floats n g) ! i = floats g i"
  by (simp add: draw_floats_def)

lemma draw_floats_state: "floats (snd (draw_floats n g)) k = floats g (k + n)"
  by (simp add: draw_floats_def)

lemma dropout_step:
  assumes "length pc = N"
  shows "(if length (np_where_le (fst (draw_floats N g1)) t) > 0
          then set_rows pc (np_where_le (fst (draw_floats N g1)) t) (pc ! 0) else pc)
         = map (\<lambda>i. if floats g1 i \<le> t then pc ! 0 else pc ! i) [0..<length pc]"
proof (rule nth_equalityI)
  show "length (if length (np_where_le (fst (draw_floats N g1)) t) > 0
          then set_rows pc (np_where_le (fst (draw_floats N g1)) t) (pc ! 0) else pc)
        = length (map (\<lambda>i. if floats g1 i \<le> t then pc ! 0 else pc ! i) [0..<length pc])"
    by (simp add: length_set_rows)
next
  fix i
  assume "i < length (if length (np_where_le (fst (draw_floats N g1)) t) > 0
          then set_rows pc (np_where_le (fst (draw_floats N g1)) t) (pc ! 0) else pc)"
  then have i: "i < length pc" by (simp add: length_set_rows split: if_splits)
  have mem: "i \<in> set (np_where_le (fst (draw_floats N g1)) t) \<longleftrightarrow> floats g1 i \<le> t"
    using i assms by (simp add: set_np_where_le draw_floats_length draw_floats_nth)
  show "(if length (np_where_le (fst (draw_floats N g1)) t) > 0
          then set_rows pc (np_where_le (fst (draw_floats N g1)) t) (pc ! 0) else pc) ! i
        = map (\<lambda>i. if floats g1 i \<le> t then pc ! 0 else pc ! i) [0..<length pc] ! i"
  proof (cases "length (np_where_le (fst (draw_floats N g1)) t) > 0")
    case True
    then show ?thesis using i mem by (simp add: nth_set_rows)
  next
    case False
    then have "i \<notin> set (np_where_le (fst (draw_floats N g1)) t)" by simp
    then show ?thesis using False i mem by simp
  qed
qed

lemma dropout_loop_Cons:
  assumes "length pc = N"
  shows "random_point_dropout_loop g mx N (pc # rest) =
         (dropout_cloud (floats g) mx pc #
            fst (random_point_dropout_loop (g\<lparr>floats := \<lambda>k. floats g (k + (N + 1))\<rparr>) mx N rest),
          snd (random_point_dropout_loop (g\<lparr>floats := \<lambda>k. floats g (k + (N + 1))\<rparr>) mx N rest))"
proof -
  let ?g1 = "g\<lparr>floats := \<lambda>k. floats g (k + 1)\<rparr>"
  have g2: "snd (draw_floats N ?g1) = g\<lparr>floats := \<lambda>k. floats g (k + (N + 1))\<rparr>"
    by (simp add: draw_floats_def add.assoc)
  have cloud: "(if length (np_where_le (fst (draw_floats N ?g1)) (floats g 0 * mx)) > 0
          then set_rows pc (np_where_le (fst (draw_floats N ?g1)) (floats g 0 * mx)) (pc ! 0) else pc)
         = dropout_cloud (floats g) mx pc"
    unfolding dropout_step [OF assms] dropout_cloud_def by simp
  have "random_point_dropout_loop g mx N (pc # rest) =
        (let pc' = (if length (np_where_le (fst (draw_floats N ?g1)) (floats g 0 * mx)) > 0
          then set_rows pc (np_where_le (fst (draw_floats N ?g1)) (floats g 0 * mx)) (pc ! 0) else pc);
             res = random_point_dropout_loop (snd (draw_floats N ?g1)) mx N rest
         in (pc' # fst res, snd res))"
    by (simp add: np_random_random_def np_random_random_n_def Let_def split_beta draw_floats_def)
  then show ?thesis unfolding cloud g2 by (simp add: Let_def)
qed

lemma dropout_loop_length:
  "\<forall>pc\<in>set cs. length pc = N \<Longrightarrow> length (fst (random_point_dropout_loop g mx N cs)) = length cs"
proof (induction cs arbitrary: g)
  case Nil
  show ?case by simp
next
  case (Cons pc cs)
  then have "length pc = N" by simp
  then show ?case unfolding dropout_loop_Cons [OF \<open>length pc = N\<close>] using Cons by simp
qed

lemma dropout_loop_nth:
  assumes "\<forall>pc\<in>set cs. length pc = N" "b < length cs"
  shows "fst (random_point_dropout_loop g mx N cs) ! b =
         dropout_cloud (\<lambda>k. floats g (k + b * (N + 1))) mx (cs ! b)"
  using assms
proof (induction cs arbitrary: g b)
  case Nil
  then show ?case by simp
next
  case (Cons pc cs)
  then have l: "length pc = N" by simp
  show ?case
  proof (cases b)
    case 0
    then show ?thesis unfolding dropout_loop_Cons [OF l] by simp
  next
    case (Suc b')
    have "\<forall>pc\<in>set cs. length pc = N" using Cons.prems by simp
    moreover have "b' < length cs" using Suc Cons.prems by simp
    ultimately have "fst (random_point_dropout_loop (g\<lparr>floats := \<lambda>k. floats g (k + (N + 1))\<rparr>) mx N cs) ! b'
          = dropout_cloud (\<lambda>k. floats (g\<lparr>floats := \<lambda>k. floats g (k + (N + 1))\<rparr>) (k + b' * (N + 1))) mx (cs ! b')"
      by (rule Cons.IH)
    moreover have "(\<lambda>k. floats (g\<lparr>floats := \<lambda>k. floats g (k + (N + 1))\<rparr>) (k + b' * (N + 1)))
          = (\<lambda>k. floats g (k + b * (N + 1)))"
      using Suc by (simp add: algebra_simps)
    moreover have "fst (random_point_dropout_loop g mx N (pc # cs)) ! b =
          fst (random_point_dropout_loop (g\<lparr>floats := \<lambda>k. floats g (k + (N + 1))\<rparr>) mx N cs) ! b'"
      unfolding dropout_loop_Cons [OF l] using Suc by simp
    ultimately show ?thesis using Suc by simp
  qed
qed


subsection \<open>Augmentation: shapes\<close>

lemma dropout_cloud_shape:
  assumes "length pc = N" "rect C pc"
  shows "length (dropout_cloud f mx pc) = N \<and> rect C (dropout_cloud f mx pc)"
proof -
  have row: "length (pc ! i) = C" if "i < length pc" for i
    using assms(2) that by (simp add: rect_def)
  have "length (pc ! 0) = C" if "i < length pc" for i
    using row [of 0] that by (cases pc) simp_all
  with row have "\<forall>p\<in>set (dropout_cloud f mx pc). length p = C"
    by (auto simp: dropout_cloud_def)
  then show ?thesis using assms(1) by (simp add: dropout_cloud_def rect_def)
qed

lemma dropout_loop_shape:
  assumes "\<forall>pc\<in>set cs. length pc = N \<and> rect C pc"
  shows "\<forall>pc\<in>set (fst (random_point_dropout_loop g mx N cs)). length pc = N \<and> rect C pc"
proof -
  have len: "\<forall>pc\<in>set cs. length pc = N" using assms by blast
  have l: "length (fst (random_point_dropout_loop g mx N cs)) = length cs"
    using len by (rule dropout_loop_length)
  show ?thesis
  proof
    fix pc assume "pc \<in> set (fst (random_point_dropout_loop g mx N cs))"
    then obtain b where b: "b < length cs" and pc: "pc = fst (random_point_dropout_loop g mx N cs) ! b"
      using l by (metis in_set_conv_nth)
    have "cs ! b \<in> set cs" using b by simp
    then have "length (cs ! b) = N" "rect C (cs ! b)" using assms by blast+
    then show "length pc = N \<and> rect C pc"
      unfolding pc dropout_loop_nth [OF len b] by (rule dropout_cloud_shape)
  qed
qed

lemma shift_loop_ok:
  assumes "\<forall>pc\<in>set cs. length pc = N \<and> rect 3 pc" "3 * (k + length cs) \<le> length shifts"
  shows "\<exists>out. shift_loop 3 shifts k cs = Inr out \<and> length out = length cs
           \<and> (\<forall>pc\<in>set out. length pc = N \<and> rect 3 pc)"
  using assms
proof (induction cs arbitrary: k)
  case Nil
  show ?case by simp
next
  case (Cons pc cs)
  let ?row = "take 3 (drop (3 * k) shifts)"
  have lr: "length ?row = 3" using Cons.prems(2) by simp
  have pc: "length pc = N" "rect 3 pc" using Cons.prems(1) by simp_all
  have step: "iadd_row 3 pc ?row = Inr (map (\<lambda>p. map2 (+) p ?row) pc)"
    using lr by (simp add: iadd_row_def)
  have shape: "length (map (\<lambda>p. map2 (+) p ?row) pc) = N \<and> rect 3 (map (\<lambda>p. map2 (+) p ?row) pc)"
    using pc lr by (simp add: rect_def)
  have "\<forall>pc\<in>set cs. length pc = N \<and> rect 3 pc" using Cons.prems(1) by simp
  moreover have "3 * (k + 1 + length cs) \<le> length shifts" using Cons.prems(2) by simp
  ultimately obtain out where out: "shift_loop 3 shifts (k + 1) cs = Inr out" "length out = length cs"
      "\<forall>pc\<in>set out. length pc = N \<and> rect 3 pc"
    using Cons.IH [of "k + 1"] by blast
  show ?case using step shape out by simp
qed

lemma rows_of_3_concat: "rect 3 pc \<Longrightarrow> rows_of_3 (concat pc) = pc"
proof (induction pc)
  case Nil
  show ?case by simp
next
  case (Cons p pc)
  then have "length p = 3" by (simp add: rect_def)
  then obtain a b c where p: "p = [a, b, c]"
    by (metis (no_types, opaque_lifting) length_0_conv length_Suc_conv numeral_3_eq_3)
  from Cons have "rows_of_3 (concat pc) = pc" by (simp add: rect_def)
  then show ?case by (simp add: p)
qed

lemma length_concat_rect: "rect C pc \<Longrightarrow> length (concat pc) = length pc * C"
  by (induction pc) (simp_all add: rect_def)

lemma reshape_3_rect: "rect 3 pc \<Longrightarrow> reshape_3 pc = Inr pc"
  by (simp add: reshape_3_def length_concat_rect rows_of_3_concat)

lemma np_dot_shape:
  "length (np_dot a m) = length a \<and> rect (length (hd m)) (np_dot a m)"
  by (simp add: np_dot_def rect_def)

lemma rotate_cloud_ok:
  assumes "length pc = N" "rect 3 pc" "length (hd m) = 3"
  shows "reshape_3 pc = Inr pc \<and> assign_slice N 3 (np_dot pc m) = Inr (np_dot pc m)
       \<and> length (np_dot pc m) = N \<and> rect 3 (np_dot pc m)"
  using assms np_dot_shape [of pc m] by (simp add: reshape_3_rect assign_slice_def)

lemma rotate_loop_ok:
  assumes "\<forall>pc\<in>set cs. length pc = N \<and> rect 3 pc"
  shows "\<exists>out g'. rotate_point_cloud_loop g N 3 cs = Inr (out, g') \<and> length out = length cs
           \<and> (\<forall>pc\<in>set out. length pc = N \<and> rect 3 pc)"
  using assms
proof (induction cs arbitrary: g)
  case Nil
  show ?case by simp
next
  case (Cons pc cs)
  obtain u g1 where d: "np_uniform 0 1 1 g = (u, g1)" by (cases "np_uniform 0 1 1 g")
  let ?m = "[[cos (u ! 0 * 2 * pi), 0, sin (u ! 0 * 2 * pi)], [0, 1, 0],
             [- sin (u ! 0 * 2 * pi), 0, cos (u ! 0 * 2 * pi)]]"
  have pc: "length pc = N" "rect 3 pc" using Cons.prems by simp_all
  have ok: "reshape_3 pc = Inr pc \<and> assign_slice N 3 (np_dot pc ?m) = Inr (np_dot pc ?m)
       \<and> length (np_dot pc ?m) = N \<and> rect 3 (np_dot pc ?m)"
    using pc by (rule rotate_cloud_ok) simp
  have "\<forall>pc\<in>set cs. length pc = N \<and> rect 3 pc" using Cons.prems by simp
  then obtain out g' where out: "rotate_point_cloud_loop g1 N 3 cs = Inr (out, g')"
      "length out = length cs" "\<forall>pc\<in>set out. length pc = N \<and> rect 3 pc"
    using Cons.IH [of g1] by blast
  show ?case using d ok out by (simp add: Let_def)
qed

lemma perturbation_matrix_width: "length (hd (perturbation_matrix angles)) = 3"
  by (simp add: perturbation_matrix_def np_dot_def Let_def)

lemma rotate_perturbation_loop_ok:
  assumes "\<forall>pc\<in>set cs. length pc = N \<and> rect 3 pc"
  shows "\<exists>out g'. rotate_perturbation_point_cloud_loop g s c N 3 cs = Inr (out, g')
           \<and> length out = length cs \<and> (\<forall>pc\<in>set out. length pc = N \<and> rect 3 pc)"
  using assms
proof (induction cs arbitrary: g)
  case Nil
  show ?case by simp
next
  case (Cons pc cs)
  obtain z g1 where d: "np_randn 3 g = (z, g1)" by (cases "np_randn 3 g")
  let ?m = "perturbation_matrix (map (\<lambda>x. np_clip (s * x) (- c) c) z)"
  have pc: "length pc = N" "rect 3 pc" using Cons.prems by simp_all
  have ok: "reshape_3 pc = Inr pc \<and> assign_slice N 3 (np_dot pc ?m) = Inr (np_dot pc ?m)
       \<and> length (np_dot pc ?m) = N \<and> rect 3 (np_dot pc ?m)"
    using pc perturbation_matrix_width by (rule rotate_cloud_ok)
  have "\<forall>pc\<in>set cs. length pc = N \<and> rect 3 pc" using Cons.prems by simp
  then obtain out g' where out: "rotate_perturbation_point_cloud_loop g1 s c N 3 cs = Inr (out, g')"
      "length out = length cs" "\<forall>pc\<in>set out. length pc = N \<and> rect 3 pc"
    using Cons.IH [of g1] by blast
  show ?case using d ok out by (simp add: Let_def)
qed


lemma wf3_clouds:
  assumes "wf3 batch" "dims batch = (B, N, C)"
  shows "length (clouds batch) = B" "\<forall>pc\<in>set (clouds batch). length pc = N \<and> rect C pc"
  using assms by (simp_all add: wf3_def)

lemma dropout_same_shape:
  assumes "wf3 batch" "dims batch = (B, N, C)"
  shows "same_shape batch (fst (random_point_dropout st batch mx))"
proof -
  have cs: "\<forall>pc\<in>set (clouds batch). length pc = N \<and> rect C pc"
    using assms by (rule wf3_clouds)
  then have len: "\<forall>pc\<in>set (clouds batch). length pc = N" by blast
  have "length (fst (random_point_dropout_loop (np_global st) mx N (clouds batch))) = B"
    using dropout_loop_length [OF len] wf3_clouds(1) [OF assms] by simp
  moreover note dropout_loop_shape [OF cs, of "np_global st" mx]
  ultimately show ?thesis
    using assms(2) by (simp add: same_shape_def wf3_def random_point_dropout_def split_beta)
qed

lemma scale_same_shape:
  assumes "wf3 batch" "dims batch = (B, N, C)"
  shows "same_shape batch (fst (random_scale_point_cloud st batch lo hi))"
proof -
  have l: "length (clouds batch) = B" using assms by (rule wf3_clouds)
  have cs: "\<forall>pc\<in>set (clouds batch). length pc = N \<and> rect C pc"
    using assms by (rule wf3_clouds)
  have "length (clouds batch ! b) = N \<and> rect C (clouds batch ! b)" if "b < B" for b
    using cs l that by simp
  then show ?thesis
    using assms(2)
    by (auto simp: same_shape_def wf3_def random_scale_point_cloud_def split_beta rect_def)
qed

lemma jitter_same_shape:
  assumes "dims batch = (B, N, C)" "0 < clip"
  shows "\<exists>out st'. jitter_point_cloud st batch sigma clip = Inr (out, st') \<and> same_shape batch out"
  using assms
  by (simp add: jitter_point_cloud_def same_shape_def wf3_def rect_def split_beta Let_def)

lemma shift_same_shape:
  assumes "wf3 batch" "dims batch = (B, N, 3)"
  shows "\<exists>out st'. shift_point_cloud st batch r = Inr (out, st') \<and> same_shape batch out"
proof -
  have l: "length (clouds batch) = B" using assms by (rule wf3_clouds)
  have cs: "\<forall>pc\<in>set (clouds batch). length pc = N \<and> rect 3 pc"
    using assms by (rule wf3_clouds)
  obtain shifts g where d: "np_uniform (- r) r (B * 3) (np_global st) = (shifts, g)"
    by (cases "np_uniform (- r) r (B * 3) (np_global st)")
  then have "length shifts = B * 3"
    by (auto simp: np_uniform_def draw_floats_def)
  then have "3 * (0 + length (clouds batch)) \<le> length shifts" using l by simp
  with cs obtain out where "shift_loop 3 shifts 0 (clouds batch) = Inr out"
      "length out = length (clouds batch)" "\<forall>pc\<in>set out. length pc = N \<and> rect 3 pc"
    using shift_loop_ok by blast
  then show ?thesis
    using assms(2) d l by (simp add: shift_point_cloud_def same_shape_def wf3_def)
qed

lemma rotate_same_shape:
  assumes "wf3 batch" "dims batch = (B, N, 3)"
  shows "\<exists>out st'. rotate_point_cloud st batch = Inr (out, st') \<and> same_shape batch out"
proof -
  have l: "length (clouds batch) = B" using assms by (rule wf3_clouds)
  have cs: "\<forall>pc\<in>set (clouds batch). length pc = N \<and> rect 3 pc"
    using assms by (rule wf3_clouds)
  then obtain out g' where "rotate_point_cloud_loop (np_global st) N 3 (clouds batch) = Inr (out, g')"
      "length out = length (clouds batch)" "\<forall>pc\<in>set out. length pc = N \<and> rect 3 pc"
    using rotate_loop_ok by blast
  then show ?thesis
    using assms(2) l by (simp add: rotate_point_cloud_def same_shape_def wf3_def)
qed

lemma rotate_perturbation_same_shape:
  assumes "wf3 batch" "dims batch = (B, N, 3)"
  shows "\<exists>out st'. rotate_perturbation_point_cloud st batch s c = Inr (out, st')
           \<and> same_shape batch out"
proof -
  have l: "length (clouds batch) = B" using assms by (rule wf3_clouds)
  have cs: "\<forall>pc\<in>set (clouds batch). length pc = N \<and> rect 3 pc"
    using assms by (rule wf3_clouds)
  then obtain out g' where
      "rotate_perturbation_point_cloud_loop (np_global st) s c N 3 (clouds batch) = Inr (out, g')"
      "length out = length (clouds batch)" "\<forall>pc\<in>set out. length pc = N \<and> rect 3 pc"
    using rotate_perturbation_loop_ok by blast
  then show ?thesis
    using assms(2) l by (simp add: rotate_perturbation_point_cloud_def same_shape_def wf3_def)
qed

text \<open>
  C5 (amended).  For every well-formed batch of shape (B, N, C):
  \<open>random_point_dropout\<close> and \<open>random_scale_point_cloud\<close> return a batch of the same
  shape, and so does \<open>jitter_point_cloud\<close> when \<open>clip > 0\<close>; when \<open>C = 3\<close>, the shape
  the functions document, \<open>shift_point_cloud\<close>, \<open>rotate_point_cloud\<close> and
  \<open>rotate_perturbation_point_cloud\<close> return a batch of the same shape without failing.
\<close>

theorem augmentation_preserves_shape:
  assumes "wf3 batch" "dims batch = (B, N, C)"
  shows "same_shape batch (fst (random_point_dropout st batch max_dropout_ratio))
       \<and> same_shape batch (fst (random_scale_point_cloud st batch scale_low scale_high))
       \<and> (0 < clip \<longrightarrow>
            (\<exists>out st'. jitter_point_cloud st batch sigma clip = Inr (out, st')
               \<and> same_shape batch out))
       \<and> (C = 3 \<longrightarrow>
            (\<exists>out st'. shift_point_cloud st batch shift_range = Inr (out, st')
               \<and> same_shape batch out)
          \<and> (\<exists>out st'. rotate_point_cloud st batch = Inr (out, st') \<and> same_shape batch out)
          \<and> (\<exists>out st'. rotate_perturbation_point_cloud st batch angle_sigma angle_clip
                          = Inr (out, st')
               \<and> same_shape batch out))"
proof (intro conjI impI)
  show "same_shape batch (fst (random_point_dropout st batch max_dropout_ratio))"
    using assms by (rule dropout_same_shape)
  show "same_shape batch (fst (random_scale_point_cloud st batch scale_low scale_high))"
    using assms by (rule scale_same_shape)
  show "\<exists>out st'. jitter_point_cloud st batch sigma clip = Inr (out, st') \<and> same_shape batch out"
    if "0 < clip"
    using assms(2) that by (rule jitter_same_shape)
  assume "C = 3"
  then have d3: "dims batch = (B, N, 3)" using assms(2) by simp
  show "\<exists>out st'. shift_point_cloud st batch shift_range = Inr (out, st') \<and> same_shape batch out"
    using assms(1) d3 by (rule shift_same_shape)
  show "\<exists>out st'. rotate_point_cloud st batch = Inr (out, st') \<and> same_shape batch out"
    using assms(1) d3 by (rule rotate_same_shape)
  show "\<exists>out st'. rotate_perturbation_point_cloud st batch angle_sigma angle_clip = Inr (out, st')
          \<and> same_shape batch out"
    using assms(1) d3 by (rule rotate_perturbation_same_shape)
qed

theorem augmentation_preserves_shape_witness:
  "wf3 \<lparr>dims = (1, 2, 3), clouds = [[[1, 0, 0], [0, 1, 0]]]\<rparr>
   \<and> dims \<lparr>dims = (1, 2, 3), clouds = [[[1, 0, 0], [0, 1, 0 :: real]]]\<rparr> = (1, 2, 3)
   \<and> (0::real) < 1
   \<and> same_shape \<lparr>dims = (1, 2, 3), clouds = [[[1, 0, 0], [0, 1, 0]]]\<rparr>
        (fst (random_point_dropout (const_rng 0) \<lparr>dims = (1, 2, 3), clouds = [[[1, 0, 0], [0, 1, 0]]]\<rparr> 1))
   \<and> (\<exists>out st'. jitter_point_cloud (const_rng 0) \<lparr>dims = (1, 2, 3), clouds = [[[1, 0, 0], [0, 1, 0]]]\<rparr> 1 1
          = Inr (out, st')
        \<and> same_shape \<lparr>dims = (1, 2, 3), clouds = [[[1, 0, 0], [0, 1, 0]]]\<rparr> out)
   \<and> (\<exists>out st'. rotate_point_cloud (const_rng 0) \<lparr>dims = (1, 2, 3), clouds = [[[1, 0, 0], [0, 1, 0]]]\<rparr>
          = Inr (out, st')
        \<and> same_shape \<lparr>dims = (1, 2, 3), clouds = [[[1, 0, 0], [0, 1, 0]]]\<rparr> out)"
proof -
  let ?b = "\<lparr>dims = (1, 2, 3), clouds = [[[1, 0, 0], [0, 1, 0 :: real]]]\<rparr>"
  have h1: "wf3 ?b" by (simp add: wf3_def rect_def)
  have h2: "dims ?b = (1, 2, 3)" by simp
  from augmentation_preserves_shape [OF h1 h2, where st = "const_rng 0"
      and max_dropout_ratio = 1 and clip = 1 and sigma = 1] h1 h2
  show ?thesis by simp
qed

text \<open>
  C5 as stated fails for \<open>C > 3\<close>: on a well-formed batch of shape (1, 1, 6),
  \<open>rotate_point_cloud\<close> reshapes the cloud to (2, 3) and the assignment of the rotated
  (2, 3) array into the (1, 6) slice raises ValueError.
\<close>

theorem rotate_point_cloud_six_channels_counterexample:
  "wf3 \<lparr>dims = (1, 1, 6), clouds = [[[1, 2, 3, 4, 5, 6]]]\<rparr>
   \<and> rotate_point_cloud (const_rng 0) \<lparr>dims = (1, 1, 6), clouds = [[[1, 2, 3, 4, 5, 6]]]\<rparr>
       = Inl ValueError"
  by (simp add: wf3_def rect_def rotate_point_cloud_def const_rng_def np_uniform_def
      draw_floats_def reshape_3_def assign_slice_def np_dot_def Let_def)

lemma dropout_nth:
  assumes "wf3 batch" "dims batch = (B, N, C)" "b < B" "i < N"
  shows "clouds (fst (random_point_dropout st batch mx)) ! b ! i =
         (if dropped st mx N b i then clouds batch ! b ! 0 else clouds batch ! b ! i)"
proof -
  have l: "length (clouds batch) = B" using assms(1,2) by (rule wf3_clouds)
  have cs: "\<forall>pc\<in>set (clouds batch). length pc = N \<and> rect C pc"
    using assms(1,2) by (rule wf3_clouds)
  then have len: "\<forall>pc\<in>set (clouds batch). length pc = N" by blast
  have b: "b < length (clouds batch)" using assms(3) l by simp
  then have lb: "length (clouds batch ! b) = N" using len by simp
  have "clouds (fst (random_point_dropout st batch mx)) ! b =
        dropout_cloud (\<lambda>k. floats (np_global st) (k + b * (N + 1))) mx (clouds batch ! b)"
    using dropout_loop_nth [OF len b, of "np_global st" mx] assms(2)
    by (simp add: random_point_dropout_def split_beta)
  then show ?thesis
    using assms(4) lb
    by (simp add: dropout_cloud_def dropped_def point_draw_def dropout_ratio_of_def)
qed

text \<open>
  C6.  In the batch that \<open>random_point_dropout\<close> returns, which has the shape of its
  argument, every dropped point of every cloud equals the first point of that cloud in
  the argument, and every other point is unchanged.  In particular, when the ratio of a
  5-point cloud is 1.0 (every draw made for a point is below 1), all 5 points of the
  result equal the original first point.
\<close>

theorem random_point_dropout_value_law:
  assumes "wf3 batch" "dims batch = (B, N, C)"
  shows "same_shape batch (fst (random_point_dropout st batch mx))
       \<and> (\<forall>b<B. \<forall>i<N. clouds (fst (random_point_dropout st batch mx)) ! b ! i =
             (if dropped st mx N b i then clouds batch ! b ! 0 else clouds batch ! b ! i))
       \<and> (\<forall>b<B. N = 5 \<and> dropout_ratio_of st mx N b = 1 \<and> (\<forall>i<N. point_draw st N b i < 1) \<longrightarrow>
             clouds (fst (random_point_dropout st batch mx)) ! b =
               replicate 5 (clouds batch ! b ! 0))"
proof (intro conjI allI impI)
  show "same_shape batch (fst (random_point_dropout st batch mx))"
    using assms by (rule dropout_same_shape)
next
  fix b i assume "b < B" "i < N"
  with assms show "clouds (fst (random_point_dropout st batch mx)) ! b ! i =
             (if dropped st mx N b i then clouds batch ! b ! 0 else clouds batch ! b ! i)"
    by (rule dropout_nth)
next
  fix b assume b: "b < B"
    and h: "N = 5 \<and> dropout_ratio_of st mx N b = 1 \<and> (\<forall>i<N. point_draw st N b i < 1)"
  let ?out = "fst (random_point_dropout st batch mx)"
  have "same_shape batch ?out" using assms by (rule dropout_same_shape)
  then have wo: "wf3 ?out" and d: "dims ?out = (B, N, C)"
    using assms(2) by (simp_all add: same_shape_def)
  have "length (clouds ?out) = B" "\<forall>pc\<in>set (clouds ?out). length pc = N \<and> rect C pc"
    using wo d by (rule wf3_clouds)+
  then have lo: "length (clouds ?out ! b) = 5" using b h by simp
  have "clouds ?out ! b ! i = clouds batch ! b ! 0" if "i < 5" for i
  proof -
    have i: "i < N" using that h by simp
    then have "point_draw st N b i < 1" using h by blast
    moreover have "dropout_ratio_of st mx N b = 1" using h by blast
    ultimately have "point_draw st N b i \<le> dropout_ratio_of st mx N b" by linarith
    then have "dropped st mx N b i" by (simp only: dropped_def)
    then show ?thesis using dropout_nth [OF assms b i, of st mx] by simp
  qed
  then show "clouds ?out ! b = replicate 5 (clouds batch ! b ! 0)"
    using lo by (intro nth_equalityI) simp_all
qed

theorem random_point_dropout_value_law_witness:
  "wf3 \<lparr>dims = (1, 5, 3), clouds = [[[1, 1, 1], [2, 2, 2], [3, 3, 3], [4, 4, 4], [5, 5, 5]]]\<rparr>
   \<and> (0::nat) < 1 \<and> (5::nat) = 5
   \<and> dropout_ratio_of (const_rng (1 / 2)) 2 5 0 = 1
   \<and> point_draw (const_rng (1 / 2)) 5 0 0 < 1 \<and> point_draw (const_rng (1 / 2)) 5 0 1 < 1
   \<and> point_draw (const_rng (1 / 2)) 5 0 2 < 1 \<and> point_draw (const_rng (1 / 2)) 5 0 3 < 1
   \<and> point_draw (const_rng (1 / 2)) 5 0 4 < 1
   \<and> clouds (fst (random_point_dropout (const_rng (1 / 2))
        \<lparr>dims = (1, 5, 3), clouds = [[[1, 1, 1], [2, 2, 2], [3, 3, 3], [4, 4, 4], [5, 5, 5]]]\<rparr> 2)) ! 0
       = replicate 5 [1, 1, 1]"
proof -
  let ?b = "\<lparr>dims = (1, 5, 3),
             clouds = [[[1, 1, 1], [2, 2, 2], [3, 3, 3], [4, 4, 4], [5, 5, 5 :: real]]]\<rparr>"
  have h1: "wf3 ?b" by (simp add: wf3_def rect_def)
  have h2: "dims ?b = (1, 5, 3)" by simp
  have h3: "dropout_ratio_of (const_rng (1 / 2)) 2 5 0 = 1"
    by (simp add: dropout_ratio_of_def const_rng_def)
  have h4: "\<forall>i<5. point_draw (const_rng (1 / 2)) 5 0 i < 1"
    by (simp add: point_draw_def const_rng_def)
  have h5: "point_draw (const_rng (1 / 2)) 5 0 i < 1" for i
    by (simp add: point_draw_def const_rng_def)
  from random_point_dropout_value_law [OF h1 h2, of "const_rng (1 / 2)" 2] h1 h3 h4 h5
  show ?thesis by simp
qed

subsection \<open>Augmentation: the distillation variants\<close>

lemma dropout_distill_loop_eq:
  "random_point_dropout_distill_loop g mx N cs = random_point_dropout_loop g mx N cs"
  by (induction cs arbitrary: g)
    (simp_all add: np_rand_def np_rand_n_def np_random_random_def np_random_random_n_def
      split_beta Let_def)

lemma rotate_perturbation_distill_loop_eq:
  "rotate_perturbation_point_cloud_distill_loop g s c N C cs =
   rotate_perturbation_point_cloud_loop g s c N C cs"
  by (induction cs arbitrary: g) (simp_all add: split_beta Let_def cong: sum.case_cong)

text \<open>
  C9.  When the distillation source is going to return the same values as the default
  source, each distillation variant returns what its counterpart returns: the same batch,
  or the same exception.
\<close>

theorem distill_variants_agree:
  assumes "np_distill st' = np_global st"
  shows "fst (random_point_dropout_distill st' batch mx) = fst (random_point_dropout st batch mx)
       \<and> fst (random_scale_point_cloud_distill st' batch lo hi)
           = fst (random_scale_point_cloud st batch lo hi)
       \<and> map_sum id fst (shift_point_cloud_distill st' batch r)
           = map_sum id fst (shift_point_cloud st batch r)
       \<and> map_sum id fst (rotate_perturbation_point_cloud_distill st' batch s c)
           = map_sum id fst (rotate_perturbation_point_cloud st batch s c)"
proof (intro conjI)
  show "fst (random_point_dropout_distill st' batch mx) = fst (random_point_dropout st batch mx)"
    using assms
    by (simp add: random_point_dropout_distill_def random_point_dropout_def
        dropout_distill_loop_eq split_beta)
  show "fst (random_scale_point_cloud_distill st' batch lo hi)
          = fst (random_scale_point_cloud st batch lo hi)"
    using assms
    by (simp add: random_scale_point_cloud_distill_def random_scale_point_cloud_def split_beta)
  show "map_sum id fst (shift_point_cloud_distill st' batch r)
          = map_sum id fst (shift_point_cloud st batch r)"
    using assms
    by (simp add: shift_point_cloud_distill_def shift_point_cloud_def split_beta
        split: sum.splits)
  show "map_sum id fst (rotate_perturbation_point_cloud_distill st' batch s c)
          = map_sum id fst (rotate_perturbation_point_cloud st batch s c)"
    using assms
    by (simp add: rotate_perturbation_point_cloud_distill_def rotate_perturbation_point_cloud_def
        rotate_perturbation_distill_loop_eq split_beta split: sum.splits)
qed

theorem distill_variants_agree_witness:
  "np_distill (const_rng (1 / 2)) = np_global (const_rng (1 / 2))
   \<and> fst (random_point_dropout_distill (const_rng (1 / 2))
            \<lparr>dims = (1, 2, 3), clouds = [[[1, 0, 0], [0, 1, 0]]]\<rparr> 2)
     = fst (random_point_dropout (const_rng (1 / 2))
            \<lparr>dims = (1, 2, 3), clouds = [[[1, 0, 0], [0, 1, 0]]]\<rparr> 2)
   \<and> fst (random_scale_point_cloud_distill (const_rng (1 / 2))
            \<lparr>dims = (1, 2, 3), clouds = [[[1, 0, 0], [0, 1, 0]]]\<rparr> 1 3)
     = \<lparr>dims = (1, 2, 3), clouds = [[[2, 0, 0], [0, 2, 0]]]\<rparr>"
proof -
  have h: "np_distill (const_rng (1 / 2)) = np_global (const_rng (1 / 2))"
    by (simp add: const_rng_def)
  have ev: "fst (random_scale_point_cloud (const_rng (1 / 2))
            \<lparr>dims = (1, 2, 3), clouds = [[[1, 0, 0], [0, 1, 0]]]\<rparr> 1 3)
     = \<lparr>dims = (1, 2, 3), clouds = [[[2, 0, 0], [0, 2, 0]]]\<rparr>"
    by (simp add: random_scale_point_cloud_def const_rng_def np_uniform_def draw_floats_def)
  from distill_variants_agree [OF h, of "\<lparr>dims = (1, 2, 3), clouds = [[[1, 0, 0], [0, 1, 0]]]\<rparr>" 2 1 3]
    h ev
  show ?thesis by simp
qed

subsection \<open>The retry loop of ShapeNet\<close>

lemma getitem_after_retries:
  "after_retries ds ev n st idx = Some (st', idx') \<Longrightarrow>
   ShapeNet_getitem ds ev st idx = ShapeNet_getitem ds ev st' idx'"
proof (induction n arbitrary: st idx)
  case 0
  then show ?case by simp
next
  case (Suc n)
  then obtain i1 s1 where p: "ShapeNet_pass ds ev st idx = Retry i1 s1"
    and r: "after_retries ds ev n s1 i1 = Some (st', idx')"
    by (auto split: pass.splits)
  have "ShapeNet_getitem ds ev st idx = ShapeNet_getitem ds ev s1 i1"
    by (subst ShapeNet_getitem.simps) (simp add: p)
  with Suc.IH [OF r] show ?case by simp
qed

lemma getitem_diverges:
  assumes inv: "\<And>st idx. (st, idx) \<in> I \<Longrightarrow>
             \<exists>st' idx'. ShapeNet_pass ds ev st idx = Retry idx' st' \<and> (st', idx') \<in> I"
    and start: "(st, idx) \<in> I"
  shows "ShapeNet_getitem ds ev st idx = None"
proof (rule ccontr)
  assume "ShapeNet_getitem ds ev st idx \<noteq> None"
  then obtain y where y: "ShapeNet_getitem ds ev st idx = Some y" by blast
  have "ds = ds \<longrightarrow> ev = ev \<longrightarrow> (st, idx) \<notin> I"
  proof (rule ShapeNet_getitem.raw_induct
      [where P = "\<lambda>ds' ev' st idx y. ds' = ds \<longrightarrow> ev' = ev \<longrightarrow> (st, idx) \<notin> I", OF _ y])
    fix f ds' ev' st idx y
    assume IH: "\<And>ds' ev' st idx y. f ds' ev' st idx = Some y \<Longrightarrow>
                  ds' = ds \<longrightarrow> ev' = ev \<longrightarrow> (st, idx) \<notin> I"
      and body: "(case ShapeNet_pass ds' ev' st idx of
                    Raised e \<Rightarrow> Some (Inl e)
                  | Returned rtn st' \<Rightarrow> Some (Inr (rtn, st'))
                  | Retry idx' st' \<Rightarrow> f ds' ev' st' idx') = Some y"
    show "ds' = ds \<longrightarrow> ev' = ev \<longrightarrow> (st, idx) \<notin> I"
    proof (intro impI notI)
      assume eq: "ds' = ds" "ev' = ev" and mem: "(st, idx) \<in> I"
      from inv [OF mem] obtain st' idx' where p: "ShapeNet_pass ds ev st idx = Retry idx' st'"
        and mem': "(st', idx') \<in> I" by blast
      from body eq p have "f ds ev st' idx' = Some y" by simp
      from IH [OF this] mem' show False by simp
    qed
  qed
  with start show False by simp
qed

lemma random_randint_range:
  assumes "random_randint 0 (int n - 1) g = Inr (i, g')"
  shows "nat i < n"
proof -
  have n: "0 < n" using assms by (cases "n = 0") (simp_all add: random_randint_def)
  then have "nat (int n - 1 - 0 + 1) = n" by simp
  then have "i = int (ints g 0 mod n)"
    using assms n by (simp add: random_randint_def draw_int_def)
  then show ?thesis using n by simp
qed

lemma random_randint_ok:
  "0 < n \<Longrightarrow> \<exists>i g'. random_randint 0 (int n - 1) g = Inr (i, g')"
  by (simp add: random_randint_def split_beta)

lemma points_index: "ShapeNet_points ds ev st idx = Inr r \<Longrightarrow> idx < length (file_list ds)"
  by (cases "idx < length (file_list ds)") (simp_all add: ShapeNet_points_def)

lemma pass_retry_index:
  assumes "ShapeNet_pass ds ev st idx = Retry idx' st'"
  shows "idx' < length (file_list ds)"
  using assms
  by (auto simp: ShapeNet_pass_def split: sum.splits option.splits prod.splits
      dest: random_randint_range)

lemma random_randint_draw:
  assumes "0 < n"
  shows "random_randint 0 (int n - 1) g
         = Inr (int (ints g 0 mod n), g\<lparr>ints := \<lambda>k. ints g (Suc k)\<rparr>)"
proof -
  have "nat (int n - 1 - 0 + 1) = n" by simp
  moreover have "\<not> int n - 1 < 0" using assms by simp
  ultimately show ?thesis by (simp add: random_randint_def draw_int_def)
qed

lemma side_frame:
  assumes "ShapeNet_side ds ev st idx = Inr (sd, r)"
  shows "np_global r = np_global st" "np_distill r = np_distill st"
    "index_list ds (taxonomy_id (file_list ds ! idx)) = Some (side_label sd)"
  using assms
  by (auto simp: ShapeNet_side_def Let_def
      split: option.splits sum.splits prod.splits if_splits)

lemma pass_image_failure:
  assumes "ShapeNet_points ds ev st idx = Inr (data, st1)"
    "ShapeNet_side ds ev (rng_of st1) idx = Inr (sd, r2)"
    "ShapeNet_try ds ev idx data sd = None"
  shows "ShapeNet_pass ds ev st idx =
           Retry (ints (py_random r2) 0 mod length (file_list ds))
             (st1\<lparr>rng_of := r2\<lparr>py_random :=
                (py_random r2)\<lparr>ints := \<lambda>k. ints (py_random r2) (Suc k)\<rparr>\<rparr>\<rparr>)"
proof -
  have "0 < length (file_list ds)" using points_index [OF assms(1)] by (cases "file_list ds") simp_all
  then have "random_randint 0 (int (length (file_list ds)) - 1) (py_random r2)
     = Inr (int (ints (py_random r2) 0 mod length (file_list ds)),
            (py_random r2)\<lparr>ints := \<lambda>k. ints (py_random r2) (Suc k)\<rparr>)"
    by (rule random_randint_draw)
  then show ?thesis using assms by (simp add: ShapeNet_pass_def)
qed

lemma getitem_retry:
  "ShapeNet_pass ds ev st idx = Retry idx' st' \<Longrightarrow>
   ShapeNet_getitem ds ev st idx = ShapeNet_getitem ds ev st' idx'"
  by (subst ShapeNet_getitem.simps) simp

lemma getitem_returned:
  "ShapeNet_pass ds ev st idx = Returned rtn st' \<Longrightarrow>
   ShapeNet_getitem ds ev st idx = Some (Inr (rtn, st'))"
  by (subst ShapeNet_getitem.simps) simp

lemma try_keys:
  assumes "ShapeNet_try ds ev idx data sd = Some rtn"
  shows "rtn ''pc'' = Some data \<and> rtn ''target'' = Some (IntV (side_label sd))
       \<and> rtn ''label'' = None"
  using assms
  by (auto simp: ShapeNet_try_def Sample_def split: option.splits)

lemma pass_returned:
  assumes "ShapeNet_pass ds ev st idx = Returned rtn st'"
  shows "\<exists>data st1 sd r2. ShapeNet_points ds ev st idx = Inr (data, st1)
           \<and> ShapeNet_side ds ev (rng_of st1) idx = Inr (sd, r2)
           \<and> ShapeNet_try ds ev idx data sd = Some rtn
           \<and> st' = st1\<lparr>rng_of := r2\<rparr>"
  using assms
  by (auto simp: ShapeNet_pass_def split: sum.splits option.splits prod.splits)

lemma after_retries_Suc:
  "after_retries ds ev (Suc n) st idx =
     (case after_retries ds ev n st idx of
        None \<Rightarrow> None
      | Some (s, i) \<Rightarrow>
          (case ShapeNet_pass ds ev s i of
             Retry i' s' \<Rightarrow> Some (s', i')
           | Raised e \<Rightarrow> None
           | Returned rtn s' \<Rightarrow> None))"
proof (induction n arbitrary: st idx)
  case 0
  show ?case by (simp split: pass.splits)
next
  case (Suc n)
  show ?case
  proof (cases "ShapeNet_pass ds ev st idx")
    case (Retry i s)
    have "after_retries ds ev (Suc (Suc n)) st idx = after_retries ds ev (Suc n) s i"
      using Retry by simp
    also note Suc.IH [of s i]
    finally show ?thesis using Retry by simp
  qed simp_all
qed

lemma getitem_all_retries:
  assumes "\<forall>n. after_retries ds ev n st idx \<noteq> None"
  shows "ShapeNet_getitem ds ev st idx = None"
proof (rule getitem_diverges [where I = "{(s, i). \<exists>n. after_retries ds ev n st idx = Some (s, i)}"])
  fix s :: pstate and i :: nat
  assume "(s, i) \<in> {(s, i). \<exists>n. after_retries ds ev n st idx = Some (s, i)}"
  then obtain n where n: "after_retries ds ev n st idx = Some (s, i)" by blast
  from assms obtain s' i' where nx: "after_retries ds ev (Suc n) st idx = Some (s', i')"
    by (metis option.exhaust surj_pair)
  from nx have "ShapeNet_pass ds ev s i = Retry i' s'"
    unfolding after_retries_Suc n by (simp split: pass.splits)
  moreover have "(s', i') \<in> {(s, i). \<exists>n. after_retries ds ev n st idx = Some (s, i)}"
    using nx by blast
  ultimately show "\<exists>st' idx'. ShapeNet_pass ds ev s i = Retry idx' st'
      \<and> (st', idx') \<in> {(s, i). \<exists>n. after_retries ds ev n st idx = Some (s, i)}"
    by blast
next
  have "after_retries ds ev 0 st idx = Some (st, idx)" by simp
  then show "(st, idx) \<in> {(s, i). \<exists>n. after_retries ds ev n st idx = Some (s, i)}" by blast
qed

lemma getitem_some_returned:
  assumes "ShapeNet_getitem ds ev st idx = Some (Inr (rtn, st'))"
  shows "\<exists>st0 idx0. ShapeNet_pass ds ev st0 idx0 = Returned rtn st'"
proof -
  define P where "P = (\<lambda>(ds::shapenet) (ev::env) (st::pstate) (idx::nat) (y::error + sample \<times> pstate).
      \<forall>r s. y = Inr (r, s) \<longrightarrow> (\<exists>st0 idx0. ShapeNet_pass ds ev st0 idx0 = Returned r s))"
  have "P ds ev st idx (Inr (rtn, st'))"
  proof (rule ShapeNet_getitem.raw_induct [where P = P, OF _ assms])
    fix f ds ev st idx y
    assume IH: "\<And>ds ev st idx y. f ds ev st idx = Some y \<Longrightarrow> P ds ev st idx y"
      and body: "(case ShapeNet_pass ds ev st idx of
                  Raised e \<Rightarrow> Some (Inl e)
                | Returned rtn st' \<Rightarrow> Some (Inr (rtn, st'))
                | Retry idx' st' \<Rightarrow> f ds ev st' idx') = Some y"
    show "P ds ev st idx y"
    proof (cases "ShapeNet_pass ds ev st idx")
      case (Raised e)
      with body show ?thesis by (auto simp: P_def)
    next
      case (Returned r s)
      with body show ?thesis by (auto simp: P_def)
    next
      case (Retry i s)
      with body have "f ds ev s i = Some y" by simp
      then have "P ds ev s i y" by (rule IH)
      then show ?thesis by (simp add: P_def)
    qed
  qed
  then show ?thesis by (simp add: P_def)
qed

subsection \<open>The instances\<close>

lemma const_rng_sel:
  "np_global (const_rng c) = \<lparr>floats = \<lambda>_. c, ints = \<lambda>_. 0\<rparr>"
  "np_distill (const_rng c) = \<lparr>floats = \<lambda>_. c, ints = \<lambda>_. 0\<rparr>"
  "py_random (const_rng c) = \<lparr>floats = \<lambda>_. c, ints = \<lambda>_. 0\<rparr>"
  by (simp_all add: const_rng_def)

lemma const_rng_upd:
  "(const_rng c)\<lparr>np_global := \<lparr>floats = \<lambda>_. c, ints = \<lambda>_. 0\<rparr>\<rparr> = const_rng c"
  "(const_rng c)\<lparr>np_distill := \<lparr>floats = \<lambda>_. c, ints = \<lambda>_. 0\<rparr>\<rparr> = const_rng c"
  "(const_rng c)\<lparr>py_random := \<lparr>floats = \<lambda>_. c, ints = \<lambda>_. 0\<rparr>\<rparr> = const_rng c"
  by (simp_all add: const_rng_def)

lemma draw_const:
  "draw_floats n \<lparr>floats = \<lambda>_. c, ints = \<lambda>_. 0\<rparr> = (replicate n c, \<lparr>floats = \<lambda>_. c, ints = \<lambda>_. 0\<rparr>)"
  "draw_int n \<lparr>floats = \<lambda>_. c, ints = \<lambda>_. 0\<rparr> = (0, \<lparr>floats = \<lambda>_. c, ints = \<lambda>_. 0\<rparr>)"
  by (simp_all add: draw_floats_def draw_int_def map_replicate_trivial)

lemma example_rng_sel:
  "np_global example_rng = \<lparr>floats = \<lambda>_. 0, ints = \<lambda>_. 0\<rparr>"
  "np_distill example_rng = \<lparr>floats = \<lambda>_. 0, ints = \<lambda>_. 0\<rparr>"
  "py_random example_rng = \<lparr>floats = \<lambda>_. 0, ints = \<lambda>_. Suc 0\<rparr>"
  by (simp_all add: example_rng_def const_rng_def)

lemma example_rng_upd:
  "example_rng\<lparr>np_global := \<lparr>floats = \<lambda>_. 0, ints = \<lambda>_. 0\<rparr>\<rparr> = example_rng"
  "example_rng\<lparr>py_random := \<lparr>floats = \<lambda>_. 0, ints = \<lambda>_. Suc 0\<rparr>\<rparr> = example_rng"
  by (simp_all add: example_rng_def const_rng_def)

lemma draw_int_one:
  "draw_int n \<lparr>floats = \<lambda>_. c, ints = \<lambda>_. Suc 0\<rparr> = (Suc 0 mod n, \<lparr>floats = \<lambda>_. c, ints = \<lambda>_. Suc 0\<rparr>)"
  by (simp add: draw_int_def)

lemma ex_fps: "farthest_point_sample_random exact_arith example_rng [[0, 0, 0], [1, 0, 0], [2, 0, 0]] 2
   = Inr ([[0, 0, 0], [2, 0, 0]], example_rng)"
proof -
  have "farthest_point_sample exact_arith [[0, 0, 0], [1, 0, 0], [2, 0, 0]] 2 0 = Inr [[0, 0, 0], [2, 0, 0]]"
    by (simp add: farthest_point_sample_def fps_centroids_def xyz_of_def update_distance_def
        sq_dist_def exact_arith_def np_argmax_def np_max_def numeral_2_eq_2)
  then show ?thesis
    by (simp add: farthest_point_sample_random_def example_rng_sel example_rng_upd draw_const)
qed

lemma ex_norm: "pc_norm [[0, 0, 0], [2, 0, 0]] = Inr [[- 1, 0, 0], [1, 0, 0]]"
  by (simp add: pc_norm_def np_mean0_def sub_row_def row_norm_def np_max_def div_all_def Let_def)

lemma ex_norm_marked:
  "pc_norm_marked [[0, 0, 0], [2, 0, 0]] = Inr (False, [[- 1, 0, 0], [1, 0, 0]])"
  by (simp add: pc_norm_marked_def ex_norm)

lemma ex_dropout:
  "random_point_dropout (example_rng)
     \<lparr>dims = (Suc 0, Suc (Suc 0), Suc (Suc (Suc 0))), clouds = [[[- 1, 0, 0], [1, 0, 0]]]\<rparr> mx
   = (\<lparr>dims = (Suc 0, Suc (Suc 0), Suc (Suc (Suc 0))), clouds = [[[- 1, 0, 0], [- 1, 0, 0]]]\<rparr>,
      example_rng)"
  by (simp add: random_point_dropout_def np_random_random_def np_random_random_n_def
      example_rng_sel example_rng_upd draw_const np_where_le_def set_rows_def)

lemma ex_scale:
  "random_scale_point_cloud (example_rng)
     \<lparr>dims = (Suc 0, Suc (Suc 0), Suc (Suc (Suc 0))), clouds = [[[- 1, 0, 0], [- 1, 0, 0]]]\<rparr>
     (4 / 5) hi
   = (\<lparr>dims = (Suc 0, Suc (Suc 0), Suc (Suc (Suc 0))),
       clouds = [[[- (4 / 5), 0, 0], [- (4 / 5), 0, 0]]]\<rparr>, example_rng)"
  by (simp add: random_scale_point_cloud_def np_uniform_def example_rng_sel example_rng_upd draw_const)

lemma ex_shift:
  "shift_point_cloud (example_rng)
     \<lparr>dims = (Suc 0, Suc (Suc 0), Suc (Suc (Suc 0))),
      clouds = [[[- (4 / 5), 0, 0], [- (4 / 5), 0, 0]]]\<rparr> (1 / 10)
   = Inr (\<lparr>dims = (Suc 0, Suc (Suc 0), Suc (Suc (Suc 0))),
           clouds = [[[- (9 / 10), - (1 / 10), - (1 / 10)], [- (9 / 10), - (1 / 10), - (1 / 10)]]]\<rparr>,
          example_rng)"
  by (simp add: shift_point_cloud_def np_uniform_def example_rng_sel example_rng_upd draw_const
      iadd_row_def numeral_3_eq_3)

lemma ex_dot_id:
  "np_dot [[a, b, c], [d, e, f]] [[1, 0, 0], [0, 1, 0], [0, 0, 1]] = [[a, b, c], [d, e, f]]"
  by (simp add: np_dot_def numeral_3_eq_3)

lemma ex_perturbation_matrix:
  "perturbation_matrix [0, 0, 0] = [[1, 0, 0], [0, 1, 0], [0, 0, 1]]"
  by (simp add: perturbation_matrix_def np_dot_def numeral_3_eq_3 numeral_2_eq_2)

lemma ex_rotate_perturbation:
  "rotate_perturbation_point_cloud (example_rng)
     \<lparr>dims = (Suc 0, Suc (Suc 0), Suc (Suc (Suc 0))), clouds = [[[a, b, c], [d, e, f]]]\<rparr>
     (3 / 50) (9 / 50)
   = Inr (\<lparr>dims = (Suc 0, Suc (Suc 0), Suc (Suc (Suc 0))), clouds = [[[a, b, c], [d, e, f]]]\<rparr>,
          example_rng)"
proof -
  have "draw_floats 3 \<lparr>floats = \<lambda>_. 0, ints = \<lambda>_. 0\<rparr> = ([0, 0, 0], \<lparr>floats = \<lambda>_. 0, ints = \<lambda>_. 0\<rparr>)"
    by (simp add: draw_const numeral_3_eq_3)
  then show ?thesis
    by (simp add: rotate_perturbation_point_cloud_def np_randn_def example_rng_sel example_rng_upd
        np_clip_def ex_perturbation_matrix ex_dot_id reshape_3_def assign_slice_def)
qed

lemma ex_rotate:
  "rotate_point_cloud (example_rng)
     \<lparr>dims = (Suc 0, Suc (Suc 0), Suc (Suc (Suc 0))), clouds = [[[a, b, c], [d, e, f]]]\<rparr>
   = Inr (\<lparr>dims = (Suc 0, Suc (Suc 0), Suc (Suc (Suc 0))), clouds = [[[a, b, c], [d, e, f]]]\<rparr>,
          example_rng)"
  by (simp add: rotate_point_cloud_def np_uniform_def example_rng_sel example_rng_upd
      draw_const ex_dot_id reshape_3_def assign_slice_def)

lemma ex_augment:
  "augment_default (example_rng) [[- 1, 0, 0], [1, 0, 0]]
   = Inr (Tensor2 [[- (9 / 10), - (1 / 10), - (1 / 10)], [- (9 / 10), - (1 / 10), - (1 / 10)]],
          example_rng)"
  by (simp add: augment_default_def ex_dropout ex_scale ex_shift ex_rotate_perturbation ex_rotate)

lemma ex_points:
  "idx < 2 \<Longrightarrow> ShapeNet_points example_shapenet (example_env ok) example_state idx
   = Inr (Tensor2 [[- (9 / 10), - (1 / 10), - (1 / 10)], [- (9 / 10), - (1 / 10), - (1 / 10)]],
          example_state)"
  by (simp add: ShapeNet_points_def example_shapenet_def example_env_def example_state_def
      ex_fps ex_norm_marked ex_augment color_and_height_def mark_nan_def)

lemma ex_side0:
  "ShapeNet_side example_shapenet (example_env ok) example_rng 0
   = Inr (\<lparr>side_label = 0, side_caption = [120, 32, 98],
           side_image_addr = ''img/t1-m1_r_000_depth0001.png'', side_text_feature = NoneV\<rparr>,
          example_rng)"
  by (simp add: ShapeNet_side_def example_shapenet_def example_env_def strip_def is_space_def
      random_choice_def example_rng_sel example_rng_upd draw_int_one)

lemma ex_side1:
  "ShapeNet_side example_shapenet (example_env ok) example_rng 1
   = Inr (\<lparr>side_label = 0, side_caption = [120, 32, 98],
           side_image_addr = ''img/t1-m2_r_000_depth0001.png'', side_text_feature = NoneV\<rparr>,
          example_rng)"
  by (simp add: ShapeNet_side_def example_shapenet_def example_env_def strip_def is_space_def
      random_choice_def example_rng_sel example_rng_upd draw_int_one)

lemma ex_retry:
  "random_randint 0 (int (length (file_list example_shapenet)) - 1) (py_random example_rng)
   = Inr (1, \<lparr>floats = \<lambda>_. 0, ints = \<lambda>_. Suc 0\<rparr>)"
  by (simp add: random_randint_def example_shapenet_def example_rng_sel draw_int_one)

lemma ex_state_upd:
  "example_state\<lparr>rng_of := example_rng\<rparr> = example_state"
  "rng_of example_state = example_rng"
  by (simp_all add: example_state_def)

lemma ex_try0:
  "ShapeNet_try example_shapenet (example_env ok) 0 data
     \<lparr>side_label = 0, side_caption = [120, 32, 98],
      side_image_addr = ''img/t1-m1_r_000_depth0001.png'', side_text_feature = NoneV\<rparr> = None"
  by (simp add: ShapeNet_try_def example_env_def)

lemma ex_try1_broken:
  "ShapeNet_try example_shapenet (example_env False) 1 data
     \<lparr>side_label = 0, side_caption = [120, 32, 98],
      side_image_addr = ''img/t1-m2_r_000_depth0001.png'', side_text_feature = NoneV\<rparr> = None"
  by (simp add: ShapeNet_try_def example_env_def)

lemma ex_try1:
  "ShapeNet_try example_shapenet (example_env True) 1
     (Tensor2 [[- (9 / 10), - (1 / 10), - (1 / 10)], [- (9 / 10), - (1 / 10), - (1 / 10)]])
     \<lparr>side_label = 0, side_caption = [120, 32, 98],
      side_image_addr = ''img/t1-m2_r_000_depth0001.png'', side_text_feature = NoneV\<rparr>
   = Some example_sample"
  by (simp add: ShapeNet_try_def example_env_def example_shapenet_def example_sample_def
      Sample_def)

lemma nat_one: "nat 1 = (1::nat)"
  by simp

lemma ex_points0:
  "ShapeNet_points example_shapenet (example_env ok) example_state 0
   = Inr (Tensor2 [[- (9 / 10), - (1 / 10), - (1 / 10)], [- (9 / 10), - (1 / 10), - (1 / 10)]],
          example_state)"
  by (rule ex_points) simp

lemma ex_points1:
  "ShapeNet_points example_shapenet (example_env ok) example_state 1
   = Inr (Tensor2 [[- (9 / 10), - (1 / 10), - (1 / 10)], [- (9 / 10), - (1 / 10), - (1 / 10)]],
          example_state)"
  by (rule ex_points) simp

lemma ex_pass0: "ShapeNet_pass example_shapenet (example_env ok) example_state 0 = Retry 1 example_state"
  by (simp only: ShapeNet_pass_def ex_points0 ex_side0 ex_try0 ex_retry ex_state_upd
      example_rng_upd sum.case prod.case option.case nat_one)

lemma ex_pass1_broken:
  "ShapeNet_pass example_shapenet (example_env False) example_state 1 = Retry 1 example_state"
  by (simp only: ShapeNet_pass_def ex_points1 ex_side1 ex_try1_broken ex_retry ex_state_upd
      example_rng_upd sum.case prod.case option.case nat_one)

lemma ex_pass1:
  "ShapeNet_pass example_shapenet (example_env True) example_state 1
   = Returned example_sample example_state"
  by (simp only: ShapeNet_pass_def ex_points1 ex_side1 ex_try1 ex_state_upd
      sum.case prod.case option.case)

subsection \<open>Samples of the adapters\<close>

lemma fps_random_ok:
  assumes "point \<noteq> []"
  shows "\<exists>out st'. farthest_point_sample_random fa st point n = Inr (out, st')
           \<and> length out = n \<and> set out \<subseteq> set point"
proof -
  let ?start = "ints (np_global st) 0 mod length point"
  let ?idx = "fps_centroids fa point n ?start"
  have s: "?start < length (xyz_of point)" using assms by (simp add: xyz_of_def)
  have xne: "xyz_of point \<noteq> []" using assms by (simp add: xyz_of_def)
  have li: "length (replicate (length point) (10 ^ 10 :: real)) = length (xyz_of point)"
    by (simp add: xyz_of_def)
  have b: "\<forall>i\<in>set ?idx. i < length point"
    using fps_loop_bound [where f = ?start and n = n and fa = fa, OF xne li s]
    by (simp add: fps_centroids_def xyz_of_def)
  have l: "length ?idx = n" by (simp add: fps_centroids_def length_fps_loop)
  have r: "farthest_point_sample_random fa st point n =
           Inr (map (\<lambda>i. point ! i) ?idx,
                st\<lparr>np_global := (np_global st)\<lparr>ints := \<lambda>k. ints (np_global st) (Suc k)\<rparr>\<rparr>)"
    using assms
    by (simp add: farthest_point_sample_random_def farthest_point_sample_def draw_int_def)
  have "set (map (\<lambda>i. point ! i) ?idx) \<subseteq> set point" using b by auto
  with r l show ?thesis by simp
qed

lemma normalize_xyz_ok:
  assumes "ps \<noteq> []" "3 \<le> length (hd ps)"
  shows "\<exists>nan out. normalize_xyz ps = Inr (nan, out) \<and> out \<noteq> [] \<and> 3 \<le> length (hd out)"
proof -
  obtain p rest where ps: "ps = p # rest" using assms(1) by (cases ps) auto
  have lp: "3 \<le> length p" using assms(2) ps by simp
  let ?X = "map (take 3) ps"
  let ?c = "np_mean0 ?X"
  let ?pc = "sub_row ?X ?c"
  let ?m = "np_max (map row_norm ?pc)"
  have ne: "?X \<noteq> []" using assms(1) by simp
  have lc: "length ?c = 3" using lp by (simp add: ps np_mean0_def)
  have hz: "hd (zeros_like ?X) = map (\<lambda>_. 0) (take 3 p)" "zeros_like ?X \<noteq> []"
    by (simp_all add: ps zeros_like_def)
  have hd: "hd (div_all ?pc ?m) = map (\<lambda>x. x / ?m) (map2 (-) (take 3 p) ?c)"
    "div_all ?pc ?m \<noteq> []"
    by (simp_all add: ps div_all_def sub_row_def)
  have out: "map2 (\<lambda>n p. n @ drop 3 p) xyz ps \<noteq> []
             \<and> 3 \<le> length (hd (map2 (\<lambda>n p. n @ drop 3 p) xyz ps))"
    if "xyz \<noteq> []" "length (hd xyz) = 3" for xyz :: cloud
    using that by (cases xyz) (simp_all add: ps)
  show ?thesis
  proof (cases "?m = 0 \<and> concat ?pc \<noteq> []")
    case True
    then have "pc_normalize ?X = Inl NonFinite"
      using ne by (simp add: pc_normalize_def Let_def)
    then have "normalize_xyz ps = Inr (True, map2 (\<lambda>n p. n @ drop 3 p) (zeros_like ?X) ps)"
      by (simp add: normalize_xyz_def)
    moreover have "length (hd (zeros_like ?X)) = 3" using lp by (simp add: hz(1))
    ultimately show ?thesis using out [OF hz(2)] by blast
  next
    case False
    then have "pc_normalize ?X = Inr (div_all ?pc ?m)"
      using ne by (simp add: pc_normalize_def Let_def)
    then have "normalize_xyz ps = Inr (False, map2 (\<lambda>n p. n @ drop 3 p) (div_all ?pc ?m) ps)"
      by (simp add: normalize_xyz_def)
    moreover have "length (hd (div_all ?pc ?m)) = 3" using lp lc by (simp add: hd(1))
    ultimately show ?thesis using out [OF hd(2)] by blast
  qed
qed

lemma add_height_ok:
  assumes "data \<noteq> []" "2 \<le> length (hd data)"
  shows "\<exists>out. add_height data = Inr out"
  using assms by (simp add: add_height_def Let_def)

lemma ModelNet_points_ok:
  assumes "ps \<noteq> []" "rect D ps" "3 \<le> D" "0 < mn_npoints ds"
  shows "\<exists>nan out st1. ModelNet_points fa ds st ps = Inr ((nan, out), st1)"
proof -
  have "\<exists>ps1 st1. (if mn_npoints ds < length ps
                    then farthest_point_sample_random fa st ps (mn_npoints ds)
                    else Inr (ps, st)) = Inr (ps1, st1) \<and> ps1 \<noteq> [] \<and> set ps1 \<subseteq> set ps"
  proof (cases "mn_npoints ds < length ps")
    case True
    from fps_random_ok [OF assms(1), of fa st "mn_npoints ds"] obtain out st'
      where "farthest_point_sample_random fa st ps (mn_npoints ds) = Inr (out, st')"
        "length out = mn_npoints ds" "set out \<subseteq> set ps" by blast
    then show ?thesis using True assms(4) by auto
  next
    case False
    then show ?thesis using assms(1) by simp
  qed
  then obtain ps1 st1 where s: "(if mn_npoints ds < length ps
                    then farthest_point_sample_random fa st ps (mn_npoints ds)
                    else Inr (ps, st)) = Inr (ps1, st1)"
    and ne: "ps1 \<noteq> []" and sub: "set ps1 \<subseteq> set ps" by blast
  have "hd ps1 \<in> set ps" using ne sub by (cases ps1) auto
  then have "3 \<le> length (hd ps1)" using assms(2,3) by (simp add: rect_def)
  from normalize_xyz_ok [OF ne this] obtain nan ps2
    where n: "normalize_xyz ps1 = Inr (nan, ps2)" and ne2: "ps2 \<noteq> []"
      and w2: "3 \<le> length (hd ps2)" by blast
  let ?ps3 = "if \<not> mn_use_normals ds then map (take 3) ps2 else ps2"
  have ne3: "?ps3 \<noteq> []" using ne2 by simp
  have w3: "2 \<le> length (hd ?ps3)" using ne2 w2 by (cases ps2) auto
  from add_height_ok [OF ne3 w3] obtain ps4 where h: "add_height ?ps3 = Inr ps4" by blast
  show ?thesis
    unfolding ModelNet_points_def s using n h by (simp add: Let_def)
qed

lemma takeWhile_index_less: "x \<in> set xs \<Longrightarrow> length (takeWhile (\<lambda>y. y \<noteq> x) xs) < length xs"
  by (induction xs) auto

lemma list_index_ok: "x \<in> set xs \<Longrightarrow> \<exists>l. list_index xs x = Inr l \<and> l < length xs"
  by (simp add: list_index_def takeWhile_index_less)

lemma ModelNet_get_item_ok:
  assumes "ModelNet_valid ds index"
  shows "\<exists>points l st1. ModelNet_get_item fa ds st index = Inr ((points, l), st1)
           \<and> l < length (shape_names ds)"
proof -
  let ?ps = "list_of_points ds ! index"
  have i: "index < length (list_of_points ds)" "index < length (list_of_labels ds)"
    and ne: "?ps \<noteq> []" and r: "rect (length (hd ?ps)) ?ps" and w: "3 \<le> length (hd ?ps)"
    and n: "0 < mn_npoints ds"
    using assms by (simp_all add: ModelNet_valid_def)
  from ModelNet_points_ok [OF ne r w n, of fa st] obtain nan out st1
    where p: "ModelNet_points fa ds st ?ps = Inr ((nan, out), st1)" by blast
  show ?thesis
  proof (cases "mn_use_10k_pc ds \<and> mn_use_colored_pc ds")
    case True
    then have b: "index < length (modelnet_10k_rgb_data ds)" "index < length (cat_name ds)"
      and m: "cat_name ds ! index \<in> set (shape_names ds)"
      using assms by (simp_all add: ModelNet_valid_def)
    from list_index_ok [OF m] obtain l
      where "list_index (shape_names ds) (cat_name ds ! index) = Inr l" "l < length (shape_names ds)"
      by blast
    then show ?thesis using True i b p by (simp add: ModelNet_get_item_def)
  next
    case False
    then have "list_of_labels ds ! index \<noteq> []"
      "list_of_labels ds ! index ! 0 < length (shape_names ds)"
      using assms by (simp_all add: ModelNet_valid_def)
    then show ?thesis using False i p by (auto simp: ModelNet_get_item_def)
  qed
qed

lemma ModelNet_getitem_ok:
  assumes "ModelNet_valid ds index"
  shows "\<exists>s st'. ModelNet_getitem fa ds st index = Inr (s, st')"
proof -
  from ModelNet_get_item_ok [OF assms, of fa st] obtain points l st1
    where g: "ModelNet_get_item fa ds st index = Inr ((points, l), st1)"
      and l: "l < length (shape_names ds)" by blast
  obtain idxs st2 where o: "ModelNet_order ds st1 (rows_of points) = (idxs, st2)"
    by (cases "ModelNet_order ds st1 (rows_of points)")
  show ?thesis
  proof (cases "mn_subset ds = ''train''")
    case True
    then have f: "l < length (pc_text_features ds)" "60 \<le> length (pc_text_features ds ! l)"
      using assms l by (simp_all add: ModelNet_valid_def)
    have d: "random_randint 0 59 (py_random st2) =
             Inr (int (ints (py_random st2) 0 mod 60),
                  (py_random st2)\<lparr>ints := \<lambda>k. ints (py_random st2) (Suc k)\<rparr>)"
      by (simp add: random_randint_def draw_int_def)
    have "ints (py_random st2) 0 mod 60 < length (pc_text_features ds ! l)"
      using f(2) by (simp add: less_le_trans)
    then show ?thesis
      using True l f(1) by (simp add: ModelNet_getitem_def g o d Let_def)
  next
    case False
    then show ?thesis using l by (simp add: ModelNet_getitem_def g o Let_def)
  qed
qed

lemma ModelNet_keys:
  assumes "ModelNet_getitem fa ds st index = Inr (s, st')"
  shows "\<exists>points l st1. ModelNet_get_item fa ds st index = Inr ((points, l), st1)
           \<and> s ''pc'' = Some (take_rows points (fst (ModelNet_order ds st1 (rows_of points))))
           \<and> s ''label'' = Some (IntV l)"
  using assms
  by (auto simp: ModelNet_getitem_def Sample_def Let_def
      split: sum.splits prod.splits if_splits)

lemma ScanObjectNN_keys:
  assumes "ScanObjectNN_getitem ds item = Inr s"
  shows "s ''pc'' = Some (Tensor2 (son_data ds ! item))
       \<and> s ''label'' = Some (IntV (son_label ds ! item))"
  using assms
  by (auto simp: ScanObjectNN_getitem_def Sample_def Let_def split: if_splits)

lemma ScanObjectNN_returns:
  assumes "item < length (son_data ds)" "item < length (son_label ds)"
    "son_label ds ! item < length semantic_classes"
  shows "\<exists>s. ScanObjectNN_getitem ds item = Inr s"
  using assms by (simp add: ScanObjectNN_getitem_def Let_def)

lemma ShapeNet_keys:
  assumes "ShapeNet_getitem ds ev st idx = Some (Inr (s, st'))"
  shows "(\<exists>st0 idx0 data st1 l. idx0 < length (file_list ds)
            \<and> ShapeNet_points ds ev st0 idx0 = Inr (data, st1)
            \<and> s ''pc'' = Some data
            \<and> index_list ds (taxonomy_id (file_list ds ! idx0)) = Some l
            \<and> s ''target'' = Some (IntV l))
       \<and> s ''label'' = None"
proof -
  from getitem_some_returned [OF assms] obtain st0 idx0
    where "ShapeNet_pass ds ev st0 idx0 = Returned s st'" by blast
  from pass_returned [OF this] obtain data st1 sd r2
    where p: "ShapeNet_points ds ev st0 idx0 = Inr (data, st1)"
      and sd: "ShapeNet_side ds ev (rng_of st1) idx0 = Inr (sd, r2)"
      and t: "ShapeNet_try ds ev idx0 data sd = Some s" by blast
  note k = try_keys [OF t]
  have "idx0 < length (file_list ds)" using p by (rule points_index)
  moreover have "index_list ds (taxonomy_id (file_list ds ! idx0)) = Some (side_label sd)"
    using sd by (rule side_frame(3))
  ultimately show ?thesis using p k by blast
qed

lemma getitem_no_image:
  assumes "pil_loader ev = (\<lambda>addr. None)"
  shows "\<not> returns_sample (ShapeNet_getitem ds ev st idx)"
proof
  assume "returns_sample (ShapeNet_getitem ds ev st idx)"
  then obtain s st' where "ShapeNet_getitem ds ev st idx = Some (Inr (s, st'))"
    by (auto simp: returns_sample_def split: option.splits sum.splits)
  from getitem_some_returned [OF this] obtain st0 idx0
    where "ShapeNet_pass ds ev st0 idx0 = Returned s st'" by blast
  from pass_returned [OF this] obtain data sd
    where "ShapeNet_try ds ev idx0 data sd = Some s" by blast
  then show False using assms by (simp add: ShapeNet_try_def)
qed

lemma ex_mn_norm: "normalize_xyz [[0, 0, 0], [2, 0, 0]] = Inr (False, [[- 1, 0, 0], [1, 0, 0]])"
proof -
  have n: "pc_normalize [[0, 0, 0], [2, 0, 0]] = Inr [[- 1, 0, 0], [1, 0, 0]]"
    by (simp add: pc_normalize_def np_mean0_def sub_row_def row_norm_def np_max_def div_all_def
        Let_def)
  show ?thesis by (simp add: normalize_xyz_def n)
qed

lemma ex_mn_get_item:
  "ModelNet_get_item fa example_modelnet st 0 = Inr ((Tensor2 [[- 1, 0, 0], [1, 0, 0]], 0), st)"
  by (simp add: ModelNet_get_item_def ModelNet_points_def example_modelnet_def ex_mn_norm
      mark_nan_def)

lemma ex_mn_order:
  "ModelNet_order example_modelnet (const_rng 0) 2 = ([1, 0], const_rng 0)"
  by (simp add: ModelNet_order_def example_modelnet_def np_shuffle_def const_rng_sel
      const_rng_upd draw_const upt_rec)

lemma ex_modelnet:
  "ModelNet_getitem fa example_modelnet (const_rng 0) 0
   = Inr (example_modelnet_sample, const_rng 0)"
proof -
  have r: "random_randint 0 59 \<lparr>floats = \<lambda>_. 0, ints = \<lambda>_. 0\<rparr>
           = Inr (0, \<lparr>floats = \<lambda>_. 0, ints = \<lambda>_. 0\<rparr>)"
    by (simp add: random_randint_def draw_const)
  have o: "ModelNet_order example_modelnet (const_rng 0) (Suc (Suc 0)) = ([1, 0], const_rng 0)"
    using ex_mn_order by (simp add: numeral_2_eq_2)
  have e: "mn_subset example_modelnet = ''train''" "shape_names example_modelnet = [''airplane'']"
    "pc_text_features example_modelnet = [replicate 60 [1]]"
    by (simp_all add: example_modelnet_def)
  show ?thesis
    by (simp add: ModelNet_getitem_def ex_mn_get_item rows_of_def take_rows_def o e r
        const_rng_sel const_rng_upd Sample_def example_modelnet_sample_def)
qed

lemma ex_valid: "ModelNet_valid example_modelnet 0"
  by (simp add: ModelNet_valid_def example_modelnet_def rect_def)

lemma ex_scanobjectnn:
  "ScanObjectNN_getitem example_scanobjectnn 0 =
     Inr [''pc'' \<mapsto> Tensor2 [[0, 0, 0], [2, 0, 0]], ''caption'' \<mapsto> Tokens (map of_char ''chair''),
          ''label'' \<mapsto> IntV 4]"
  by (simp add: ScanObjectNN_getitem_def example_scanobjectnn_def semantic_classes_def Sample_def)

lemma ex_getitem1:
  "ShapeNet_getitem example_shapenet (example_env True) example_state 1
   = Some (Inr (example_sample, example_state))"
  using ex_pass1 by (rule getitem_returned)

lemma ex_getitem0:
  "ShapeNet_getitem example_shapenet (example_env True) example_state 0
   = Some (Inr (example_sample, example_state))"
  using getitem_retry [OF ex_pass0 [of True]] ex_getitem1 by simp

lemma ex_after_retries:
  "after_retries example_shapenet (example_env True) 1 example_state 0 = Some (example_state, 1)"
proof -
  have "after_retries example_shapenet (example_env True) (Suc 0) example_state 0
        = after_retries example_shapenet (example_env True) 0 example_state 1"
    by (simp only: after_retries.simps ex_pass0 pass.case)
  then show ?thesis by simp
qed

lemma ex_all_retries:
  "after_retries example_shapenet (example_env False) n example_state 0
   = Some (example_state, if n = 0 then 0 else 1)"
proof (induction n)
  case 0
  show ?case by simp
next
  case (Suc n)
  show ?case
    unfolding after_retries_Suc Suc.IH
    using ex_pass0 [of False] ex_pass1_broken by simp
qed

lemma ex_diverges:
  "ShapeNet_getitem example_shapenet (example_env False) example_state 0 = None"
proof (rule getitem_diverges [where I = "{(example_state, 0::nat), (example_state, 1)}"])
  fix st :: pstate and idx :: nat
  assume "(st, idx) \<in> {(example_state, 0::nat), (example_state, 1)}"
  then consider "st = example_state" "idx = 0" | "st = example_state" "idx = 1" by blast
  then show "\<exists>st' idx'. ShapeNet_pass example_shapenet (example_env False) st idx = Retry idx' st'
               \<and> (st', idx') \<in> {(example_state, 0::nat), (example_state, 1)}"
  proof cases
    case 1
    then show ?thesis using ex_pass0 [of False] by simp
  next
    case 2
    then show ?thesis using ex_pass1_broken by simp
  qed
qed simp

text \<open>
  C7 (amended).  When the image of a pass of \<open>ShapeNet.__getitem__\<close> fails to load, the
  failure is not propagated: the pass draws an index with
  \<open>random.randint(0, len(self.file_list) - 1)\<close>, which is an index of the file list, and
  the call continues as a call from that index, in the state that the failed pass left.
  The failure and the draw change the source \<open>random\<close> alone: the permutation and the two
  numpy sources, which the point-cloud steps use, are as the point-cloud steps of the
  failed pass left them.  After any number of passes that ended in a retry, a pass whose
  image loads ends the call with the sample of that pass, whose point cloud is the one
  that the point-cloud steps compute for the index and the state of that pass.  The loop
  has no bound: a call all of whose passes end in a retry never returns, and when no
  image loads no call returns a sample.
\<close>

theorem ShapeNet_getitem_retries:
  "(ShapeNet_points ds ev st idx = Inr (data, st1)
      \<and> ShapeNet_side ds ev (rng_of st1) idx = Inr (sd, r2)
      \<and> ShapeNet_try ds ev idx data sd = None \<longrightarrow>
      (\<exists>k g. random_randint 0 (int (length (file_list ds)) - 1) (py_random r2) = Inr (int k, g)
         \<and> k < length (file_list ds)
         \<and> ShapeNet_pass ds ev st idx = Retry k (st1\<lparr>rng_of := r2\<lparr>py_random := g\<rparr>\<rparr>)
         \<and> ShapeNet_getitem ds ev st idx
             = ShapeNet_getitem ds ev (st1\<lparr>rng_of := r2\<lparr>py_random := g\<rparr>\<rparr>) k)
      \<and> np_global r2 = np_global (rng_of st1) \<and> np_distill r2 = np_distill (rng_of st1))
   \<and> (after_retries ds ev n st idx = Some (st_n, idx_n)
      \<and> ShapeNet_pass ds ev st_n idx_n = Returned rtn st_r \<longrightarrow>
      ShapeNet_getitem ds ev st idx = Some (Inr (rtn, st_r))
      \<and> (\<exists>pc st2. ShapeNet_points ds ev st_n idx_n = Inr (pc, st2) \<and> rtn ''pc'' = Some pc
            \<and> permutation st_r = permutation st2
            \<and> np_global (rng_of st_r) = np_global (rng_of st2)
            \<and> np_distill (rng_of st_r) = np_distill (rng_of st2)))
   \<and> ((\<forall>m. after_retries ds ev m st idx \<noteq> None) \<longrightarrow> ShapeNet_getitem ds ev st idx = None)
   \<and> (pil_loader ev = (\<lambda>addr. None) \<longrightarrow> \<not> returns_sample (ShapeNet_getitem ds ev st idx))"
proof (intro conjI impI)
  assume a: "ShapeNet_points ds ev st idx = Inr (data, st1)
      \<and> ShapeNet_side ds ev (rng_of st1) idx = Inr (sd, r2)
      \<and> ShapeNet_try ds ev idx data sd = None"
  let ?k = "ints (py_random r2) 0 mod length (file_list ds)"
  let ?g = "(py_random r2)\<lparr>ints := \<lambda>k. ints (py_random r2) (Suc k)\<rparr>"
  have pos: "0 < length (file_list ds)"
    using a points_index [of ds ev st idx "(data, st1)"] by (cases "file_list ds") simp_all
  have d: "random_randint 0 (int (length (file_list ds)) - 1) (py_random r2) = Inr (int ?k, ?g)"
    using pos by (rule random_randint_draw)
  have p: "ShapeNet_pass ds ev st idx = Retry ?k (st1\<lparr>rng_of := r2\<lparr>py_random := ?g\<rparr>\<rparr>)"
    using a pass_image_failure by blast
  have k: "?k < length (file_list ds)" using pos by simp
  have c: "ShapeNet_getitem ds ev st idx
           = ShapeNet_getitem ds ev (st1\<lparr>rng_of := r2\<lparr>py_random := ?g\<rparr>\<rparr>) ?k"
    using p by (rule getitem_retry)
  from d k p c
  show "\<exists>k g. random_randint 0 (int (length (file_list ds)) - 1) (py_random r2) = Inr (int k, g)
         \<and> k < length (file_list ds)
         \<and> ShapeNet_pass ds ev st idx = Retry k (st1\<lparr>rng_of := r2\<lparr>py_random := g\<rparr>\<rparr>)
         \<and> ShapeNet_getitem ds ev st idx
             = ShapeNet_getitem ds ev (st1\<lparr>rng_of := r2\<lparr>py_random := g\<rparr>\<rparr>) k"
    by blast
  from a have s: "ShapeNet_side ds ev (rng_of st1) idx = Inr (sd, r2)" by simp
  show "np_global r2 = np_global (rng_of st1)" using s by (rule side_frame(1))
  show "np_distill r2 = np_distill (rng_of st1)" using s by (rule side_frame(2))
next
  assume b: "after_retries ds ev n st idx = Some (st_n, idx_n)
      \<and> ShapeNet_pass ds ev st_n idx_n = Returned rtn st_r"
  then have "ShapeNet_getitem ds ev st idx = ShapeNet_getitem ds ev st_n idx_n"
    using getitem_after_retries by blast
  also have "\<dots> = Some (Inr (rtn, st_r))" using b getitem_returned by blast
  finally show "ShapeNet_getitem ds ev st idx = Some (Inr (rtn, st_r))" .
  from b obtain pc st2 sd' r' where p: "ShapeNet_points ds ev st_n idx_n = Inr (pc, st2)"
    and s: "ShapeNet_side ds ev (rng_of st2) idx_n = Inr (sd', r')"
    and t: "ShapeNet_try ds ev idx_n pc sd' = Some rtn"
    and e: "st_r = st2\<lparr>rng_of := r'\<rparr>"
    using pass_returned by blast
  have "rtn ''pc'' = Some pc" using try_keys [OF t] by simp
  moreover have "permutation st_r = permutation st2" by (simp add: e)
  moreover have "np_global (rng_of st_r) = np_global (rng_of st2)"
    using side_frame(1) [OF s] by (simp add: e)
  moreover have "np_distill (rng_of st_r) = np_distill (rng_of st2)"
    using side_frame(2) [OF s] by (simp add: e)
  ultimately show "\<exists>pc st2. ShapeNet_points ds ev st_n idx_n = Inr (pc, st2) \<and> rtn ''pc'' = Some pc
            \<and> permutation st_r = permutation st2
            \<and> np_global (rng_of st_r) = np_global (rng_of st2)
            \<and> np_distill (rng_of st_r) = np_distill (rng_of st2)"
    using p by blast
next
  assume "\<forall>m. after_retries ds ev m st idx \<noteq> None"
  then show "ShapeNet_getitem ds ev st idx = None" by (rule getitem_all_retries)
next
  assume "pil_loader ev = (\<lambda>addr. None)"
  then show "\<not> returns_sample (ShapeNet_getitem ds ev st idx)" by (rule getitem_no_image)
qed

theorem ShapeNet_getitem_retries_witness:
  "ShapeNet_points example_shapenet (example_env True) example_state 0 =
     Inr (Tensor2 [[- (9 / 10), - (1 / 10), - (1 / 10)], [- (9 / 10), - (1 / 10), - (1 / 10)]],
          example_state)
   \<and> ShapeNet_side example_shapenet (example_env True) (rng_of example_state) 0
       = Inr (\<lparr>side_label = 0, side_caption = [120, 32, 98],
               side_image_addr = ''img/t1-m1_r_000_depth0001.png'', side_text_feature = NoneV\<rparr>,
              example_rng)
   \<and> ShapeNet_try example_shapenet (example_env True) 0
        (Tensor2 [[- (9 / 10), - (1 / 10), - (1 / 10)], [- (9 / 10), - (1 / 10), - (1 / 10)]])
        \<lparr>side_label = 0, side_caption = [120, 32, 98],
         side_image_addr = ''img/t1-m1_r_000_depth0001.png'', side_text_feature = NoneV\<rparr> = None
   \<and> (\<exists>k g. random_randint 0 (int (length (file_list example_shapenet)) - 1)
               (py_random example_rng) = Inr (int k, g)
         \<and> k < length (file_list example_shapenet)
         \<and> ShapeNet_pass example_shapenet (example_env True) example_state 0
             = Retry k (example_state\<lparr>rng_of := example_rng\<lparr>py_random := g\<rparr>\<rparr>)
         \<and> ShapeNet_getitem example_shapenet (example_env True) example_state 0
             = ShapeNet_getitem example_shapenet (example_env True)
                 (example_state\<lparr>rng_of := example_rng\<lparr>py_random := g\<rparr>\<rparr>) k)
   \<and> after_retries example_shapenet (example_env True) 1 example_state 0 = Some (example_state, 1)
   \<and> ShapeNet_pass example_shapenet (example_env True) example_state 1
        = Returned example_sample example_state
   \<and> ShapeNet_getitem example_shapenet (example_env True) example_state 0
        = Some (Inr (example_sample, example_state))
   \<and> example_sample ''pc'' =
        Some (Tensor2 [[- (9 / 10), - (1 / 10), - (1 / 10)], [- (9 / 10), - (1 / 10), - (1 / 10)]])
   \<and> pil_loader (example_env False) = (\<lambda>addr. None)
   \<and> \<not> returns_sample (ShapeNet_getitem example_shapenet (example_env False) example_state 0)
   \<and> ShapeNet_getitem example_shapenet (example_env False) example_state 0 = None"
proof -
  have p: "ShapeNet_points example_shapenet (example_env True) example_state 0 =
     Inr (Tensor2 [[- (9 / 10), - (1 / 10), - (1 / 10)], [- (9 / 10), - (1 / 10), - (1 / 10)]],
          example_state)"
    by (rule ex_points0)
  have s: "ShapeNet_side example_shapenet (example_env True) (rng_of example_state) 0
   = Inr (\<lparr>side_label = 0, side_caption = [120, 32, 98],
           side_image_addr = ''img/t1-m1_r_000_depth0001.png'', side_text_feature = NoneV\<rparr>,
          example_rng)"
    by (simp only: ex_state_upd ex_side0)
  have t: "ShapeNet_try example_shapenet (example_env True) 0
        (Tensor2 [[- (9 / 10), - (1 / 10), - (1 / 10)], [- (9 / 10), - (1 / 10), - (1 / 10)]])
        \<lparr>side_label = 0, side_caption = [120, 32, 98],
         side_image_addr = ''img/t1-m1_r_000_depth0001.png'', side_text_feature = NoneV\<rparr> = None"
    by (rule ex_try0)
  have pc: "example_sample ''pc'' =
        Some (Tensor2 [[- (9 / 10), - (1 / 10), - (1 / 10)], [- (9 / 10), - (1 / 10), - (1 / 10)]])"
    by (simp add: example_sample_def)
  have l: "pil_loader (example_env False) = (\<lambda>addr. None)"
    by (simp add: example_env_def)
  have r: "\<forall>m. after_retries example_shapenet (example_env False) m example_state 0 \<noteq> None"
    by (simp add: ex_all_retries)
  note A = ShapeNet_getitem_retries
    [where ds = example_shapenet and ev = "example_env True" and st = example_state and idx = 0
       and data = "Tensor2 [[- (9 / 10), - (1 / 10), - (1 / 10)], [- (9 / 10), - (1 / 10), - (1 / 10)]]"
       and ?st1.0 = example_state
       and sd = "\<lparr>side_label = 0, side_caption = [120, 32, 98],
                  side_image_addr = ''img/t1-m1_r_000_depth0001.png'', side_text_feature = NoneV\<rparr>"
       and ?r2.0 = example_rng and n = 1 and st_n = example_state and idx_n = 1
       and rtn = example_sample and st_r = example_state]
  note B = ShapeNet_getitem_retries
    [where ds = example_shapenet and ev = "example_env False" and st = example_state and idx = 0]
  note a1 = A [THEN conjunct1, THEN mp, OF conjI [OF p conjI [OF s t]], THEN conjunct1]
  note a2 = A [THEN conjunct2, THEN conjunct1, THEN mp, OF conjI [OF ex_after_retries ex_pass1],
      THEN conjunct1]
  note b3 = B [THEN conjunct2, THEN conjunct2, THEN conjunct1, THEN mp, OF r]
  note b4 = B [THEN conjunct2, THEN conjunct2, THEN conjunct2, THEN mp, OF l]
  show ?thesis
    by (rule conjI [OF p conjI [OF s conjI [OF t conjI [OF a1 conjI [OF ex_after_retries
        conjI [OF ex_pass1 conjI [OF a2 conjI [OF pc conjI [OF l conjI [OF b4 b3]]]]]]]]]])
qed

text \<open>
  C7 as stated fails: the retry has no bound.  In the instance whose images all fail to
  load, every pass ends in a retry and the call never returns.
\<close>

theorem ShapeNet_getitem_unbounded_counterexample:
  "ShapeNet_getitem example_shapenet (example_env False) example_state 0 = None"
  by (rule ex_diverges)

text \<open>
  C2 (amended).  For every valid index \<open>ModelNet.__getitem__\<close> returns a sample, and
  \<open>ScanObjectNN.__getitem__\<close> returns one for every index that has a cloud and a label
  naming one of the classes.  A sample returned by \<open>ModelNet.__getitem__\<close> holds under
  \<open>pc\<close> the points that \<open>_get_item\<close> gives for the index, in the order of the subset, and
  under \<open>label\<close> the class index that \<open>_get_item\<close> gives; a sample returned by
  \<open>ScanObjectNN.__getitem__\<close> holds under \<open>pc\<close> the cloud of the index and under \<open>label\<close>
  its label.  A sample returned by \<open>ShapeNet.__getitem__\<close> holds under \<open>pc\<close> the tensor
  that the point-cloud steps compute for an index of the file list, and holds the class
  index of that item under the key \<open>target\<close>; it has no key \<open>label\<close>.
\<close>

theorem labeled_sample_keys:
  "(ModelNet_valid mn index \<longrightarrow> (\<exists>s st'. ModelNet_getitem fa mn st index = Inr (s, st')))
   \<and> (ModelNet_getitem fa mn st index = Inr (s1, st1) \<longrightarrow>
      (\<exists>points l st0. ModelNet_get_item fa mn st index = Inr ((points, l), st0)
         \<and> s1 ''pc'' = Some (take_rows points (fst (ModelNet_order mn st0 (rows_of points))))
         \<and> s1 ''label'' = Some (IntV l)))
   \<and> (item < length (son_data son) \<and> item < length (son_label son)
        \<and> son_label son ! item < length semantic_classes \<longrightarrow>
      (\<exists>s. ScanObjectNN_getitem son item = Inr s))
   \<and> (ScanObjectNN_getitem son item = Inr s2 \<longrightarrow>
      s2 ''pc'' = Some (Tensor2 (son_data son ! item))
      \<and> s2 ''label'' = Some (IntV (son_label son ! item)))
   \<and> (ShapeNet_getitem sn ev pst idx = Some (Inr (s3, pst')) \<longrightarrow>
      (\<exists>st0 idx0 data st1 l. idx0 < length (file_list sn)
         \<and> ShapeNet_points sn ev st0 idx0 = Inr (data, st1)
         \<and> s3 ''pc'' = Some data
         \<and> index_list sn (taxonomy_id (file_list sn ! idx0)) = Some l
         \<and> s3 ''target'' = Some (IntV l))
      \<and> s3 ''label'' = None)"
proof (intro conjI impI)
  assume "ModelNet_valid mn index"
  then show "\<exists>s st'. ModelNet_getitem fa mn st index = Inr (s, st')"
    by (rule ModelNet_getitem_ok)
next
  assume "ModelNet_getitem fa mn st index = Inr (s1, st1)"
  then show "\<exists>points l st0. ModelNet_get_item fa mn st index = Inr ((points, l), st0)
         \<and> s1 ''pc'' = Some (take_rows points (fst (ModelNet_order mn st0 (rows_of points))))
         \<and> s1 ''label'' = Some (IntV l)"
    by (rule ModelNet_keys)
next
  assume "item < length (son_data son) \<and> item < length (son_label son)
        \<and> son_label son ! item < length semantic_classes"
  then show "\<exists>s. ScanObjectNN_getitem son item = Inr s"
    using ScanObjectNN_returns by blast
next
  assume a: "ScanObjectNN_getitem son item = Inr s2"
  show "s2 ''pc'' = Some (Tensor2 (son_data son ! item))"
    using ScanObjectNN_keys [OF a] by (rule conjunct1)
  show "s2 ''label'' = Some (IntV (son_label son ! item))"
    using ScanObjectNN_keys [OF a] by (rule conjunct2)
next
  assume a: "ShapeNet_getitem sn ev pst idx = Some (Inr (s3, pst'))"
  show "\<exists>st0 idx0 data st1 l. idx0 < length (file_list sn)
         \<and> ShapeNet_points sn ev st0 idx0 = Inr (data, st1)
         \<and> s3 ''pc'' = Some data
         \<and> index_list sn (taxonomy_id (file_list sn ! idx0)) = Some l
         \<and> s3 ''target'' = Some (IntV l)"
    using ShapeNet_keys [OF a] by (rule conjunct1)
  show "s3 ''label'' = None"
    using ShapeNet_keys [OF a] by (rule conjunct2)
qed

theorem labeled_sample_keys_witness:
  "(ModelNet_valid example_modelnet 0
    \<and> (\<exists>s st'. ModelNet_getitem exact_arith example_modelnet (const_rng 0) 0 = Inr (s, st')))
   \<and> (ModelNet_getitem exact_arith example_modelnet (const_rng 0) 0
        = Inr (example_modelnet_sample, const_rng 0)
    \<and> (\<exists>points l st0.
          ModelNet_get_item exact_arith example_modelnet (const_rng 0) 0 = Inr ((points, l), st0)
          \<and> example_modelnet_sample ''pc''
              = Some (take_rows points (fst (ModelNet_order example_modelnet st0 (rows_of points))))
          \<and> example_modelnet_sample ''label'' = Some (IntV l)))
   \<and> ((0 < length (son_data example_scanobjectnn) \<and> 0 < length (son_label example_scanobjectnn)
        \<and> son_label example_scanobjectnn ! 0 < length semantic_classes)
    \<and> (\<exists>s. ScanObjectNN_getitem example_scanobjectnn 0 = Inr s))
   \<and> (ScanObjectNN_getitem example_scanobjectnn 0 =
      Inr [''pc'' \<mapsto> Tensor2 [[0, 0, 0], [2, 0, 0]],
           ''caption'' \<mapsto> Tokens (map of_char ''chair''), ''label'' \<mapsto> IntV 4]
    \<and> [''pc'' \<mapsto> Tensor2 [[0, 0, 0], [2, 0, 0]],
        ''caption'' \<mapsto> Tokens (map of_char ''chair''), ''label'' \<mapsto> IntV 4] ''pc''
         = Some (Tensor2 (son_data example_scanobjectnn ! 0))
    \<and> [''pc'' \<mapsto> Tensor2 [[0, 0, 0], [2, 0, 0]],
        ''caption'' \<mapsto> Tokens (map of_char ''chair''), ''label'' \<mapsto> IntV 4] ''label''
         = Some (IntV (son_label example_scanobjectnn ! 0)))
   \<and> (ShapeNet_getitem example_shapenet (example_env True) example_state 1
        = Some (Inr (example_sample, example_state))
    \<and> (\<exists>st0 idx0 data st1 l. idx0 < length (file_list example_shapenet)
          \<and> ShapeNet_points example_shapenet (example_env True) st0 idx0 = Inr (data, st1)
          \<and> example_sample ''pc'' = Some data
          \<and> index_list example_shapenet (taxonomy_id (file_list example_shapenet ! idx0)) = Some l
          \<and> example_sample ''target'' = Some (IntV l))
    \<and> example_sample ''label'' = None)"
proof -
  note T = labeled_sample_keys
    [where mn = example_modelnet and index = 0 and fa = exact_arith and st = "const_rng 0"
       and ?s1.0 = example_modelnet_sample and ?st1.0 = "const_rng 0"
       and son = example_scanobjectnn and item = 0
       and ?s2.0 = "[''pc'' \<mapsto> Tensor2 [[0, 0, 0], [2, 0, 0]],
                     ''caption'' \<mapsto> Tokens (map of_char ''chair''), ''label'' \<mapsto> IntV 4]"
       and sn = example_shapenet and ev = "example_env True" and pst = example_state and idx = 1
       and ?s3.0 = example_sample and pst' = example_state]
  have h: "0 < length (son_data example_scanobjectnn) \<and> 0 < length (son_label example_scanobjectnn)
        \<and> son_label example_scanobjectnn ! 0 < length semantic_classes"
    by (simp add: example_scanobjectnn_def semantic_classes_def)
  note m = ex_modelnet [of exact_arith]
  note c0 = T [THEN conjunct1, THEN mp, OF ex_valid]
  note c1 = T [THEN conjunct2, THEN conjunct1, THEN mp, OF m]
  note c2 = T [THEN conjunct2, THEN conjunct2, THEN conjunct1, THEN mp, OF h]
  note c3 = T [THEN conjunct2, THEN conjunct2, THEN conjunct2, THEN conjunct1, THEN mp,
      OF ex_scanobjectnn]
  note c4 = T [THEN conjunct2, THEN conjunct2, THEN conjunct2, THEN conjunct2, THEN mp,
      OF ex_getitem1]
  note p0 = conjI [OF ex_valid c0]
  note p1 = conjI [OF m c1]
  note p2 = conjI [OF h c2]
  note p3 = conjI [OF ex_scanobjectnn c3]
  note p4 = conjI [OF ex_getitem1 c4]
  show ?thesis
    by (rule conjI [OF p0 conjI [OF p1 conjI [OF p2 conjI [OF p3 p4]]]])
qed

text \<open>
  C2 as stated fails for ShapeNet: the sample that the call returns for the second item
  of the instance has no key \<open>label\<close>.
\<close>

theorem ShapeNet_sample_no_label_counterexample:
  "returns_sample (ShapeNet_getitem example_shapenet (example_env True) example_state 1)
   \<and> sample_of (ShapeNet_getitem example_shapenet (example_env True) example_state 1) ''label''
       = None"
  unfolding ex_getitem1 by (simp add: returns_sample_def sample_of_def example_sample_def)

end
